theory Spec2Isabelle
  imports Complex_Main
begin

section \<open>JavaScript numbers\<close>

text \<open>
  The service computes with JavaScript numbers, which are IEEE 754 doubles. A number is
  modelled as a finite real or one of the three special values, so that a division by
  zero is a value of the model (\<open>PInf\<close>, \<open>NInf\<close> or \<open>NaN\<close>) as it is in the
  program. The operations \<open>jadd\<close>, \<open>jsub\<close>, \<open>jmul\<close> and \<open>jdiv\<close> below give the
  exact result; the operations of the program, which round it to a double, follow
  them. The model has one zero: the sign of zero is left out.
\<close>

datatype jsnum = Fin real | PInf | NInf | NaN

fun jneg :: "jsnum \<Rightarrow> jsnum" where
  "jneg (Fin a) = Fin (- a)"
| "jneg PInf = NInf"
| "jneg NInf = PInf"
| "jneg NaN = NaN"

fun jadd :: "jsnum \<Rightarrow> jsnum \<Rightarrow> jsnum" where
  "jadd NaN _ = NaN"
| "jadd _ NaN = NaN"
| "jadd (Fin a) (Fin b) = Fin (a + b)"
| "jadd PInf NInf = NaN"
| "jadd NInf PInf = NaN"
| "jadd PInf _ = PInf"
| "jadd NInf _ = NInf"
| "jadd (Fin a) PInf = PInf"
| "jadd (Fin a) NInf = NInf"

definition jsub :: "jsnum \<Rightarrow> jsnum \<Rightarrow> jsnum" where
  "jsub a b = jadd a (jneg b)"

text \<open>The sign of a number: \<open>1\<close>, \<open>0\<close> or \<open>-1\<close>; \<open>NaN\<close> has none.\<close>

fun jsign :: "jsnum \<Rightarrow> int" where
  "jsign (Fin a) = (if a > 0 then 1 else if a < 0 then - 1 else 0)"
| "jsign PInf = 1"
| "jsign NInf = - 1"
| "jsign NaN = 0"

definition inf_of_sign :: "int \<Rightarrow> jsnum" where
  "inf_of_sign s = (if s > 0 then PInf else if s < 0 then NInf else NaN)"

fun jmul :: "jsnum \<Rightarrow> jsnum \<Rightarrow> jsnum" where
  "jmul NaN _ = NaN"
| "jmul _ NaN = NaN"
| "jmul (Fin a) (Fin b) = Fin (a * b)"
| "jmul a b = inf_of_sign (jsign a * jsign b)"

text \<open>
  Division: a finite quotient when the divisor is a non-zero finite number; \<open>x / 0\<close>
  is an infinity with the sign of \<open>x\<close>, and \<open>0 / 0\<close> is \<open>NaN\<close> (the zero divisor
  counts as positive zero).
\<close>

fun jdiv :: "jsnum \<Rightarrow> jsnum \<Rightarrow> jsnum" where
  "jdiv NaN _ = NaN"
| "jdiv _ NaN = NaN"
| "jdiv (Fin a) (Fin b) = (if b = 0 then inf_of_sign (jsign (Fin a)) else Fin (a / b))"
| "jdiv (Fin a) _ = Fin 0"
| "jdiv PInf (Fin b) = (if b < 0 then NInf else PInf)"
| "jdiv NInf (Fin b) = (if b < 0 then PInf else NInf)"
| "jdiv _ _ = NaN"

fun jabs :: "jsnum \<Rightarrow> jsnum" where
  "jabs (Fin a) = Fin \<bar>a\<bar>"
| "jabs PInf = PInf"
| "jabs NInf = PInf"
| "jabs NaN = NaN"

text \<open>The comparison \<open>a <= b\<close>: false as soon as one side is \<open>NaN\<close>.\<close>

fun jle :: "jsnum \<Rightarrow> jsnum \<Rightarrow> bool" where
  "jle NaN _ = False"
| "jle _ NaN = False"
| "jle (Fin a) (Fin b) = (a \<le> b)"
| "jle NInf _ = True"
| "jle _ PInf = True"
| "jle _ _ = False"

definition jge :: "jsnum \<Rightarrow> jsnum \<Rightarrow> bool" where
  "jge a b = jle b a"

text \<open>\<open>Math.max\<close> and \<open>Math.min\<close> of two numbers: \<open>NaN\<close> if one of them is.\<close>

definition Math_max :: "jsnum \<Rightarrow> jsnum \<Rightarrow> jsnum" where
  "Math_max a b = (if a = NaN \<or> b = NaN then NaN else if jle a b then b else a)"

definition Math_min :: "jsnum \<Rightarrow> jsnum \<Rightarrow> jsnum" where
  "Math_min a b = (if a = NaN \<or> b = NaN then NaN else if jle a b then a else b)"

text \<open>\<open>Math.round\<close>: the nearest integer, a tie going up; the special values stay.\<close>

fun Math_round :: "jsnum \<Rightarrow> jsnum" where
  "Math_round (Fin a) = Fin (of_int \<lfloor>a + 1 / 2\<rfloor>)"
| "Math_round x = x"

text \<open>Truthiness of a number: \<open>0\<close> and \<open>NaN\<close> are falsy.\<close>

fun num_truthy :: "jsnum \<Rightarrow> bool" where
  "num_truthy (Fin a) = (a \<noteq> 0)"
| "num_truthy NaN = False"
| "num_truthy _ = True"

subsection \<open>Rounding to a double\<close>

text \<open>
  \<open>rne q\<close> is the integer nearest to \<open>q\<close>, a tie going to the even one. A positive
  real \<open>x\<close> lies in the binade \<open>2^e \<le> x < 2^(e+1)\<close>; the doubles of that binade
  are the multiples of \<open>2^(e-52)\<close>, and below the smallest normal number \<open>2^-1022\<close>
  they are the multiples of \<open>2^-1074\<close>. \<open>double x\<close> is the multiple nearest to \<open>x\<close>,
  ties to even: the double that the program computes for an exact result \<open>x\<close> as long
  as it does not overflow. \<open>fl64 x\<close> is that double, or an infinity when the rounded
  value lies beyond the largest double.
\<close>

definition rne :: "real \<Rightarrow> int" where
  "rne q = (let f = \<lfloor>q\<rfloor> in
            if q - of_int f < 1 / 2 then f
            else if 1 / 2 < q - of_int f then f + 1
            else if even f then f else f + 1)"

definition binade :: "real \<Rightarrow> int" where
  "binade x = max \<lfloor>log 2 x\<rfloor> (- 1022)"

definition ulp :: "real \<Rightarrow> real" where
  "ulp x = 2 powr (of_int (binade x) - 52)"

definition double :: "real \<Rightarrow> real" where
  "double x = (if x = 0 then 0
               else if 0 < x then of_int (rne (x / ulp x)) * ulp x
               else - (of_int (rne (- x / ulp (- x))) * ulp (- x)))"

definition max_double :: real where
  "max_double = (2 ^ 53 - 1) * 2 ^ 971"

definition fl64 :: "real \<Rightarrow> jsnum" where
  "fl64 x = (if max_double < double x then PInf
             else if double x < - max_double then NInf
             else Fin (double x))"

fun rnd :: "jsnum \<Rightarrow> jsnum" where
  "rnd (Fin a) = fl64 a"
| "rnd x = x"

text \<open>
  The operators \<open>+\<close>, \<open>-\<close>, \<open>*\<close> and \<open>/\<close> of the program: the exact result,
  rounded. \<open>lit x\<close> is the number a decimal literal \<open>x\<close> of the source denotes.
\<close>

definition fadd :: "jsnum \<Rightarrow> jsnum \<Rightarrow> jsnum" where
  "fadd a b = rnd (jadd a b)"

definition fsub :: "jsnum \<Rightarrow> jsnum \<Rightarrow> jsnum" where
  "fsub a b = rnd (jsub a b)"

definition fmul :: "jsnum \<Rightarrow> jsnum \<Rightarrow> jsnum" where
  "fmul a b = rnd (jmul a b)"

definition fdiv :: "jsnum \<Rightarrow> jsnum \<Rightarrow> jsnum" where
  "fdiv a b = rnd (jdiv a b)"

abbreviation lit :: "real \<Rightarrow> jsnum" where
  "lit x \<equiv> Fin (double x)"

section \<open>Sessions and the streak\<close>

text \<open>
  A session as the statistics read it. \<open>date\<close> is the time value of
  \<open>new Date(session.date)\<close> in milliseconds (\<open>NaN\<close> for a date that does not parse);
  \<open>rating_overall\<close> is \<open>session.rating.overall\<close> of the rating object that
  \<open>addSession\<close> builds.
\<close>

record session =
  date :: jsnum
  rating_overall :: jsnum

definition ms_per_day :: real where
  "ms_per_day = 1000 * 60 * 60 * 24"

text \<open>
  The loop of \<open>calculateStreak\<close>, from index \<open>i\<close> with the streak counted so far:
  it compares \<open>sessions[i-1]\<close> with \<open>sessions[i]\<close> and leaves at the first pair
  more than seven days apart. Time values are whole numbers of milliseconds; their
  difference and its quotient by the length of a day are computed exactly here.
\<close>

function streak_loop :: "session list \<Rightarrow> nat \<Rightarrow> nat \<Rightarrow> nat" where
  "streak_loop sessions i streak =
     (if i < length sessions then
        (let prev = date (sessions ! (i - 1));
             curr = date (sessions ! i);
             diffDays = jdiv (jabs (jsub curr prev)) (Fin ms_per_day)
         in if jle diffDays (Fin 7) then streak_loop sessions (i + 1) (streak + 1)
            else streak)
      else streak)"
  by pat_completeness auto
termination
  by (relation "measure (\<lambda>(sessions, i, streak). length sessions - i)") auto

declare streak_loop.simps [simp del]

definition calculateStreak :: "session list \<Rightarrow> nat" where
  "calculateStreak sessions =
     (if length sessions = 0 then 0 else streak_loop sessions 1 1)"

text \<open>
  The streak in the words of the specification, over the time values of the sessions
  (most recent first): no session gives 0; otherwise the first session counts, and
  each next one as long as it is at most seven days from the one before it.
\<close>

definition week_apart :: "real \<times> real \<Rightarrow> bool" where
  "week_apart p = (\<bar>snd p - fst p\<bar> \<le> 7 * ms_per_day)"

definition spec_streak :: "real list \<Rightarrow> nat" where
  "spec_streak ts =
     (if ts = [] then 0 else Suc (length (takeWhile week_apart (zip ts (tl ts)))))"

section \<open>JavaScript values and the merge utility\<close>

text \<open>
  Profiles, user data and updates are plain JavaScript data. An object is the list of
  its own properties in insertion order; a property is read by its key (the first
  entry with that key). JavaScript lists keys that spell an array index before the
  others; the properties proved below read objects by key and do not depend on the
  order. Values are compared by content; the model has no object identity. A string is
  the list of its characters, of code below 256. Every object of the model has the
  prototype \<open>Object.prototype\<close>, whose properties are part of the model where the
  program reads an object under a key that comes from the data (see \<open>lookup\<close> below).
\<close>

datatype json =
    JUndefined
  | JNull
  | JBool bool
  | JNum jsnum
  | JStr string
  | JArr "json list"
  | JObj "(string \<times> json) list"

text \<open>\<open>isObject(item)\<close>: a non-null value of type object that is not an array.\<close>

fun isObject :: "json \<Rightarrow> bool" where
  "isObject (JObj kvs) = True"
| "isObject _ = False"

text \<open>Truthiness, as \<open>||\<close>, \<open>&&\<close> and \<open>if\<close> test it.\<close>

fun truthy :: "json \<Rightarrow> bool" where
  "truthy JUndefined = False"
| "truthy JNull = False"
| "truthy (JBool b) = b"
| "truthy (JNum n) = num_truthy n"
| "truthy (JStr s) = (s \<noteq> [])"
| "truthy (JArr xs) = True"
| "truthy (JObj kvs) = True"

definition or_else :: "json \<Rightarrow> json \<Rightarrow> json" where
  "or_else a b = (if truthy a then a else b)"

text \<open>
  \<open>get v key\<close> is the value of the own property \<open>key\<close> of an object, \<open>undefined\<close>
  when the object has none or \<open>v\<close> is a primitive or an array. It is the read
  \<open>v[key]\<close> for a key the object has itself, and for every key that is not a
  property of \<open>Object.prototype\<close>, of strings or of arrays: so for every key the
  service spells out.
\<close>

fun get :: "json \<Rightarrow> string \<Rightarrow> json" where
  "get (JObj kvs) key = (case map_of kvs key of Some v \<Rightarrow> v | None \<Rightarrow> JUndefined)"
| "get _ key = JUndefined"

text \<open>
  \<open>has_key v key\<close>: the object \<open>v\<close> has \<open>key\<close> as an own property; and
  \<open>Object.keys(v)\<close>.
\<close>

fun has_key :: "json \<Rightarrow> string \<Rightarrow> bool" where
  "has_key (JObj kvs) key = (key \<in> fst ` set kvs)"
| "has_key _ key = False"

fun Object_keys :: "json \<Rightarrow> string list" where
  "Object_keys (JObj kvs) = map fst kvs"
| "Object_keys _ = []"

text \<open>
  Writing a property: an existing key keeps its place and takes the new value, a new
  key goes to the end.
\<close>

fun set_prop :: "(string \<times> json) list \<Rightarrow> string \<Rightarrow> json \<Rightarrow> (string \<times> json) list" where
  "set_prop [] key v = [(key, v)]"
| "set_prop ((k, w) # kvs) key v =
     (if k = key then (k, v) # kvs else (k, w) # set_prop kvs key v)"

text \<open>The decimal numeral of an array index, as a property key.\<close>

definition digit :: "nat \<Rightarrow> char" where
  "digit d = ''0123456789'' ! d"

function decimal :: "nat \<Rightarrow> string" where
  "decimal n = (if n < 10 then [digit n] else decimal (n div 10) @ [digit (n mod 10)])"
  by pat_completeness auto
termination
  by (relation "measure id") auto

declare decimal.simps [simp del]

text \<open>
  The own enumerable properties that \<open>Object.assign\<close> copies from a source, each key
  with the value read under it: the properties of an object, the elements of an array
  under their indices, the characters of a string under their indices, and nothing
  from \<open>undefined\<close>, \<open>null\<close>, a boolean or a number. \<open>Object.assign\<close> writes
  them to the output one after the other.
\<close>

fun own_props :: "json \<Rightarrow> (string \<times> json) list" where
  "own_props (JObj kvs) = map (\<lambda>key. (key, get (JObj kvs) key)) (Object_keys (JObj kvs))"
| "own_props (JArr xs) = zip (map decimal [0..<length xs]) xs"
| "own_props (JStr s) = zip (map decimal [0..<length s]) (map (\<lambda>c. JStr [c]) s)"
| "own_props _ = []"

definition Object_assign :: "(string \<times> json) list \<Rightarrow> json \<Rightarrow> (string \<times> json) list" where
  "Object_assign output src = fold (\<lambda>kv out. set_prop out (fst kv) (snd kv)) (own_props src) output"

lemma size_get_less:
  "key \<in> set (Object_keys source) \<Longrightarrow> size (get source key) < size source"
proof (cases source)
  case (JObj kvs)
  have "\<And>v. map_of kvs key = Some v \<Longrightarrow> size v < Suc (size_list (size_prod (\<lambda>_. 0) size) kvs)"
    by (induction kvs) (auto split: if_splits)
  moreover assume "key \<in> set (Object_keys source)"
  ultimately show ?thesis
    using JObj by (auto split: option.splits simp: map_of_eq_None_iff)
qed auto

text \<open>
  \<open>deepMerge\<close> reads its target under the keys of the update, which come from the
  caller: \<open>key in target\<close> and \<open>target[key]\<close> also find the properties that every
  object inherits from \<open>Object.prototype\<close>. Such a read yields a value of the data, a
  built-in function (\<open>Builtin key\<close>, the function that \<open>Object.prototype\<close> holds
  under \<open>key\<close>) or, under \<open>__proto__\<close>, the object \<open>Object.prototype\<close> itself.
\<close>

datatype jsval = Data json | Builtin string | Object_prototype

definition Object_prototype_keys :: "string list" where
  "Object_prototype_keys =
     [''constructor'', ''__defineGetter__'', ''__defineSetter__'', ''hasOwnProperty'',
      ''__lookupGetter__'', ''__lookupSetter__'', ''isPrototypeOf'', ''propertyIsEnumerable'',
      ''toString'', ''valueOf'', ''__proto__'', ''toLocaleString'']"

text \<open>What a plain object inherits under a key it does not have itself.\<close>

definition inherited :: "string \<Rightarrow> jsval" where
  "inherited key =
     (if key = ''__proto__'' then Object_prototype
      else if key \<in> set Object_prototype_keys then Builtin key
      else Data JUndefined)"

text \<open>
  \<open>key in target\<close> and \<open>target[key]\<close> for a target that passed \<open>isObject\<close>: an
  object of the data or \<open>Object.prototype\<close>, whose own prototype is \<open>null\<close>.
\<close>

fun key_in :: "jsval \<Rightarrow> string \<Rightarrow> bool" where
  "key_in (Data (JObj kvs)) key = (has_key (JObj kvs) key \<or> key \<in> set Object_prototype_keys)"
| "key_in Object_prototype key = (key \<in> set Object_prototype_keys)"
| "key_in v key = False"

fun lookup :: "jsval \<Rightarrow> string \<Rightarrow> jsval" where
  "lookup (Data (JObj kvs)) key =
     (if has_key (JObj kvs) key then Data (get (JObj kvs) key) else inherited key)"
| "lookup Object_prototype key =
     (if key = ''__proto__'' then Data JNull
      else if key \<in> set Object_prototype_keys then Builtin key
      else Data JUndefined)"
| "lookup v key = Data JUndefined"

text \<open>
  \<open>isObject\<close> and the properties \<open>Object.assign\<close> copies, for such a value: a
  function is not of type object, and neither a built-in function nor
  \<open>Object.prototype\<close> has an enumerable property.
\<close>

fun is_object :: "jsval \<Rightarrow> bool" where
  "is_object (Data v) = isObject v"
| "is_object Object_prototype = True"
| "is_object (Builtin f) = False"

fun copy_of :: "jsval \<Rightarrow> (string \<times> json) list" where
  "copy_of (Data v) = Object_assign [] v"
| "copy_of v = []"

text \<open>
  \<open>deepMerge(target, source)\<close>. The output starts as a copy of the target's own
  properties. When both arguments are objects, each key of the source is written to the
  output: an object value is assigned as it is when \<open>key in target\<close> is false and is
  merged with \<open>target[key]\<close> otherwise; any other value is assigned as it is.
  \<open>deepMerge_from\<close> is the function with everything for a target that the recursive
  call can be given; \<open>deepMerge\<close> is the function on the data.

  A write under the key \<open>__proto__\<close> sets the prototype of the output instead of a
  property. The model has no objects with another prototype than \<open>Object.prototype\<close>
  and writes a property; the properties proved leave that key out.
\<close>

function deepMerge_from :: "jsval \<Rightarrow> json \<Rightarrow> json" where
  "deepMerge_from target source =
     (let output = copy_of target in
      if is_object target \<and> isObject source then
        JObj (fold (\<lambda>key output.
                if isObject (get source key) then
                  (if \<not> key_in target key
                   then Object_assign output (JObj [(key, get source key)])
                   else set_prop output key (deepMerge_from (lookup target key) (get source key)))
                else Object_assign output (JObj [(key, get source key)]))
              (Object_keys source) output)
      else JObj output)"
  by pat_completeness auto
termination
  by (relation "measure (\<lambda>(target, source). size source)") (auto simp: size_get_less)

declare deepMerge_from.simps [simp del]

definition deepMerge :: "json \<Rightarrow> json \<Rightarrow> json" where
  "deepMerge target source = deepMerge_from (Data target) source"

section \<open>The scoring engine\<close>

text \<open>
  The fields of the profile and of the conditions that \<open>calculateAdvancedSpotScore\<close>
  reads, as numbers. \<open>wave_min\<close>, \<open>wave_max\<close> and \<open>wave_optimal\<close> are
  \<open>preferences.waveSize.min\<close>, \<open>.max\<close> and \<open>.optimal\<close>; \<open>onshore\<close> is
  \<open>preferences.windTolerance.onshore\<close>; \<open>overall\<close> and \<open>sessionsCount\<close> are
  \<open>surfLevel.overall\<close> and \<open>surfLevel.experience.sessionsCount\<close>. \<open>crowd\<close> is
  \<open>None\<close> when \<open>conditions.crowd\<close> is missing.
\<close>

record surfer =
  wave_min :: jsnum
  wave_max :: jsnum
  wave_optimal :: jsnum
  onshore :: jsnum
  crowdTolerance :: string
  overall :: jsnum
  sessionsCount :: jsnum

record conditions =
  waveHeight :: jsnum
  windSpeed :: jsnum
  crowd :: "string option"

datatype error =
    TypeError string
  | SyntaxError string
  | StoreError string
  | Error string

definition crowdFactors :: "(string \<times> (string \<times> jsnum) list) list" where
  "crowdFactors =
     [(''low'', [(''low'', Fin 1), (''medium'', lit 0.9), (''high'', lit 0.8)]),
      (''medium'', [(''low'', lit 0.9), (''medium'', Fin 1), (''high'', lit 0.7)]),
      (''high'', [(''low'', lit 0.8), (''medium'', lit 0.9), (''high'', Fin 1)])]"

text \<open>
  The factor \<open>crowdFactors[tolerance][crowd] || 1\<close> that multiplies the score. Reading
  a property of the missing row of an unknown tolerance is a \<open>TypeError\<close>. A crowd
  level the row does not have gives 1, unless it names a property the row inherits
  from \<open>Object.prototype\<close>: that property is a function or an object, it is truthy,
  and the product of the score with it is \<open>NaN\<close>. For a tolerance that itself names a
  property of \<open>Object.prototype\<close> the row read is a built-in object of the engine;
  the model does not have the properties of these objects and treats such a tolerance
  like any other that the table lacks.
\<close>

definition crowd_factor :: "string \<Rightarrow> string \<Rightarrow> error + jsnum" where
  "crowd_factor tolerance c =
     (case map_of crowdFactors tolerance of
        None \<Rightarrow> Inl (TypeError ''Cannot read properties of undefined'')
      | Some row \<Rightarrow>
          (case map_of row c of
             Some f \<Rightarrow> Inr (if num_truthy f then f else Fin 1)
           | None \<Rightarrow> if c \<in> set Object_prototype_keys then Inr NaN else Inr (Fin 1)))"

text \<open>
  The wave-size factor: inside the range of the profile the score is multiplied by
  \<open>0.5 + 0.5 * waveFactor\<close>, outside by the penalty \<open>0.3\<close>. The numbers \<open>0.5\<close>,
  \<open>1\<close>, \<open>5\<close>, \<open>10\<close> and \<open>100\<close> of the source are doubles; \<open>0.2\<close>, \<open>0.3\<close>,
  \<open>0.6\<close> and the crowd factors are not and stand for the doubles nearest to them.
\<close>

definition wave_step :: "surfer \<Rightarrow> conditions \<Rightarrow> jsnum \<Rightarrow> jsnum" where
  "wave_step u c score =
     (let waveOptimal = wave_optimal u;
          waveHeight = waveHeight c;
          waveRange = fsub (wave_max u) (wave_min u)
      in if jge waveHeight (wave_min u) \<and> jle waveHeight (wave_max u) then
           (let distanceFromOptimal = jabs (fsub waveHeight waveOptimal);
                waveFactor = fsub (Fin 1) (fdiv distanceFromOptimal waveRange)
            in fmul score (fadd (Fin 0.5) (fmul (Fin 0.5) waveFactor)))
         else fmul score (lit 0.3))"

definition wind_step :: "surfer \<Rightarrow> conditions \<Rightarrow> jsnum \<Rightarrow> jsnum" where
  "wind_step u c score =
     (let windTolerance = onshore u;
          windFactor = Math_max (lit 0.2) (fsub (Fin 1) (fdiv (windSpeed c) windTolerance))
      in fmul score windFactor)"

definition level_step :: "surfer \<Rightarrow> jsnum \<Rightarrow> jsnum" where
  "level_step u score =
     (let levelFactor = Math_min (Fin 1) (fdiv (overall u) (Fin 10));
          experienceFactor = Math_min (Fin 1) (fdiv (sessionsCount u) (Fin 100))
      in fmul score
           (fadd (fadd (lit 0.6) (fmul (lit 0.2) levelFactor)) (fmul (lit 0.2) experienceFactor)))"

definition crowd_step :: "surfer \<Rightarrow> conditions \<Rightarrow> jsnum \<Rightarrow> error + jsnum" where
  "crowd_step u c score =
     (case crowd c of
        None \<Rightarrow> Inr score
      | Some cr \<Rightarrow>
          (if cr = [] then Inr score
           else (case crowd_factor (crowdTolerance u) cr of
                   Inl e \<Rightarrow> Inl e
                 | Inr f \<Rightarrow> Inr (fmul score f))))"

text \<open>The value of the variable \<open>score\<close> when the function reaches its \<open>return\<close>.\<close>

definition score_before_rounding :: "surfer \<Rightarrow> conditions \<Rightarrow> error + jsnum" where
  "score_before_rounding u c =
     crowd_step u c (level_step u (wind_step u c (wave_step u c (Fin 5))))"

text \<open>\<open>Math.round(score * 10) / 10\<close>.\<close>

definition round1 :: "jsnum \<Rightarrow> jsnum" where
  "round1 score = fdiv (Math_round (fmul score (Fin 10))) (Fin 10)"

definition calculateAdvancedSpotScore :: "surfer \<Rightarrow> conditions \<Rightarrow> error + jsnum" where
  "calculateAdvancedSpotScore u c =
     (case score_before_rounding u c of Inl e \<Rightarrow> Inl e | Inr score \<Rightarrow> Inr (round1 score))"

section \<open>Reading properties that may throw\<close>

text \<open>
  \<open>read_prop v key\<close> is the read \<open>v.key\<close>: a \<open>TypeError\<close> when \<open>v\<close> is \<open>undefined\<close> or
  \<open>null\<close>. \<open>path v keys\<close> is the chain \<open>v.k1.k2...\<close>, and \<open>js_length v\<close> is
  \<open>v.length\<close>.
\<close>

fun read_prop :: "json \<Rightarrow> string \<Rightarrow> error + json" where
  "read_prop JUndefined key = Inl (TypeError ''Cannot read properties of undefined'')"
| "read_prop JNull key = Inl (TypeError ''Cannot read properties of null'')"
| "read_prop v key = Inr (get v key)"

fun path :: "json \<Rightarrow> string list \<Rightarrow> error + json" where
  "path v [] = Inr v"
| "path v (key # keys) = (case read_prop v key of Inl e \<Rightarrow> Inl e | Inr w \<Rightarrow> path w keys)"

text \<open>
  A number of the data that is a double as it is written; one that is not is written
  \<open>JNum (lit x)\<close>.
\<close>

abbreviation num :: "real \<Rightarrow> json" where
  "num x \<equiv> JNum (Fin x)"

fun js_length :: "json \<Rightarrow> error + json" where
  "js_length JUndefined = Inl (TypeError ''Cannot read properties of undefined'')"
| "js_length JNull = Inl (TypeError ''Cannot read properties of null'')"
| "js_length (JArr xs) = Inr (num (real (length xs)))"
| "js_length (JStr s) = Inr (num (real (length s)))"
| "js_length v = Inr (get v ''length'')"

fun message :: "error \<Rightarrow> string" where
  "message (TypeError m) = m"
| "message (SyntaxError m) = m"
| "message (StoreError m) = m"
| "message (Error m) = m"

section \<open>The store client, the clock and the state of the service\<close>

text \<open>
  The durable store is outside the program. A call of its client, once awaited, either
  throws (\<open>Rejects\<close>) or yields a response object with a \<open>data\<close> and an \<open>error\<close>
  field (\<open>Resolves\<close>); \<open>None\<close> stands for \<open>null\<close>. The client is a record of what
  the store answers to each query at the time of the operation; \<open>this.supabase\<close> is a
  \<open>client option\<close>, \<open>None\<close> when no key is configured.
\<close>

datatype 'a outcome = Rejects error | Resolves 'a

record 'a response =
  rdata :: "'a option"
  rerror :: "string option"

text \<open>
  The text in the column \<open>extended_data\<close>, by what \<open>JSON.parse\<close> makes of it: a
  \<open>SyntaxError\<close>, or the value it denotes.
\<close>

datatype json_text = Malformed | Encodes json

record client =
  select_user_profile :: "json \<Rightarrow> json response outcome"
  select_extended_profile :: "json \<Rightarrow> json_text response outcome"
  upsert_user_profile :: "json \<Rightarrow> json response outcome"
  upsert_extended_profile :: "json \<Rightarrow> json \<Rightarrow> json response outcome"
  select_sessions :: "json \<Rightarrow> int \<Rightarrow> int \<Rightarrow> json list response outcome"
  count_favorite_spots :: "json \<Rightarrow> nat option outcome"
  count_boards :: "json \<Rightarrow> nat option outcome"

text \<open>
  The calls the service makes to the store, in order. An upsert of the basic table
  carries its row; an upsert of the extended table carries the user id and the profile
  whose \<open>JSON.stringify\<close> is the row's \<open>extended_data\<close>.
\<close>

datatype event =
    Select_user_profile json
  | Select_extended_profile json
  | Upsert_user_profile json
  | Upsert_extended_profile json json
  | Select_sessions json int int
  | Count_favorite_spots json
  | Count_boards json

text \<open>
  What an operation reads from outside: the clock (\<open>Date.now()\<close> in milliseconds,
  \<open>new Date().toISOString()\<close> as text), \<open>generateId()\<close> and \<open>Math.random()\<close>, one
  field per place of the source that reads it.
\<close>

record readings =
  now_check :: int
  now_refresh :: int
  now_store :: int
  iso_created :: string
  iso_updated :: string
  iso_stamp :: string
  fresh_id :: string
  random_try :: real
  random_catch_predictions :: real
  random_catch_streak :: real

record cache_entry =
  data :: json
  timestamp :: int

text \<open>
  The maps of the service: \<open>profilesCache\<close>, \<open>memoryDB.users\<close> and (in insertion
  order) the sessions of \<open>memoryDB.sessions\<close>, each session with its \<open>userId\<close>.
\<close>

record state =
  profilesCache :: "json \<rightharpoonup> cache_entry"
  users :: "json \<rightharpoonup> json"
  sessions :: "(json \<times> session) list"

definition cacheTimeout :: int where
  "cacheTimeout = 5 * 60 * 1000"

text \<open>What an operation returns, the state it leaves and the store calls it made.\<close>

record 'a run =
  returned :: 'a
  final :: state
  calls :: "event list"

section \<open>Building profiles\<close>

definition getDefaultSchedule :: json where
  "getDefaultSchedule =
     (let off = JObj [(''available'', JBool False), (''timeSlots'', JArr [])];
          on = JObj [(''available'', JBool True),
                     (''timeSlots'', JArr [JStr ''06:00-12:00'', JStr ''14:00-18:00''])]
      in JObj [(''monday'', off), (''tuesday'', off), (''wednesday'', off), (''thursday'', off),
               (''friday'', off), (''saturday'', on), (''sunday'', on)])"

definition buildCompleteProfile :: "readings \<Rightarrow> json \<Rightarrow> json \<Rightarrow> json" where
  "buildCompleteProfile r userId userData =
     JObj [
       (''id'', userId),
       (''createdAt'', JStr (iso_created r)),
       (''updatedAt'', JStr (iso_updated r)),
       (''personal'', JObj [
          (''name'', or_else (get userData ''name'') (JStr [])),
          (''email'', or_else (get userData ''email'') (JStr [])),
          (''location'', or_else (get userData ''location'') (JStr [])),
          (''timezone'', or_else (get userData ''timezone'') (JStr ''Europe/Paris''))]),
       (''surfLevel'', JObj [
          (''overall'', or_else (or_else (get userData ''surfLevel'') (get userData ''level'')) (num 1)),
          (''progression'', JObj [
             (''paddling'', or_else (get userData ''paddling'') (num 1)),
             (''takeoff'', or_else (get userData ''takeoff'') (num 1)),
             (''turning'', or_else (get userData ''turning'') (num 1)),
             (''tubeRiding'', or_else (get userData ''tubeRiding'') (num 1))]),
          (''experience'', JObj [
             (''yearsActive'', or_else (get userData ''yearsActive'') (num 0)),
             (''sessionsCount'', num 0),
             (''lastSession'', JNull)])]),
       (''equipment'', JObj [
          (''boards'', or_else (get userData ''boards'') (JArr [])),
          (''suits'', or_else (get userData ''suits'') (JArr [])),
          (''accessories'', or_else (get userData ''accessories'') (JArr []))]),
       (''preferences'', JObj [
          (''waveSize'', JObj [
             (''min'', or_else (or_else (get userData ''minWaveSize'') (get userData ''wave_min'')) (JNum (lit 0.3))),
             (''max'', or_else (or_else (get userData ''maxWaveSize'') (get userData ''wave_max'')) (num 2.0)),
             (''optimal'', or_else (or_else (get userData ''optimalWaveSize'')
                                      (get userData ''optimal_wave_size'')) (JNum (lit 1.2)))]),
          (''windTolerance'', JObj [
             (''onshore'', or_else (get userData ''onshoreWind'') (num 15)),
             (''offshore'', or_else (get userData ''offshoreWind'') (num 25)),
             (''sideshore'', or_else (get userData ''sideshoreWind'') (num 20))]),
          (''crowdTolerance'', or_else (get userData ''crowdTolerance'') (JStr ''medium'')),
          (''waterTemp'', JObj [
             (''min'', or_else (get userData ''minWaterTemp'') (num 12))])]),
       (''spots'', JObj [
          (''favorites'', or_else (get userData ''favoriteSpots'') (JArr [])),
          (''history'', JArr []),
          (''blacklist'', or_else (get userData ''blacklistedSpots'') (JArr []))]),
       (''availability'', JObj [
          (''schedule'', or_else (get userData ''schedule'') getDefaultSchedule),
          (''travelDistance'', or_else (get userData ''maxTravelDistance'') (num 30)),
          (''notificationPrefs'', JObj [
             (''advance'', or_else (get userData ''notificationAdvance'') (num 24)),
             (''types'', or_else (get userData ''notificationTypes'')
                           (JArr [JStr ''optimal'', JStr ''alternative'']))])]),
       (''goals'', JObj [
          (''current'', or_else (get userData ''currentGoals'') (JArr [])),
          (''achievements'', JArr []),
          (''progressTracking'', JObj [
             (''sessionsThisMonth'', num 0),
             (''progressionPoints'', num 0),
             (''challengesCompleted'', JArr [])])])]"

definition getDefaultProfile :: "readings \<Rightarrow> json \<Rightarrow> json" where
  "getDefaultProfile r userId =
     buildCompleteProfile r userId
       (JObj [(''name'', JStr ''SurfAI User''),
              (''email'', JStr []),
              (''location'', JStr ''Biarritz, France''),
              (''surfLevel'', num 3),
              (''minWaveSize'', JNum (lit 0.8)),
              (''maxWaveSize'', num 2.5),
              (''optimalWaveSize'', JNum (lit 1.2))])"

text \<open>A complete profile is an object that has every section \<open>buildCompleteProfile\<close> writes.\<close>

definition profile_sections :: "string list" where
  "profile_sections =
     [''id'', ''createdAt'', ''updatedAt'', ''personal'', ''surfLevel'', ''equipment'',
      ''preferences'', ''spots'', ''availability'', ''goals'']"

definition complete_profile :: "json \<Rightarrow> bool" where
  "complete_profile p = (isObject p \<and> list_all (has_key p) profile_sections)"

section \<open>The tiered profile repository\<close>

subsection \<open>The conversion of a value to a number\<close>

text \<open>
  \<open>convertLevelToCategory\<close> compares the level with numbers, and the comparison
  converts a level that is not a number. A string is read as a numeric literal: white
  space around it is dropped, the empty string is 0, and a text that is no literal is
  \<open>NaN\<close>. The literals are \<open>Infinity\<close> and the decimal ones, with an optional sign,
  and the unsigned binary, octal and hexadecimal integers; the number is the double
  nearest to the value written.
\<close>

definition white_space :: "char \<Rightarrow> bool" where
  "white_space ch =
     (ch \<in> set [CHR 0x09, CHR 0x0A, CHR 0x0B, CHR 0x0C, CHR 0x0D, CHR 0x20, CHR 0xA0])"

definition trim :: "string \<Rightarrow> string" where
  "trim s = rev (dropWhile white_space (rev (dropWhile white_space s)))"

text \<open>The value of a digit in a base up to 16, \<open>None\<close> for any other character.\<close>

definition digit_value :: "nat \<Rightarrow> char \<Rightarrow> nat option" where
  "digit_value base ch =
     (let code = (of_char ch :: nat);
          v = (if 48 \<le> code \<and> code \<le> 57 then code - 48
               else if 97 \<le> code \<and> code \<le> 102 then code - 87
               else if 65 \<le> code \<and> code \<le> 70 then code - 55
               else 16)
      in if v < base then Some v else None)"

definition is_digit :: "char \<Rightarrow> bool" where
  "is_digit ch = (digit_value 10 ch \<noteq> None)"

text \<open>The number a non-empty text of digits spells in a base, \<open>None\<close> for any other text.\<close>

definition digits :: "nat \<Rightarrow> string \<Rightarrow> nat option" where
  "digits base s =
     (if s \<noteq> [] \<and> list_all (\<lambda>ch. digit_value base ch \<noteq> None) s
      then Some (foldl (\<lambda>a ch. a * base + the (digit_value base ch)) 0 s)
      else None)"

text \<open>The exponent after \<open>e\<close>: digits with an optional sign.\<close>

definition signed_integer :: "string \<Rightarrow> int option" where
  "signed_integer s =
     (if s \<noteq> [] \<and> hd s = CHR ''-'' then map_option (\<lambda>n. - int n) (digits 10 (tl s))
      else if s \<noteq> [] \<and> hd s = CHR ''+'' then map_option int (digits 10 (tl s))
      else map_option int (digits 10 s))"

text \<open>
  An unsigned decimal literal: digits, an optional point with digits after it, an
  optional exponent, with a digit before or after the point.
\<close>

definition decimal_literal :: "string \<Rightarrow> real option" where
  "decimal_literal s =
     (let whole = takeWhile is_digit s;
          r1 = dropWhile is_digit s;
          pointed = (r1 \<noteq> [] \<and> hd r1 = CHR ''.'');
          fraction = (if pointed then takeWhile is_digit (tl r1) else []);
          r2 = (if pointed then dropWhile is_digit (tl r1) else r1)
      in case digits 10 (whole @ fraction) of
           None \<Rightarrow> None
         | Some n \<Rightarrow>
             (let mantissa = real n / 10 ^ length fraction
              in if r2 = [] then Some mantissa
                 else if hd r2 = CHR ''e'' \<or> hd r2 = CHR ''E'' then
                   map_option (\<lambda>ex. mantissa * 10 powi ex) (signed_integer (tl r2))
                 else None))"

definition non_decimal_literal :: "string \<Rightarrow> nat option" where
  "non_decimal_literal s =
     (if length s < 2 \<or> hd s \<noteq> CHR ''0'' then None
      else if s ! 1 = CHR ''x'' \<or> s ! 1 = CHR ''X'' then digits 16 (drop 2 s)
      else if s ! 1 = CHR ''o'' \<or> s ! 1 = CHR ''O'' then digits 8 (drop 2 s)
      else if s ! 1 = CHR ''b'' \<or> s ! 1 = CHR ''B'' then digits 2 (drop 2 s)
      else None)"

definition string_to_number :: "string \<Rightarrow> jsnum" where
  "string_to_number s =
     (let t = trim s in
      if t = [] then Fin 0
      else if t = ''Infinity'' \<or> t = ''+Infinity'' then PInf
      else if t = ''-Infinity'' then NInf
      else (case non_decimal_literal t of
              Some n \<Rightarrow> fl64 (real n)
            | None \<Rightarrow>
                (case (if hd t = CHR ''-'' then map_option uminus (decimal_literal (tl t))
                       else if hd t = CHR ''+'' then decimal_literal (tl t)
                       else decimal_literal t) of
                   Some x \<Rightarrow> fl64 x
                 | None \<Rightarrow> NaN)))"

text \<open>
  An object or an array is converted to a primitive first. An object of the data that
  has a property \<open>toString\<close> has no method to convert it (the property is no
  function, and \<open>valueOf\<close> gives the object back): a \<open>TypeError\<close>. Any other object
  becomes the text \<open>[object Object]\<close>, which is no number. An array becomes the texts
  of its elements joined with commas, \<open>null\<close> and \<open>undefined\<close> giving the empty
  text; so the empty array is 0, an array of one element converts as that element
  does once it is a text, and a longer one is \<open>NaN\<close>.
\<close>

fun to_string_throws :: "json \<Rightarrow> bool" where
  "to_string_throws (JObj kvs) = has_key (JObj kvs) ''toString''"
| "to_string_throws (JArr xs) = (\<exists>x \<in> set xs. to_string_throws x)"
| "to_string_throws v = False"

fun to_number :: "json \<Rightarrow> error + jsnum" where
  "to_number JUndefined = Inr NaN"
| "to_number JNull = Inr (Fin 0)"
| "to_number (JBool b) = Inr (Fin (if b then 1 else 0))"
| "to_number (JNum n) = Inr n"
| "to_number (JStr s) = Inr (string_to_number s)"
| "to_number (JObj kvs) =
     (if to_string_throws (JObj kvs)
      then Inl (TypeError ''Cannot convert object to primitive value'')
      else Inr NaN)"
| "to_number (JArr []) = Inr (Fin 0)"
| "to_number (JArr [x]) =
     (if to_string_throws x then Inl (TypeError ''Cannot convert object to primitive value'')
      else (case x of
              JUndefined \<Rightarrow> Inr (Fin 0)
            | JNull \<Rightarrow> Inr (Fin 0)
            | JBool b \<Rightarrow> Inr NaN
            | JNum n \<Rightarrow> Inr n
            | JStr s \<Rightarrow> Inr (string_to_number s)
            | JArr ys \<Rightarrow> to_number (JArr ys)
            | JObj kvs \<Rightarrow> Inr NaN))"
| "to_number (JArr (x # y # zs)) =
     (if to_string_throws (JArr (x # y # zs))
      then Inl (TypeError ''Cannot convert object to primitive value'')
      else Inr NaN)"

definition convertLevelToCategory :: "json \<Rightarrow> error + string" where
  "convertLevelToCategory numericLevel =
     (case to_number numericLevel of
        Inl e \<Rightarrow> Inl e
      | Inr n \<Rightarrow>
          Inr (if jle n (Fin 2) then ''beginner''
               else if jle n (Fin 5) then ''intermediate''
               else if jle n (Fin 8) then ''advanced''
               else ''expert''))"

text \<open>
  The row that \<open>createUserProfile\<close> upserts into \<open>user_profiles\<close>. The profile is the
  one just built, so reading its sections does not throw; converting the level may.
\<close>

definition created_row :: "json \<Rightarrow> json \<Rightarrow> error + json" where
  "created_row userId profile =
     (case convertLevelToCategory (get (get profile ''surfLevel'') ''overall'') of
        Inl e \<Rightarrow> Inl e
      | Inr category \<Rightarrow>
          Inr (JObj [
            (''user_id'', userId),
            (''email'', get (get profile ''personal'') ''email''),
            (''pseudo'', get (get profile ''personal'') ''name''),
            (''level'', JStr category),
            (''location'', get (get profile ''personal'') ''location''),
            (''wave_min'', get (get (get profile ''preferences'') ''waveSize'') ''min''),
            (''wave_max'', get (get (get profile ''preferences'') ''waveSize'') ''max''),
            (''optimal_wave_size'', get (get (get profile ''preferences'') ''waveSize'') ''optimal''),
            (''preferred_wind'', JStr ''offshore''),
            (''notifications'', JStr ''good''),
            (''preferred_time'', JStr ''morning''),
            (''bio'', or_else (get profile ''notes'') (JStr [])),
            (''created_at'', get profile ''createdAt''),
            (''updated_at'', get profile ''updatedAt'')]))"

text \<open>
  The store writes in the \<open>try\<close> block of \<open>createUserProfile\<close>: the basic row, whose
  response error is thrown, then the extended row. The result is \<open>Inl\<close> when the block
  is left by a throw; a throw while the row is built comes before any call.
\<close>

definition create_store_writes :: "client \<Rightarrow> json \<Rightarrow> json \<Rightarrow> (error + unit) \<times> event list" where
  "create_store_writes c userId profile =
     (case created_row userId profile of
        Inl e \<Rightarrow> (Inl e, [])
      | Inr row \<Rightarrow>
          (case upsert_user_profile c row of
             Rejects e \<Rightarrow> (Inl e, [Upsert_user_profile row])
           | Resolves resp \<Rightarrow>
               (case rerror resp of
                  Some m \<Rightarrow> (Inl (StoreError m), [Upsert_user_profile row])
                | None \<Rightarrow>
                    (case upsert_extended_profile c userId profile of
                       Rejects e \<Rightarrow>
                         (Inl e, [Upsert_user_profile row, Upsert_extended_profile userId profile])
                     | Resolves resp2 \<Rightarrow>
                         (Inr (), [Upsert_user_profile row, Upsert_extended_profile userId profile])))))"

text \<open>
  \<open>createUserProfile(userData)\<close>. Reading \<open>userData.id\<close> and building the profile stand
  before the \<open>try\<close>; the \<open>try\<close> block writes the store, then the cache and the memory
  table; the \<open>catch\<close> block writes the memory table and the cache.
\<close>

definition createUserProfile :: "state \<Rightarrow> client option \<Rightarrow> readings \<Rightarrow> json \<Rightarrow> (error + json) run" where
  "createUserProfile st db r userData =
     (case read_prop userData ''id'' of
        Inl e \<Rightarrow> \<lparr>returned = Inl e, final = st, calls = []\<rparr>
      | Inr given \<Rightarrow>
          (let userId = or_else given (JStr (fresh_id r));
               profile = buildCompleteProfile r userId userData;
               entry = \<lparr>data = profile, timestamp = now_store r\<rparr>;
               tried = (case db of
                          None \<Rightarrow> (Inr (), [])
                        | Some c \<Rightarrow> create_store_writes c userId profile)
           in case fst tried of
                Inr done \<Rightarrow>
                  \<lparr>returned = Inr profile,
                   final = (st\<lparr>profilesCache := (profilesCache st)(userId \<mapsto> entry)\<rparr>)
                             \<lparr>users := (users st)(userId \<mapsto> profile)\<rparr>,
                   calls = snd tried\<rparr>
              | Inl e \<Rightarrow>
                  \<lparr>returned = Inr profile,
                   final = (st\<lparr>users := (users st)(userId \<mapsto> profile)\<rparr>)
                             \<lparr>profilesCache := (profilesCache st)(userId \<mapsto> entry)\<rparr>,
                   calls = snd tried\<rparr>))"

text \<open>
  The read of the durable store in \<open>getUserProfile\<close>: both selects are started and
  awaited together. \<open>Inl\<close> is a throw (a rejected select, or \<open>JSON.parse\<close> failing),
  \<open>Inr (Some profile)\<close> the profile found, \<open>Inr None\<close> a store without the record.
\<close>

definition read_store :: "client \<Rightarrow> json \<Rightarrow> error + json option" where
  "read_store c userId =
     (case select_user_profile c userId of
        Rejects e \<Rightarrow> Inl e
      | Resolves basicProfile \<Rightarrow>
          (case select_extended_profile c userId of
             Rejects e \<Rightarrow> Inl e
           | Resolves extendedProfile \<Rightarrow>
               (case rdata basicProfile of
                  None \<Rightarrow> Inr None
                | Some row \<Rightarrow>
                    (if \<not> truthy row then Inr None
                     else (case rdata extendedProfile of
                             None \<Rightarrow> Inr None
                           | Some Malformed \<Rightarrow> Inl (SyntaxError ''Unexpected token in JSON'')
                           | Some (Encodes profile) \<Rightarrow> Inr (Some profile))))))"

text \<open>\<open>this.memoryDB.users.get(userId)\<close>, or the default profile when it is falsy.\<close>

definition memory_or_default :: "state \<Rightarrow> readings \<Rightarrow> json \<Rightarrow> json" where
  "memory_or_default st r userId =
     (case users st userId of
        None \<Rightarrow> getDefaultProfile r userId
      | Some memoryProfile \<Rightarrow>
          (if truthy memoryProfile then memoryProfile else getDefaultProfile r userId))"

text \<open>\<open>getUserProfile\<close> after the cache test has failed.\<close>

definition after_cache_miss :: "state \<Rightarrow> client option \<Rightarrow> readings \<Rightarrow> json \<Rightarrow> json run" where
  "after_cache_miss st db r userId =
     (case db of
        None \<Rightarrow> \<lparr>returned = memory_or_default st r userId, final = st, calls = []\<rparr>
      | Some c \<Rightarrow>
          (case read_store c userId of
             Inr (Some profile) \<Rightarrow>
               \<lparr>returned = profile,
                final = st\<lparr>profilesCache :=
                  (profilesCache st)(userId \<mapsto> \<lparr>data = profile, timestamp = now_refresh r\<rparr>)\<rparr>,
                calls = [Select_user_profile userId, Select_extended_profile userId]\<rparr>
           | Inr None \<Rightarrow>
               \<lparr>returned = memory_or_default st r userId, final = st,
                calls = [Select_user_profile userId, Select_extended_profile userId]\<rparr>
           | Inl e \<Rightarrow>
               \<lparr>returned = memory_or_default st r userId, final = st,
                calls = [Select_user_profile userId, Select_extended_profile userId]\<rparr>))"

definition getUserProfile :: "state \<Rightarrow> client option \<Rightarrow> readings \<Rightarrow> json \<Rightarrow> json run" where
  "getUserProfile st db r userId =
     (case profilesCache st userId of
        None \<Rightarrow> after_cache_miss st db r userId
      | Some cached \<Rightarrow>
          (if now_check r - timestamp cached < cacheTimeout
           then \<lparr>returned = data cached, final = st, calls = []\<rparr>
           else after_cache_miss st db r userId))"

text \<open>
  \<open>extractBasicProfileData(profile)\<close>: the reads of the profile and the conversion of
  the level in the order of the object literal, the first failing one deciding the
  error, then the columns.
\<close>

fun read_all :: "json \<Rightarrow> string list list \<Rightarrow> error + json list" where
  "read_all p [] = Inr []"
| "read_all p (keys # rest) =
     (case path p keys of
        Inl e \<Rightarrow> Inl e
      | Inr v \<Rightarrow> (case read_all p rest of Inl e \<Rightarrow> Inl e | Inr vs \<Rightarrow> Inr (v # vs)))"

definition extractBasicProfileData :: "json \<Rightarrow> error + (string \<times> json) list" where
  "extractBasicProfileData profile =
     (case read_all profile
             [[''personal'', ''email''], [''personal'', ''name''], [''surfLevel'', ''overall'']] of
        Inl e \<Rightarrow> Inl e
      | Inr vs \<Rightarrow>
          (case convertLevelToCategory (vs ! 2) of
             Inl e \<Rightarrow> Inl e
           | Inr category \<Rightarrow>
               (case read_all profile
                       [[''personal'', ''location''], [''preferences'', ''waveSize'', ''min''],
                        [''preferences'', ''waveSize'', ''max''],
                        [''preferences'', ''waveSize'', ''optimal'']] of
                  Inl e \<Rightarrow> Inl e
                | Inr ws \<Rightarrow>
                    Inr [(''email'', vs ! 0),
                         (''pseudo'', vs ! 1),
                         (''level'', JStr category),
                         (''location'', ws ! 0),
                         (''wave_min'', ws ! 1),
                         (''wave_max'', ws ! 2),
                         (''optimal_wave_size'', ws ! 3),
                         (''preferred_wind'', JStr ''offshore''),
                         (''notifications'', JStr ''good''),
                         (''preferred_time'', JStr ''morning''),
                         (''bio'', or_else (get profile ''notes'') (JStr []))])))"

text \<open>\<open>profile.key = v\<close> on an object.\<close>

fun assign_prop :: "json \<Rightarrow> string \<Rightarrow> json \<Rightarrow> json" where
  "assign_prop (JObj kvs) key v = JObj (set_prop kvs key v)"
| "assign_prop p key v = p"

text \<open>
  The store writes of \<open>updateUserProfile\<close>: the two upserts are started and awaited
  together; their responses are not looked at, a rejected one is a throw. When both are
  rejected the throw is the rejection that settles first; the model takes the one of
  the basic row, and the statements below name the cause only when the rejections agree.
\<close>

definition update_store_writes :: "client \<Rightarrow> readings \<Rightarrow> json \<Rightarrow> json \<Rightarrow> (error + unit) \<times> event list" where
  "update_store_writes c r userId updatedProfile =
     (case extractBasicProfileData updatedProfile of
        Inl e \<Rightarrow> (Inl e, [])
      | Inr basicUpdates \<Rightarrow>
          (let row = JObj ([(''user_id'', userId)] @ basicUpdates
                           @ [(''updated_at'', get updatedProfile ''updatedAt'')]);
               sent = [Upsert_user_profile row, Upsert_extended_profile userId updatedProfile]
           in case upsert_user_profile c row of
                Rejects e \<Rightarrow> (Inl e, sent)
              | Resolves resp \<Rightarrow>
                  (case upsert_extended_profile c userId updatedProfile of
                     Rejects e \<Rightarrow> (Inl e, sent)
                   | Resolves resp2 \<Rightarrow> (Inr (), sent))))"

text \<open>
  \<open>updateUserProfile(userId, updates)\<close>: the whole body is one \<open>try\<close> block whose
  \<open>catch\<close> throws a new \<open>Error\<close> with the message of the one caught (the model writes
  the message without its accent).
\<close>

definition updateUserProfile ::
  "state \<Rightarrow> client option \<Rightarrow> readings \<Rightarrow> json \<Rightarrow> json \<Rightarrow> (error + json) run" where
  "updateUserProfile st db r userId updates =
     (let rd = getUserProfile st db r userId;
          currentProfile = returned rd;
          updatedProfile = assign_prop (deepMerge currentProfile updates) ''updatedAt'' (JStr (iso_stamp r));
          tried = (case db of
                     None \<Rightarrow> (Inr (), [])
                   | Some c \<Rightarrow> update_store_writes c r userId updatedProfile)
      in case fst tried of
           Inr done \<Rightarrow>
             \<lparr>returned = Inr updatedProfile,
              final = (final rd)
                \<lparr>profilesCache := (profilesCache (final rd))
                   (userId \<mapsto> \<lparr>data = updatedProfile, timestamp = now_store r\<rparr>),
                 users := (users (final rd))(userId \<mapsto> updatedProfile)\<rparr>,
              calls = calls rd @ snd tried\<rparr>
         | Inl e \<Rightarrow>
             \<lparr>returned = Inl (Error (''Impossible de mettre a jour le profil: '' @ message e)),
              final = final rd,
              calls = calls rd @ snd tried\<rparr>)"

section \<open>Sessions of a user and the statistics\<close>

record sessions_page =
  page_sessions :: "session list"
  page_total :: nat
  page_limit :: nat
  page_offset :: nat

text \<open>
  The sessions of the memory table for a user, most recent first, cut to the page.
  The sort is stable; a session whose date does not parse is placed as time 0.
\<close>

fun date_ms :: "session \<Rightarrow> real" where
  "date_ms s = (case date s of Fin t \<Rightarrow> t | _ \<Rightarrow> 0)"

definition memory_sessions :: "state \<Rightarrow> json \<Rightarrow> nat \<Rightarrow> nat \<Rightarrow> session list" where
  "memory_sessions st userId limit offset =
     take limit (drop offset
       (sort_key (\<lambda>s. - date_ms s)
          (map snd (filter (\<lambda>entry. fst entry = userId) (sessions st)))))"

text \<open>
  The \<open>try\<close> block of \<open>getUserSessions\<close>. The class defines neither
  \<open>convertSupabaseSession\<close> nor \<open>getTotalUserSessions\<close>, so mapping a non-empty
  result and building the returned object both throw a \<open>TypeError\<close>: the block never
  returns a page.
\<close>

definition getUserSessions_try ::
  "state \<Rightarrow> client option \<Rightarrow> json \<Rightarrow> nat \<Rightarrow> nat \<Rightarrow> (error + sessions_page) \<times> event list" where
  "getUserSessions_try st db userId limit offset =
     (let no_total = Inl (TypeError ''this.getTotalUserSessions is not a function'') in
      case db of
        None \<Rightarrow> (no_total, [])
      | Some c \<Rightarrow>
          (let sent = [Select_sessions userId (int offset) (int offset + int limit - 1)] in
           case select_sessions c userId (int offset) (int offset + int limit - 1) of
             Rejects e \<Rightarrow> (Inl e, sent)
           | Resolves resp \<Rightarrow>
               (case rdata resp of
                  None \<Rightarrow> (no_total, sent)
                | Some rows \<Rightarrow>
                    (if rerror resp = None \<and> rows \<noteq> []
                     then (Inl (TypeError ''this.convertSupabaseSession is not a function''), sent)
                     else (no_total, sent)))))"

definition getUserSessions ::
  "state \<Rightarrow> client option \<Rightarrow> json \<Rightarrow> nat \<Rightarrow> nat \<Rightarrow> sessions_page \<times> event list" where
  "getUserSessions st db userId limit offset =
     (let tried = getUserSessions_try st db userId limit offset in
      case fst tried of
        Inr page \<Rightarrow> (page, snd tried)
      | Inl e \<Rightarrow>
          (let memorySessions = memory_sessions st userId limit offset in
           (\<lparr>page_sessions = memorySessions, page_total = length memorySessions,
             page_limit = limit, page_offset = offset\<rparr>, snd tried)))"

text \<open>
  \<open>calculateAverageRating\<close>. The sum adds \<open>session.rating.overall\<close> while it is
  truthy; a falsy one makes the operand the rating object, the sum a string from there
  on (\<open>None\<close>) and the average \<open>NaN\<close>.
\<close>

definition add_rating :: "session \<Rightarrow> jsnum option \<Rightarrow> jsnum option" where
  "add_rating s running =
     (case running of
        None \<Rightarrow> None
      | Some t \<Rightarrow> (if num_truthy (rating_overall s) then Some (fadd t (rating_overall s)) else None))"

definition calculateAverageRating :: "session list \<Rightarrow> jsnum" where
  "calculateAverageRating ss =
     (if length ss = 0 then Fin 0
      else (case fold add_rating ss (Some (Fin 0)) of
              None \<Rightarrow> NaN
            | Some t \<Rightarrow> round1 (fdiv t (Fin (real (length ss))))))"

record stats =
  totalSessions :: nat
  avgRating :: jsnum
  favoriteSpots :: json
  totalBoards :: json
  totalPredictions :: int
  currentStreak :: int
  level :: json
  experience :: json

text \<open>\<open>count || local\<close> for the count a store query answers.\<close>

definition count_or :: "nat option \<Rightarrow> json \<Rightarrow> json" where
  "count_or count localCount =
     (case count of
        None \<Rightarrow> localCount
      | Some k \<Rightarrow> (if k = 0 then localCount else num (real k)))"

text \<open>
  A length read from the profile and replaced by the store's count when a store is
  configured: \<open>user.spots.favorites.length\<close> with \<open>favorite_spots\<close>, and
  \<open>user.equipment.boards.length\<close> with \<open>boards\<close>.
\<close>

definition counted ::
  "json \<Rightarrow> string list \<Rightarrow> (nat option outcome \<times> event) option \<Rightarrow> (error + json) \<times> event list" where
  "counted user keys query =
     (case path user keys of
        Inl e \<Rightarrow> (Inl e, [])
      | Inr xs \<Rightarrow>
          (case js_length xs of
             Inl e \<Rightarrow> (Inl e, [])
           | Inr localCount \<Rightarrow>
               (case query of
                  None \<Rightarrow> (Inr localCount, [])
                | Some (Rejects e, ev) \<Rightarrow> (Inl e, [ev])
                | Some (Resolves count, ev) \<Rightarrow> (Inr (count_or count localCount), [ev]))))"

text \<open>\<open>Math.floor(Math.random() * k) + b\<close> for a draw \<open>x\<close>.\<close>

definition random_int :: "real \<Rightarrow> int \<Rightarrow> int \<Rightarrow> int" where
  "random_int x k b = \<lfloor>x * of_int k\<rfloor> + b"

text \<open>The \<open>try\<close> block of \<open>getUserStats\<close> after the profile and the sessions are read.\<close>

definition stats_try ::
  "client option \<Rightarrow> readings \<Rightarrow> json \<Rightarrow> json \<Rightarrow> sessions_page \<Rightarrow> (error + stats) \<times> event list" where
  "stats_try db r userId user page =
     (let favorites = counted user [''spots'', ''favorites'']
            (map_option (\<lambda>c. (count_favorite_spots c userId, Count_favorite_spots userId)) db)
      in case fst favorites of
           Inl e \<Rightarrow> (Inl e, snd favorites)
         | Inr favoritesCount \<Rightarrow>
             (let boards = counted user [''equipment'', ''boards'']
                    (map_option (\<lambda>c. (count_boards c userId, Count_boards userId)) db);
                  sent = snd favorites @ snd boards
              in case fst boards of
                   Inl e \<Rightarrow> (Inl e, sent)
                 | Inr boardsCount \<Rightarrow>
                     (case path user [''surfLevel'', ''overall''] of
                        Inl e \<Rightarrow> (Inl e, sent)
                      | Inr lv \<Rightarrow>
                          (Inr \<lparr>totalSessions = page_total page,
                                avgRating = calculateAverageRating (page_sessions page),
                                favoriteSpots = favoritesCount,
                                totalBoards = boardsCount,
                                totalPredictions = random_int (random_try r) 50 20,
                                currentStreak = int (calculateStreak (page_sessions page)),
                                level = lv,
                                experience = get (get user ''surfLevel'') ''experience''\<rparr>,
                           sent))))"

text \<open>
  \<open>getUserStats(userId)\<close>. The \<open>catch\<close> block returns zeros and two random numbers;
  its object has no \<open>level\<close> and no \<open>experience\<close>.
\<close>

definition getUserStats :: "state \<Rightarrow> client option \<Rightarrow> readings \<Rightarrow> json \<Rightarrow> stats run" where
  "getUserStats st db r userId =
     (let rd = getUserProfile st db r userId;
          got = getUserSessions (final rd) db userId 100 0;
          tried = stats_try db r userId (returned rd) (fst got);
          sent = calls rd @ snd got @ snd tried
      in case fst tried of
           Inr result \<Rightarrow> \<lparr>returned = result, final = final rd, calls = sent\<rparr>
         | Inl e \<Rightarrow>
             \<lparr>returned =
                \<lparr>totalSessions = 0, avgRating = Fin 0, favoriteSpots = num 0, totalBoards = num 0,
                 totalPredictions = random_int (random_catch_predictions r) 50 20,
                 currentStreak = random_int (random_catch_streak r) 10 1,
                 level = JUndefined, experience = JUndefined\<rparr>,
              final = final rd, calls = sent\<rparr>)"

section \<open>Example inputs\<close>

text \<open>A session at time \<open>t\<close> with the rating \<open>addSession\<close> gives by default.\<close>

definition session_at :: "real \<Rightarrow> session" where
  "session_at t = \<lparr>date = Fin t, rating_overall = Fin 5\<rparr>"

text \<open>The profile \<open>getDefaultProfile\<close> builds, as the scoring engine reads it.\<close>

definition default_surfer :: surfer where
  "default_surfer =
     \<lparr>wave_min = lit 0.8, wave_max = Fin 2.5, wave_optimal = lit 1.2, onshore = Fin 15,
      crowdTolerance = ''medium'', overall = Fin 3, sessionsCount = Fin 0\<rparr>"

text \<open>The conditions \<open>generateSmartRecommendations\<close> scores.\<close>

definition grande_plage :: conditions where
  "grande_plage = \<lparr>waveHeight = lit 1.2, windSpeed = Fin 10, crowd = Some ''medium''\<rparr>"

text \<open>A profile whose wave range has no width, as \<open>createUserProfile\<close> accepts it.\<close>

definition flat_surfer :: surfer where
  "flat_surfer = default_surfer\<lparr>wave_min := lit 1.2, wave_max := lit 1.2, wave_optimal := lit 1.2\<rparr>"

definition example_readings :: readings where
  "example_readings =
     \<lparr>now_check = 1000000, now_refresh = 1000050, now_store = 1000100,
      iso_created = ''2024-05-01T08:00:00.000Z'', iso_updated = ''2024-05-01T08:00:00.001Z'',
      iso_stamp = ''2024-05-01T08:00:00.002Z'', fresh_id = ''lw3k9x0abc'',
      random_try = 0, random_catch_predictions = 0, random_catch_streak = 0\<rparr>"

definition stored_profile :: json where
  "stored_profile =
     JObj [(''id'', JStr ''u1''),
           (''equipment'', JObj [(''boards'', JArr [JStr ''b0'']), (''suits'', JArr [])])]"

text \<open>A service without a store whose memory table holds one profile.\<close>

definition memory_only :: state where
  "memory_only =
     \<lparr>profilesCache = Map.empty, users = [JStr ''u1'' \<mapsto> stored_profile], sessions = []\<rparr>"

text \<open>A service that has read nothing yet and holds no profile.\<close>

definition empty_state :: state where
  "empty_state = \<lparr>profilesCache = Map.empty, users = Map.empty, sessions = []\<rparr>"

text \<open>
  A service whose cache holds, for user \<open>u1\<close>, the default profile written at time
  \<open>t\<close>.
\<close>

definition cached_state :: "int \<Rightarrow> state" where
  "cached_state t =
     \<lparr>profilesCache =
        [JStr ''u1'' \<mapsto> \<lparr>data = getDefaultProfile example_readings (JStr ''u1''), timestamp = t\<rparr>],
      users = Map.empty, sessions = []\<rparr>"

text \<open>The readings of a later operation.\<close>

definition later_readings :: readings where
  "later_readings =
     \<lparr>now_check = 2000000, now_refresh = 2000050, now_store = 2000100,
      iso_created = ''2024-05-01T08:16:40.000Z'', iso_updated = ''2024-05-01T08:16:40.001Z'',
      iso_stamp = ''2024-05-01T08:16:40.002Z'', fresh_id = ''lw3kv1m2xyz'',
      random_try = 1 / 2, random_catch_predictions = 1 / 2, random_catch_streak = 1 / 2\<rparr>"

text \<open>
  Three stores: one that holds the profile \<open>p\<close> for every user and accepts every
  write, one that holds no record and accepts every write, and one whose every call
  throws.
\<close>

definition store_holding :: "json \<Rightarrow> client" where
  "store_holding p =
     \<lparr>select_user_profile = (\<lambda>u. Resolves \<lparr>rdata = Some (JObj [(''user_id'', u)]), rerror = None\<rparr>),
      select_extended_profile = (\<lambda>u. Resolves \<lparr>rdata = Some (Encodes p), rerror = None\<rparr>),
      upsert_user_profile = (\<lambda>row. Resolves \<lparr>rdata = Some row, rerror = None\<rparr>),
      upsert_extended_profile = (\<lambda>u q. Resolves \<lparr>rdata = None, rerror = None\<rparr>),
      select_sessions = (\<lambda>u a b. Resolves \<lparr>rdata = Some [], rerror = None\<rparr>),
      count_favorite_spots = (\<lambda>u. Resolves None),
      count_boards = (\<lambda>u. Resolves None)\<rparr>"

definition empty_store :: client where
  "empty_store =
     \<lparr>select_user_profile = (\<lambda>u. Resolves \<lparr>rdata = None, rerror = Some ''PGRST116''\<rparr>),
      select_extended_profile = (\<lambda>u. Resolves \<lparr>rdata = None, rerror = Some ''PGRST116''\<rparr>),
      upsert_user_profile = (\<lambda>row. Resolves \<lparr>rdata = Some row, rerror = None\<rparr>),
      upsert_extended_profile = (\<lambda>u q. Resolves \<lparr>rdata = None, rerror = None\<rparr>),
      select_sessions = (\<lambda>u a b. Resolves \<lparr>rdata = Some [], rerror = None\<rparr>),
      count_favorite_spots = (\<lambda>u. Resolves None),
      count_boards = (\<lambda>u. Resolves None)\<rparr>"

definition failing_store :: client where
  "failing_store =
     \<lparr>select_user_profile = (\<lambda>u. Rejects (StoreError ''fetch failed'')),
      select_extended_profile = (\<lambda>u. Rejects (StoreError ''fetch failed'')),
      upsert_user_profile = (\<lambda>row. Rejects (StoreError ''fetch failed'')),
      upsert_extended_profile = (\<lambda>u q. Rejects (StoreError ''fetch failed'')),
      select_sessions = (\<lambda>u a b. Rejects (StoreError ''fetch failed'')),
      count_favorite_spots = (\<lambda>u. Rejects (StoreError ''fetch failed'')),
      count_boards = (\<lambda>u. Rejects (StoreError ''fetch failed''))\<rparr>"



text \<open>The user data of the test user of \<open>initializeTestData\<close>.\<close>

definition jean :: json where
  "jean =
     JObj [(''name'', JStr ''Jean Surfer''), (''email'', JStr ''jean@surfai.com''),
           (''location'', JStr ''Biarritz, France''), (''surfLevel'', num 6),
           (''minWaveSize'', JNum (lit 0.8)), (''maxWaveSize'', num 2.5),
           (''optimalWaveSize'', num 1.5), (''maxTravelDistance'', num 35)]"

text \<open>The profile \<open>createUserProfile\<close> builds for that user under the id \<open>u1\<close>.\<close>

definition jean_profile :: json where
  "jean_profile = buildCompleteProfile later_readings (JStr ''u1'') jean"


section \<open>Notions used in the statements\<close>

text \<open>The cache holds an entry for the user whose age is below the timeout.\<close>

definition fresh_entry :: "state \<Rightarrow> readings \<Rightarrow> json \<Rightarrow> bool" where
  "fresh_entry st r userId =
     (case profilesCache st userId of
        None \<Rightarrow> False
      | Some cached \<Rightarrow> now_check r - timestamp cached < cacheTimeout)"

text \<open>
  Every tier that holds something for the user holds a complete profile: the cache
  entry, the truthy value of the memory table, and the profile a read of the store
  yields.
\<close>

definition tiers_complete :: "state \<Rightarrow> client option \<Rightarrow> json \<Rightarrow> bool" where
  "tiers_complete st db userId =
     ((case profilesCache st userId of
         None \<Rightarrow> True
       | Some cached \<Rightarrow> complete_profile (data cached))
      \<and> (case users st userId of
            None \<Rightarrow> True
          | Some m \<Rightarrow> (if truthy m then complete_profile m else True))
      \<and> (case db of
            None \<Rightarrow> True
          | Some c \<Rightarrow>
              (case read_store c userId of
                 Inr (Some p) \<Rightarrow> complete_profile p
               | _ \<Rightarrow> True)))"

text \<open>Every entry of the cache and of the memory table is a complete profile.\<close>

definition holds_complete :: "state \<Rightarrow> bool" where
  "holds_complete st =
     ((\<forall>u entry. profilesCache st u = Some entry \<longrightarrow> complete_profile (data entry))
      \<and> (\<forall>u m. users st u = Some m \<longrightarrow> complete_profile m))"

text \<open>Whatever a read of the store yields for the user is a complete profile.\<close>

definition store_complete :: "client option \<Rightarrow> json \<Rightarrow> bool" where
  "store_complete db userId =
     (case db of
        None \<Rightarrow> True
      | Some c \<Rightarrow> (case read_store c userId of Inr (Some p) \<Rightarrow> complete_profile p | _ \<Rightarrow> True))"

text \<open>The readings \<open>r\<close> with other random draws.\<close>

definition redrawn :: "readings \<Rightarrow> real \<Rightarrow> real \<Rightarrow> real \<Rightarrow> readings" where
  "redrawn r x y z = r\<lparr>random_try := x, random_catch_predictions := y, random_catch_streak := z\<rparr>"

text \<open>The value \<open>deepMerge_from\<close> writes under a key of the source.\<close>

definition merge_value :: "jsval \<Rightarrow> json \<Rightarrow> string \<Rightarrow> json" where
  "merge_value target source key =
     (if isObject (get source key) then
        (if key_in target key then deepMerge_from (lookup target key) (get source key)
         else get source key)
      else get source key)"

text \<open>
  The crowd factor is a number of the table or 1: the conditions give no crowd, or
  the tolerance is one of the table and the crowd does not name a property that the
  rows inherit from \<open>Object.prototype\<close>.
\<close>

definition known_crowd :: "surfer \<Rightarrow> conditions \<Rightarrow> bool" where
  "known_crowd u c =
     (case crowd c of
        None \<Rightarrow> True
      | Some cr \<Rightarrow>
          cr = [] \<or> (crowdTolerance u \<in> {''low'', ''medium'', ''high''}
                     \<and> cr \<notin> set Object_prototype_keys))"

text \<open>No property of the object is called \<open>__proto__\<close>.\<close>

definition plain_keys :: "(string \<times> json) list \<Rightarrow> bool" where
  "plain_keys kvs = (''__proto__'' \<notin> fst ` set kvs)"

text \<open>
  The score after the wave step for a wave height inside the range, from the computed
  width \<open>rg\<close> of the range and the computed distance \<open>d\<close> from the optimum; and the
  returned score from the score \<open>s\<close> after the wave step, the wind factor \<open>W\<close>, the
  level factor \<open>L\<close> and the crowd factor, if the conditions give a crowd.
\<close>

definition wave_fit :: "real \<Rightarrow> real \<Rightarrow> real" where
  "wave_fit rg d = double (5 * double (1 / 2 + double (1 / 2 * double (1 - double (d / rg)))))"

definition finish :: "real \<Rightarrow> real \<Rightarrow> real option \<Rightarrow> real \<Rightarrow> real" where
  "finish W L C s =
     (let s2 = double (s * W);
          s3 = double (s2 * L);
          s4 = (case C of None \<Rightarrow> s3 | Some f \<Rightarrow> double (s3 * f))
      in double (of_int \<lfloor>double (s4 * 10) + 1 / 2\<rfloor> / 10))"

fun finite_num :: "jsnum \<Rightarrow> bool" where
  "finite_num (Fin a) = True"
| "finite_num x = False"



text \<open>The \<open>try\<close> block of \<open>getUserStats\<close> is left by a throw.\<close>

definition stats_thrown :: "state \<Rightarrow> client option \<Rightarrow> readings \<Rightarrow> json \<Rightarrow> bool" where
  "stats_thrown st db r userId =
     (case fst (stats_try db r userId (returned (getUserProfile st db r userId))
                  (fst (getUserSessions (final (getUserProfile st db r userId)) db userId 100 0))) of
        Inl e \<Rightarrow> True
      | Inr result \<Rightarrow> False)"

section \<open>Rounding to a double: properties\<close>

lemma rne_floor: "\<lfloor>q\<rfloor> \<le> rne q" "rne q \<le> \<lfloor>q\<rfloor> + 1"
  by (simp_all add: rne_def Let_def)

lemma rne_of_int: "rne (of_int n) = n"
  by (simp add: rne_def)

lemma rne_ge: "of_int n \<le> q \<Longrightarrow> n \<le> rne q"
proof -
  assume "of_int n \<le> q"
  then have "n \<le> \<lfloor>q\<rfloor>" by (simp add: le_floor_iff)
  with rne_floor(1) [of q] show ?thesis by simp
qed

lemma rne_le: "q \<le> of_int n \<Longrightarrow> rne q \<le> n"
proof (cases "q = of_int n")
  case True
  then show ?thesis by (simp add: rne_of_int)
next
  case False
  assume "q \<le> of_int n"
  with False have "q < of_int n" by simp
  then have "\<lfloor>q\<rfloor> < n" by (simp add: floor_less_iff)
  with rne_floor(2) [of q] show ?thesis by simp
qed

lemma rne_mono: "a \<le> b \<Longrightarrow> rne a \<le> rne b"
proof -
  assume ab: "a \<le> b"
  then have fl: "\<lfloor>a\<rfloor> \<le> \<lfloor>b\<rfloor>" by (rule floor_mono)
  show ?thesis
  proof (cases "\<lfloor>a\<rfloor> < \<lfloor>b\<rfloor>")
    case True
    with rne_floor(2) [of a] rne_floor(1) [of b] show ?thesis by simp
  next
    case False
    with fl have eq: "\<lfloor>a\<rfloor> = \<lfloor>b\<rfloor>" by simp
    then show ?thesis using ab by (auto simp: rne_def Let_def)
  qed
qed

lemma rne_eval: "\<bar>q - of_int n\<bar> < 1 / 2 \<Longrightarrow> rne q = n"
proof -
  assume a: "\<bar>q - of_int n\<bar> < 1 / 2"
  show ?thesis
  proof (cases "of_int n \<le> q")
    case True
    then have "\<lfloor>q\<rfloor> = n" using a by (intro floor_unique) simp_all
    then show ?thesis using a True by (simp add: rne_def)
  next
    case False
    then have "\<lfloor>q\<rfloor> = n - 1" using a by (intro floor_unique) simp_all
    then show ?thesis using a False by (simp add: rne_def)
  qed
qed

lemma rne_tie_down: "q - of_int n = 1 / 2 \<Longrightarrow> even n \<Longrightarrow> rne q = n"
proof -
  assume a: "q - of_int n = 1 / 2" and e: "even n"
  have "\<lfloor>q\<rfloor> = n" using a by (intro floor_unique) simp_all
  then show ?thesis using a e by (simp add: rne_def)
qed

lemma rne_tie_up: "of_int n - q = 1 / 2 \<Longrightarrow> even n \<Longrightarrow> rne q = n"
proof -
  assume a: "of_int n - q = 1 / 2" and e: "even n"
  have "\<lfloor>q\<rfloor> = n - 1" using a by (intro floor_unique) simp_all
  then show ?thesis using a e by (simp add: rne_def)
qed

lemma ulp_pos: "0 < ulp x"
  by (simp add: ulp_def)

lemma double_zero: "double 0 = 0"
  by (simp add: double_def)

lemma double_minus: "double (- x) = - double x"
  by (simp add: double_def)

lemma binade_mono: "0 < x \<Longrightarrow> x \<le> y \<Longrightarrow> binade x \<le> binade y"
  unfolding binade_def by (intro max.mono floor_mono) simp_all

lemma binade_upper: "0 < x \<Longrightarrow> x < 2 powr (of_int (binade x) + 1)"
proof -
  assume x: "0 < x"
  have "x < 2 powr (of_int \<lfloor>log 2 x\<rfloor> + 1)"
    using x floor_log_eq_powr_iff [of x 2 "\<lfloor>log 2 x\<rfloor>"] by simp
  also have "\<dots> \<le> 2 powr (of_int (binade x) + 1)"
    by (simp add: binade_def)
  finally show ?thesis .
qed

lemma binade_lower: "0 < x \<Longrightarrow> - 1022 < binade x \<Longrightarrow> 2 powr (of_int (binade x)) \<le> x"
proof -
  assume x: "0 < x" and b: "- 1022 < binade x"
  then have "binade x = \<lfloor>log 2 x\<rfloor>" by (simp add: binade_def max_def split: if_splits)
  then show ?thesis using x floor_log_eq_powr_iff [of x 2 "\<lfloor>log 2 x\<rfloor>"] by simp
qed

lemma two_powr_53: "(2::real) powr (of_int b + 1) = 2 ^ 53 * 2 powr (of_int b - 52)"
proof -
  have "(2::real) powr (of_int b + 1) = 2 powr (53 + (of_int b - 52))" by (simp add: add.commute)
  also have "\<dots> = 2 powr 53 * 2 powr (of_int b - 52)" by (simp only: powr_add)
  finally show ?thesis by simp
qed

lemma two_powr_52: "(2::real) powr (of_int b) = 2 ^ 52 * 2 powr (of_int b - 52)"
proof -
  have "(2::real) powr (of_int b) = 2 powr (52 + (of_int b - 52))" by simp
  also have "\<dots> = 2 powr 52 * 2 powr (of_int b - 52)" by (simp only: powr_add)
  finally show ?thesis by simp
qed

lemma double_pos_upper:
  assumes "0 < x"
  shows "double x \<le> 2 powr (of_int (binade x) + 1)"
proof -
  have "x / ulp x < 2 ^ 53"
    using binade_upper [OF assms] ulp_pos [of x]
    by (simp add: two_powr_53 ulp_def pos_divide_less_eq)
  then have "x / ulp x \<le> of_int (2 ^ 53)" by simp
  then have "rne (x / ulp x) \<le> 2 ^ 53" by (rule rne_le)
  then have "of_int (rne (x / ulp x)) \<le> (2 ^ 53 :: real)"
    by (metis of_int_le_iff of_int_numeral of_int_power)
  then have "of_int (rne (x / ulp x)) * ulp x \<le> 2 ^ 53 * ulp x"
    using ulp_pos [of x] by (simp add: mult_right_mono)
  then show ?thesis using assms by (simp add: double_def two_powr_53 ulp_def)
qed

lemma double_pos_lower:
  assumes "0 < x" "- 1022 < binade x"
  shows "2 powr (of_int (binade x)) \<le> double x"
proof -
  have "2 ^ 52 \<le> x / ulp x"
    using binade_lower [OF assms] ulp_pos [of x]
    by (simp add: two_powr_52 ulp_def pos_le_divide_eq)
  then have "of_int (2 ^ 52) \<le> x / ulp x" by simp
  then have "2 ^ 52 \<le> rne (x / ulp x)" by (rule rne_ge)
  then have "(2 ^ 52 :: real) \<le> of_int (rne (x / ulp x))"
    by (metis of_int_le_iff of_int_numeral of_int_power)
  then have "2 ^ 52 * ulp x \<le> of_int (rne (x / ulp x)) * ulp x"
    using ulp_pos [of x] by (simp add: mult_right_mono)
  then show ?thesis using assms by (simp add: double_def two_powr_52 ulp_def)
qed

lemma double_pos_nonneg: "0 < x \<Longrightarrow> 0 \<le> double x"
proof -
  assume x: "0 < x"
  have "of_int 0 \<le> x / ulp x" using x ulp_pos [of x] by simp
  then have "0 \<le> rne (x / ulp x)" by (rule rne_ge)
  then show ?thesis using x ulp_pos [of x] by (simp add: double_def)
qed

lemma double_pos_mono:
  assumes "0 < x" "x \<le> y"
  shows "double x \<le> double y"
proof (cases "binade x = binade y")
  case True
  then have u: "ulp x = ulp y" by (simp add: ulp_def)
  have "x / ulp y \<le> y / ulp y" using assms ulp_pos [of y] by (simp add: divide_right_mono)
  then have "rne (x / ulp y) \<le> rne (y / ulp y)" by (rule rne_mono)
  then have "of_int (rne (x / ulp y)) * ulp y \<le> of_int (rne (y / ulp y)) * ulp y"
    using ulp_pos [of y] by (simp add: mult_right_mono)
  then show ?thesis using assms u by (simp add: double_def)
next
  case False
  with binade_mono [OF assms] have lt: "binade x < binade y" by simp
  have y: "0 < y" using assms by simp
  have "- 1022 \<le> binade x" by (simp add: binade_def)
  with lt have "- 1022 < binade y" by simp
  then have "2 powr (of_int (binade y)) \<le> double y" using y by (intro double_pos_lower)
  moreover have "double x \<le> 2 powr (of_int (binade x) + 1)" using assms(1) by (rule double_pos_upper)
  moreover have "(2::real) powr (of_int (binade x) + 1) \<le> 2 powr (of_int (binade y))"
    using lt by simp
  ultimately show ?thesis by linarith
qed

text \<open>Rounding keeps the order.\<close>

lemma double_mono: "x \<le> y \<Longrightarrow> double x \<le> double y"
proof -
  assume xy: "x \<le> y"
  consider "0 < x" | "x = 0" "0 < y" | "x = 0" "y = 0" | "x < 0" "0 \<le> y" | "y < 0"
    using xy by linarith
  then show ?thesis
  proof cases
    case 1
    then show ?thesis using xy by (rule double_pos_mono)
  next
    case 2
    then show ?thesis using double_pos_nonneg [of y] by (simp add: double_zero)
  next
    case 3
    then show ?thesis by simp
  next
    case 4
    have "0 \<le> double (- x)" using 4 double_pos_nonneg [of "- x"] by simp
    then have "double x \<le> 0" by (simp add: double_minus)
    moreover have "0 \<le> double y"
      using 4 double_pos_nonneg [of y] by (cases "y = 0") (simp_all add: double_zero)
    ultimately show ?thesis by simp
  next
    case 5
    then have "double (- y) \<le> double (- x)" using xy by (intro double_pos_mono) simp_all
    then show ?thesis by (simp add: double_minus)
  qed
qed

lemma double_nonneg: "0 \<le> x \<Longrightarrow> 0 \<le> double x"
  using double_mono [of 0 x] by (simp add: double_zero)

lemma double_abs: "double \<bar>x\<bar> = \<bar>double x\<bar>"
proof (cases "0 \<le> x")
  case True
  then show ?thesis using double_nonneg [of x] by simp
next
  case False
  then have "0 \<le> double (- x)" by (intro double_nonneg) simp
  then show ?thesis using False by (simp add: double_minus)
qed

text \<open>
  The double of a number known by its binade: with \<open>2^52 \<le> x * 2^k < 2^53\<close> the
  doubles around \<open>x\<close> are the multiples of \<open>2^-k\<close>.
\<close>

lemma binade_eq:
  assumes "0 < x" "2 powr (of_int e) \<le> x" "x < 2 powr (of_int e + 1)" "- 1022 \<le> e"
  shows "binade x = e"
proof -
  have "\<lfloor>log 2 x\<rfloor> = e" using assms floor_log_eq_powr_iff [of x 2 e] by simp
  then show ?thesis using assms(4) by (simp add: binade_def)
qed

lemma double_eval:
  assumes "k \<le> 1074" "2 ^ 52 \<le> x * 2 ^ k" "x * 2 ^ k < 2 ^ 53" "rne (x * 2 ^ k) = n"
  shows "double x = of_int n / 2 ^ k"
proof -
  have x: "0 < x"
  proof (rule ccontr)
    assume "\<not> 0 < x"
    then have "x * 2 ^ k \<le> 0" by (simp add: mult_le_0_iff)
    with assms(2) show False by (smt (verit) zero_less_power)
  qed
  have e: "real_of_int (52 - int k) = 52 - real k" by simp
  have p: "(2::real) powr (of_int (52 - int k)) = 2 ^ 52 / 2 ^ k"
    unfolding e by (simp add: powr_diff powr_realpow)
  have "(2::real) powr (of_int (52 - int k) + 1) = 2 powr (53 - real k)"
    unfolding e by simp
  then have p1: "(2::real) powr (of_int (52 - int k) + 1) = 2 ^ 53 / 2 ^ k"
    by (simp add: powr_diff powr_realpow)
  have b: "binade x = 52 - int k"
  proof (rule binade_eq [OF x])
    show "2 powr real_of_int (52 - int k) \<le> x"
      unfolding p using assms(2) by (simp add: field_simps)
    show "x < 2 powr (real_of_int (52 - int k) + 1)"
      unfolding p1 using assms(3) by (simp add: field_simps)
    show "- 1022 \<le> 52 - int k" using assms(1) by simp
  qed
  have u: "ulp x = 1 / 2 ^ k"
    by (simp add: ulp_def b powr_minus powr_realpow inverse_eq_divide)
  show ?thesis using x assms(4) by (simp add: double_def u)
qed

section \<open>The streak\<close>

lemma week_apart_jle:
  "jle (jdiv (jabs (jsub (Fin c) (Fin p))) (Fin ms_per_day)) (Fin 7) = week_apart (p, c)"
  by (simp add: jsub_def week_apart_def ms_per_day_def field_simps)

text \<open>
  The loop invariant: from index \<open>i\<close> the loop adds the length of the longest run of
  adjacent pairs, starting at pair \<open>i - 1\<close>, that are at most a week apart.
\<close>

lemma streak_loop_run:
  "1 \<le> i \<Longrightarrow> i \<le> length xs \<Longrightarrow> map date xs = map Fin ts \<Longrightarrow>
   streak_loop xs i s = s + length (takeWhile week_apart (drop (i - 1) (zip ts (tl ts))))"
proof (induction xs i s rule: streak_loop.induct)
  case (1 sessions i streak)
  have len: "length ts = length sessions"
    using "1.prems"(3) by (metis length_map)
  show ?case
  proof (cases "i < length sessions")
    case False
    with "1.prems" len have "drop (i - 1) (zip ts (tl ts)) = []" by simp
    with False show ?thesis by (subst streak_loop.simps) simp
  next
    case True
    have dp: "date (sessions ! (i - 1)) = Fin (ts ! (i - 1))"
      using "1.prems" True by (metis (no_types, lifting) len less_imp_diff_less nth_map)
    have dc: "date (sessions ! i) = Fin (ts ! i)"
      using "1.prems" True by (metis len nth_map)
    have zl: "i - 1 < length (zip ts (tl ts))"
      using True len "1.prems"(1) by simp
    have nth: "zip ts (tl ts) ! (i - 1) = (ts ! (i - 1), ts ! i)"
      using True len "1.prems"(1) zl by (simp add: nth_tl)
    have dr: "drop (i - 1) (zip ts (tl ts)) = (ts ! (i - 1), ts ! i) # drop i (zip ts (tl ts))"
      using Cons_nth_drop_Suc [OF zl] nth "1.prems"(1) by simp
    show ?thesis
    proof (cases "week_apart (ts ! (i - 1), ts ! i)")
      case w: True
      have "streak_loop sessions i streak = streak_loop sessions (i + 1) (streak + 1)"
        using True w dp dc by (subst streak_loop.simps) (simp add: week_apart_jle)
      also have "\<dots> = (streak + 1)
          + length (takeWhile week_apart (drop (i + 1 - 1) (zip ts (tl ts))))"
        using "1.IH" [OF True refl refl refl] True w "1.prems" dp dc
        by (simp add: week_apart_jle)
      finally show ?thesis using w dr by simp
    next
      case w: False
      have "streak_loop sessions i streak = streak"
        using True w dp dc by (subst streak_loop.simps) (simp add: week_apart_jle)
      then show ?thesis using w dr by simp
    qed
  qed
qed

lemma streak_refines:
  assumes m: "map date xs = map Fin ts"
  shows "calculateStreak xs = spec_streak ts"
proof (cases xs)
  case Nil
  with m show ?thesis by (simp add: calculateStreak_def spec_streak_def)
next
  case (Cons x xs')
  with m have "ts \<noteq> []" by auto
  moreover have "streak_loop xs 1 1
      = 1 + length (takeWhile week_apart (drop (1 - 1) (zip ts (tl ts))))"
    using Cons by (intro streak_loop_run [OF _ _ m]) simp_all
  ultimately show ?thesis using Cons by (simp add: calculateStreak_def spec_streak_def)
qed

lemma streak_loop_ge: "s \<le> streak_loop xs i s"
proof (induction xs i s rule: streak_loop.induct)
  case (1 sessions i streak)
  show ?case
    using 1 by (subst streak_loop.simps) (auto simp: Let_def intro: Suc_leD)
qed

text \<open>
  C9. The streak of no session is 0 and the streak of any session list is at least 1.
  For sessions with valid dates it is the count the specification describes: the most
  recent session, and each next one as long as it is at most 7 days from the one
  before, stopping at the first larger gap. Sessions 0, 5 and 20 days before any
  time \<open>now\<close> give the streak 2.
\<close>

theorem calculateStreak_counts_recent_run:
  "calculateStreak [] = 0
   \<and> (xs \<noteq> [] \<longrightarrow> 1 \<le> calculateStreak xs)
   \<and> (map date xs = map Fin ts \<longrightarrow> calculateStreak xs = spec_streak ts)
   \<and> (map date ys = [Fin now, Fin (now - 5 * ms_per_day), Fin (now - 20 * ms_per_day)]
        \<longrightarrow> calculateStreak ys = 2)"
proof (intro conjI impI)
  show "calculateStreak [] = 0" by (simp add: calculateStreak_def)
next
  assume "xs \<noteq> []"
  then show "1 \<le> calculateStreak xs"
    using streak_loop_ge [of 1 xs 1] by (simp add: calculateStreak_def)
next
  assume "map date xs = map Fin ts"
  then show "calculateStreak xs = spec_streak ts" by (rule streak_refines)
next
  assume "map date ys = [Fin now, Fin (now - 5 * ms_per_day), Fin (now - 20 * ms_per_day)]"
  then have "map date ys = map Fin [now, now - 5 * ms_per_day, now - 20 * ms_per_day]" by simp
  then have "calculateStreak ys = spec_streak [now, now - 5 * ms_per_day, now - 20 * ms_per_day]"
    by (rule streak_refines)
  then show "calculateStreak ys = 2"
    by (simp add: spec_streak_def week_apart_def ms_per_day_def)
qed

theorem calculateStreak_counts_recent_run_witness:
  "[session_at (30 * ms_per_day), session_at (25 * ms_per_day), session_at (10 * ms_per_day)] \<noteq> []
   \<and> map date [session_at (30 * ms_per_day), session_at (25 * ms_per_day), session_at (10 * ms_per_day)]
       = map Fin [30 * ms_per_day, 25 * ms_per_day, 10 * ms_per_day]
   \<and> 1 \<le> calculateStreak
            [session_at (30 * ms_per_day), session_at (25 * ms_per_day), session_at (10 * ms_per_day)]
   \<and> calculateStreak
        [session_at (30 * ms_per_day), session_at (25 * ms_per_day), session_at (10 * ms_per_day)]
       = spec_streak [30 * ms_per_day, 25 * ms_per_day, 10 * ms_per_day]
   \<and> calculateStreak
        [session_at (30 * ms_per_day), session_at (25 * ms_per_day), session_at (10 * ms_per_day)] = 2"
  using calculateStreak_counts_recent_run
    [of "[session_at (30 * ms_per_day), session_at (25 * ms_per_day), session_at (10 * ms_per_day)]"
        "[30 * ms_per_day, 25 * ms_per_day, 10 * ms_per_day]"
        "[session_at (30 * ms_per_day), session_at (25 * ms_per_day), session_at (10 * ms_per_day)]"
        "30 * ms_per_day"]
  by (simp add: session_at_def)

section \<open>The merge utility\<close>

lemma map_of_set_prop: "map_of (set_prop kvs key v) = (map_of kvs)(key \<mapsto> v)"
  by (induction kvs) (auto simp: fun_eq_iff)

lemma Object_assign_single: "Object_assign out (JObj [(key, v)]) = set_prop out key v"
  by (simp add: Object_assign_def)

lemma map_of_fold_keys:
  "map_of (fold (\<lambda>key out. set_prop out key (g key)) keys out) k
     = (if k \<in> set keys then Some (g k) else map_of out k)"
  by (induction keys arbitrary: out) (auto simp: map_of_set_prop)

lemma map_of_copy: "map_of (Object_assign [] (JObj t)) = map_of t"
proof
  fix k
  have "Object_assign [] (JObj t) = fold (\<lambda>key out. set_prop out key (get (JObj t) key)) (map fst t) []"
    by (simp add: Object_assign_def fold_map comp_def)
  then have "map_of (Object_assign [] (JObj t)) k
      = (if k \<in> set (map fst t) then Some (get (JObj t) k) else None)"
    by (simp add: map_of_fold_keys)
  also have "\<dots> = map_of t k"
  proof (cases "map_of t k")
    case None
    then have "k \<notin> fst ` set t" by (simp add: map_of_eq_None_iff)
    with None show ?thesis by simp
  next
    case (Some v)
    then have "k \<in> fst ` set t" by (metis map_of_eq_None_iff option.distinct(1))
    with Some show ?thesis by simp
  qed
  finally show "map_of (Object_assign [] (JObj t)) k = map_of t k" .
qed

lemma has_key_map_of: "has_key (JObj kvs) k \<longleftrightarrow> map_of kvs k \<noteq> None"
  by (simp add: map_of_eq_None_iff)

lemma deepMerge_from_objects:
  "deepMerge_from (Data (JObj t)) (JObj s)
     = JObj (fold (\<lambda>key out. set_prop out key (merge_value (Data (JObj t)) (JObj s) key))
               (map fst s) (Object_assign [] (JObj t)))"
proof -
  have "(\<lambda>key output.
           if isObject (get (JObj s) key) then
             (if \<not> key_in (Data (JObj t)) key
              then Object_assign output (JObj [(key, get (JObj s) key)])
              else set_prop output key
                     (deepMerge_from (lookup (Data (JObj t)) key) (get (JObj s) key)))
           else Object_assign output (JObj [(key, get (JObj s) key)]))
        = (\<lambda>key out. set_prop out key (merge_value (Data (JObj t)) (JObj s) key))"
    by (intro ext) (simp add: merge_value_def Object_assign_single)
  then show ?thesis
    by (subst deepMerge_from.simps) (simp add: Let_def)
qed

lemma get_deepMerge:
  "get (deepMerge (JObj t) (JObj s)) k
     = (if k \<in> set (Object_keys (JObj s)) then merge_value (Data (JObj t)) (JObj s) k
        else get (JObj t) k)"
  by (simp add: deepMerge_def deepMerge_from_objects map_of_fold_keys map_of_copy)

lemma has_key_deepMerge:
  "has_key (deepMerge (JObj t) (JObj s)) k
     \<longleftrightarrow> k \<in> set (Object_keys (JObj s)) \<or> has_key (JObj t) k"
  unfolding deepMerge_def deepMerge_from_objects has_key_map_of
  by (simp add: map_of_fold_keys map_of_copy)

lemma deepMerge_non_object_target:
  "\<not> isObject target \<Longrightarrow> deepMerge target source = JObj (Object_assign [] target)"
  unfolding deepMerge_def by (subst deepMerge_from.simps) (simp add: Let_def)

lemma deepMerge_from_builtin: "deepMerge_from (Builtin f) source = JObj []"
  by (subst deepMerge_from.simps) (simp add: Let_def)

lemma merge_value_own:
  assumes "has_key (JObj t) key"
  shows "merge_value (Data (JObj t)) source key
     = (if isObject (get source key) then deepMerge (get (JObj t) key) (get source key)
        else get source key)"
  using assms by (simp add: merge_value_def deepMerge_def)

lemma merge_value_inherited:
  assumes "\<not> has_key (JObj t) key" "key \<in> set Object_prototype_keys" "key \<noteq> ''__proto__''"
  shows "merge_value (Data (JObj t)) source key
     = (if isObject (get source key) then JObj [] else get source key)"
  using assms by (simp add: merge_value_def inherited_def deepMerge_from_builtin)

lemma merge_value_absent:
  assumes "\<not> has_key (JObj t) key" "key \<notin> set Object_prototype_keys"
  shows "merge_value (Data (JObj t)) source key = get source key"
  using assms by (simp add: merge_value_def)

lemma fold_set_prop_nonempty:
  "ps \<noteq> [] \<Longrightarrow> fold (\<lambda>kv out. set_prop out (fst kv) (snd kv)) ps out \<noteq> []"
proof (induction ps arbitrary: out)
  case Nil
  then show ?case by simp
next
  case (Cons p ps)
  have ne: "set_prop out (fst p) (snd p) \<noteq> []" by (cases out) (auto split: if_splits)
  show ?case
  proof (cases ps)
    case Nil
    with ne show ?thesis by simp
  next
    case (Cons q qs)
    then show ?thesis using Cons.IH [of "set_prop out (fst p) (snd p)"] by simp
  qed
qed

lemma Object_assign_empty_iff: "Object_assign [] v = [] \<longleftrightarrow> own_props v = []"
  using fold_set_prop_nonempty [of "own_props v" "[]"] by (auto simp: Object_assign_def)

lemma deepMerge_is_object: "isObject (deepMerge target source)"
  unfolding deepMerge_def by (subst deepMerge_from.simps) (simp add: Let_def)

lemma update_returned:
  "returned (updateUserProfile st db r userId updates) = Inr p \<Longrightarrow>
   p = assign_prop (deepMerge (returned (getUserProfile st db r userId)) updates)
         ''updatedAt'' (JStr (iso_stamp r))"
  by (auto simp: updateUserProfile_def Let_def split: sum.splits)

lemma get_assign_prop_other:
  "key \<noteq> k \<Longrightarrow> get (assign_prop p key v) k = get p k"
  by (cases p) (simp_all add: map_of_set_prop)

lemma boards_replaced:
  assumes "get (get (JObj t) ''equipment'') ''boards'' = JArr [b0]"
  shows "get (get (deepMerge (JObj t) (JObj [(''equipment'', JObj [(''boards'', JArr [b1])])]))
            ''equipment'') ''boards'' = JArr [b1]"
proof -
  obtain e where e: "get (JObj t) ''equipment'' = JObj e"
    using assms by (cases "get (JObj t) ''equipment''") simp_all
  then have has: "has_key (JObj t) ''equipment''"
    by (auto split: option.splits dest: map_of_SomeD intro: rev_image_eqI)
  have "get (deepMerge (JObj t) (JObj [(''equipment'', JObj [(''boards'', JArr [b1])])])) ''equipment''
      = deepMerge (JObj e) (JObj [(''boards'', JArr [b1])])"
    using e by (simp add: get_deepMerge merge_value_own [OF has] del: get.simps has_key.simps) simp
  then show ?thesis
    by (simp add: get_deepMerge merge_value_def)
qed

lemma stored_read:
  "returned (getUserProfile memory_only None example_readings (JStr ''u1'')) = stored_profile"
  by (simp add: getUserProfile_def after_cache_miss_def memory_or_default_def memory_only_def stored_profile_def)

lemma update_no_store:
  "returned (updateUserProfile st None r userId updates)
     = Inr (assign_prop (deepMerge (returned (getUserProfile st None r userId)) updates)
              ''updatedAt'' (JStr (iso_stamp r)))"
  by (simp add: updateUserProfile_def Let_def)

text \<open>
  C2, as stated, fails: \<open>key in target\<close> is also true of the keys every object
  inherits from \<open>Object.prototype\<close>. The empty target has no property
  \<open>constructor\<close>, the update's value under that key is a plain object, and the merge
  does not assign it: it merges it with the inherited function, which leaves the empty
  object and loses the update's value.
\<close>

theorem deepMerge_inherited_key_counterexample:
  "''constructor'' \<in> set (Object_keys (JObj [(''constructor'', JObj [(''x'', num 1)])]))
   \<and> isObject (get (JObj [(''constructor'', JObj [(''x'', num 1)])]) ''constructor'')
   \<and> \<not> has_key (JObj []) ''constructor''
   \<and> deepMerge (JObj []) (JObj [(''constructor'', JObj [(''x'', num 1)])])
       = JObj [(''constructor'', JObj [])]
   \<and> get (deepMerge (JObj []) (JObj [(''constructor'', JObj [(''x'', num 1)])])) ''constructor''
       \<noteq> get (JObj [(''constructor'', JObj [(''x'', num 1)])]) ''constructor''"
  by (simp add: deepMerge_def deepMerge_from_objects merge_value_def inherited_def
      Object_prototype_keys_def deepMerge_from_builtin Object_assign_def)

text \<open>
  C2, amended. For a target object and an update object, neither with a property
  \<open>__proto__\<close>, the merged object holds under every key of the update: the merge of
  the two values when the update's value is an object and the target has the key
  itself; the empty object when the update's value is an object and the target only
  inherits the key from \<open>Object.prototype\<close>; the update's value as it is when that
  value is an object and the target has the key in neither way; and the update's value
  as it is when it is an array or a scalar. Keys the update does not have keep the
  target's value, and the merged object has them exactly when the target has. So an
  update \<open>{equipment: {boards: [b1]}}\<close> of a profile whose boards are \<open>[b0]\<close> leaves
  the boards \<open>[b1]\<close>, in \<open>deepMerge\<close> and in the profile \<open>updateUserProfile\<close>
  returns. The profile \<open>updateUserProfile\<close> returns is that merge of the current
  profile with the update under every key but \<open>updatedAt\<close>.
\<close>

theorem deepMerge_assigns_merges_replaces:
  "(plain_keys t \<and> plain_keys s \<longrightarrow>
      (\<forall>key \<in> set (Object_keys (JObj s)).
         get (deepMerge (JObj t) (JObj s)) key =
           (if isObject (get (JObj s) key) then
              (if has_key (JObj t) key then deepMerge (get (JObj t) key) (get (JObj s) key)
               else if key \<in> set Object_prototype_keys then JObj []
               else get (JObj s) key)
            else get (JObj s) key)
         \<and> get (deepMerge (JObj t) (JObj s)) key = merge_value (Data (JObj t)) (JObj s) key)
      \<and> (\<forall>key. key \<notin> set (Object_keys (JObj s)) \<longrightarrow>
            get (deepMerge (JObj t) (JObj s)) key = get (JObj t) key
            \<and> (has_key (deepMerge (JObj t) (JObj s)) key \<longleftrightarrow> has_key (JObj t) key)))
   \<and> (get (get (JObj t) ''equipment'') ''boards'' = JArr [b0] \<longrightarrow>
        get (get (deepMerge (JObj t) (JObj [(''equipment'', JObj [(''boards'', JArr [b1])])]))
           ''equipment'') ''boards'' = JArr [b1])
   \<and> (get (get (returned (getUserProfile st db r userId)) ''equipment'') ''boards'' = JArr [b0]
        \<and> returned (updateUserProfile st db r userId
              (JObj [(''equipment'', JObj [(''boards'', JArr [b1])])])) = Inr p \<longrightarrow>
        get (get p ''equipment'') ''boards'' = JArr [b1])
   \<and> (returned (updateUserProfile st db r userId updates) = Inr q \<longrightarrow>
        (\<forall>key. key \<noteq> ''updatedAt'' \<longrightarrow>
           get q key = get (deepMerge (returned (getUserProfile st db r userId)) updates) key))"
proof -
  have c1: "plain_keys t \<and> plain_keys s \<longrightarrow>
      (\<forall>key \<in> set (Object_keys (JObj s)).
         get (deepMerge (JObj t) (JObj s)) key =
           (if isObject (get (JObj s) key) then
              (if has_key (JObj t) key then deepMerge (get (JObj t) key) (get (JObj s) key)
               else if key \<in> set Object_prototype_keys then JObj []
               else get (JObj s) key)
            else get (JObj s) key)
         \<and> get (deepMerge (JObj t) (JObj s)) key = merge_value (Data (JObj t)) (JObj s) key)
      \<and> (\<forall>key. key \<notin> set (Object_keys (JObj s)) \<longrightarrow>
            get (deepMerge (JObj t) (JObj s)) key = get (JObj t) key
            \<and> (has_key (deepMerge (JObj t) (JObj s)) key \<longleftrightarrow> has_key (JObj t) key))"
  proof (rule impI)
    assume plain: "plain_keys t \<and> plain_keys s"
    have m: "get (deepMerge (JObj t) (JObj s)) key = merge_value (Data (JObj t)) (JObj s) key"
      if "key \<in> set (Object_keys (JObj s))" for key
      using that by (simp only: get_deepMerge if_True)
    have a: "get (deepMerge (JObj t) (JObj s)) key =
           (if isObject (get (JObj s) key) then
              (if has_key (JObj t) key then deepMerge (get (JObj t) key) (get (JObj s) key)
               else if key \<in> set Object_prototype_keys then JObj []
               else get (JObj s) key)
            else get (JObj s) key)"
      if k: "key \<in> set (Object_keys (JObj s))" for key
    proof -
      from k have "key \<in> fst ` set s" by simp
      then have np: "key \<noteq> ''__proto__''" using plain unfolding plain_keys_def by blast
      show ?thesis
      proof (cases "has_key (JObj t) key")
        case True
        show ?thesis unfolding m [OF k] merge_value_own [OF True] using True by simp
      next
        case False
        show ?thesis
        proof (cases "key \<in> set Object_prototype_keys")
          case True
          show ?thesis
            unfolding m [OF k] merge_value_inherited [OF False True np] using False True by simp
        next
          case no: False
          show ?thesis unfolding m [OF k] merge_value_absent [OF False no] using False no by simp
        qed
      qed
    qed
    have c: "get (deepMerge (JObj t) (JObj s)) key = get (JObj t) key"
      if "key \<notin> set (Object_keys (JObj s))" for key
      using that by (simp only: get_deepMerge if_False)
    have d: "has_key (deepMerge (JObj t) (JObj s)) key \<longleftrightarrow> has_key (JObj t) key"
      if "key \<notin> set (Object_keys (JObj s))" for key
      using that by (simp only: has_key_deepMerge simp_thms)
    show "(\<forall>key \<in> set (Object_keys (JObj s)).
         get (deepMerge (JObj t) (JObj s)) key =
           (if isObject (get (JObj s) key) then
              (if has_key (JObj t) key then deepMerge (get (JObj t) key) (get (JObj s) key)
               else if key \<in> set Object_prototype_keys then JObj []
               else get (JObj s) key)
            else get (JObj s) key)
         \<and> get (deepMerge (JObj t) (JObj s)) key = merge_value (Data (JObj t)) (JObj s) key)
      \<and> (\<forall>key. key \<notin> set (Object_keys (JObj s)) \<longrightarrow>
            get (deepMerge (JObj t) (JObj s)) key = get (JObj t) key
            \<and> (has_key (deepMerge (JObj t) (JObj s)) key \<longleftrightarrow> has_key (JObj t) key))"
      using m a c d by blast
  qed
  have c2: "get (get (JObj t) ''equipment'') ''boards'' = JArr [b0] \<longrightarrow>
        get (get (deepMerge (JObj t) (JObj [(''equipment'', JObj [(''boards'', JArr [b1])])]))
           ''equipment'') ''boards'' = JArr [b1]"
    using boards_replaced by blast
  let ?cur = "returned (getUserProfile st db r userId)"
  let ?upd = "JObj [(''equipment'', JObj [(''boards'', JArr [b1])])]"
  have c3: "get (get ?cur ''equipment'') ''boards'' = JArr [b0]
        \<and> returned (updateUserProfile st db r userId ?upd) = Inr p \<longrightarrow>
        get (get p ''equipment'') ''boards'' = JArr [b1]"
  proof (rule impI)
    assume a: "get (get ?cur ''equipment'') ''boards'' = JArr [b0]
        \<and> returned (updateUserProfile st db r userId ?upd) = Inr p"
    then obtain t where t: "?cur = JObj t"
      by (cases ?cur) simp_all
    from a have "p = assign_prop (deepMerge ?cur ?upd) ''updatedAt'' (JStr (iso_stamp r))"
      by (intro update_returned) simp
    then have "get p ''equipment'' = get (deepMerge ?cur ?upd) ''equipment''"
      by (simp add: get_assign_prop_other)
    then show "get (get p ''equipment'') ''boards'' = JArr [b1]"
      using a boards_replaced [of t b0 b1] unfolding t by simp
  qed
  have c4: "returned (updateUserProfile st db r userId updates) = Inr q \<longrightarrow>
        (\<forall>key. key \<noteq> ''updatedAt'' \<longrightarrow>
           get q key = get (deepMerge (returned (getUserProfile st db r userId)) updates) key)"
  proof (rule impI)
    assume "returned (updateUserProfile st db r userId updates) = Inr q"
    then have q: "q = assign_prop (deepMerge (returned (getUserProfile st db r userId)) updates)
        ''updatedAt'' (JStr (iso_stamp r))"
      by (rule update_returned)
    show "\<forall>key. key \<noteq> ''updatedAt'' \<longrightarrow>
           get q key = get (deepMerge (returned (getUserProfile st db r userId)) updates) key"
      unfolding q by (simp add: get_assign_prop_other)
  qed
  show ?thesis by (intro conjI; fact)
qed


theorem deepMerge_assigns_merges_replaces_witness:
  "plain_keys [(''id'', JStr ''u1''),
               (''equipment'', JObj [(''boards'', JArr [JStr ''b0'']), (''suits'', JArr [])])]
   \<and> plain_keys [(''equipment'', JObj [(''boards'', JArr [JStr ''b1''])]),
                  (''goals'', JObj [(''current'', JArr [])]),
                  (''toString'', JObj [(''x'', num 1)])]
   \<and> ''equipment'' \<in> set (Object_keys (JObj [(''equipment'', JObj [(''boards'', JArr [JStr ''b1''])]),
                  (''goals'', JObj [(''current'', JArr [])]),
                  (''toString'', JObj [(''x'', num 1)])]))
   \<and> get (deepMerge stored_profile
            (JObj [(''equipment'', JObj [(''boards'', JArr [JStr ''b1''])]),
                   (''goals'', JObj [(''current'', JArr [])]),
                   (''toString'', JObj [(''x'', num 1)])])) ''equipment''
       = deepMerge (JObj [(''boards'', JArr [JStr ''b0'']), (''suits'', JArr [])])
           (JObj [(''boards'', JArr [JStr ''b1''])])
   \<and> get (deepMerge stored_profile
            (JObj [(''equipment'', JObj [(''boards'', JArr [JStr ''b1''])]),
                   (''goals'', JObj [(''current'', JArr [])]),
                   (''toString'', JObj [(''x'', num 1)])])) ''goals''
       = JObj [(''current'', JArr [])]
   \<and> get (deepMerge stored_profile
            (JObj [(''equipment'', JObj [(''boards'', JArr [JStr ''b1''])]),
                   (''goals'', JObj [(''current'', JArr [])]),
                   (''toString'', JObj [(''x'', num 1)])])) ''toString''
       = JObj []
   \<and> get (deepMerge stored_profile
            (JObj [(''equipment'', JObj [(''boards'', JArr [JStr ''b1''])]),
                   (''goals'', JObj [(''current'', JArr [])]),
                   (''toString'', JObj [(''x'', num 1)])])) ''id'' = JStr ''u1''
   \<and> get (get stored_profile ''equipment'') ''boards'' = JArr [JStr ''b0'']
   \<and> get (get (deepMerge stored_profile
                 (JObj [(''equipment'', JObj [(''boards'', JArr [JStr ''b1''])])]))
           ''equipment'') ''boards'' = JArr [JStr ''b1'']
   \<and> get (get (returned (getUserProfile memory_only None example_readings (JStr ''u1'')))
           ''equipment'') ''boards'' = JArr [JStr ''b0'']
   \<and> (\<exists>p. returned (updateUserProfile memory_only None example_readings (JStr ''u1'')
                (JObj [(''equipment'', JObj [(''boards'', JArr [JStr ''b1''])])])) = Inr p
          \<and> get (get p ''equipment'') ''boards'' = JArr [JStr ''b1''])"
proof -
  let ?e = "[(''equipment'', JObj [(''boards'', JArr [JStr ''b1''])])]"
  let ?s = "[(''equipment'', JObj [(''boards'', JArr [JStr ''b1''])]),
             (''goals'', JObj [(''current'', JArr [])]),
             (''toString'', JObj [(''x'', num 1)])]"
  let ?t = "[(''id'', JStr ''u1''),
             (''equipment'', JObj [(''boards'', JArr [JStr ''b0'']), (''suits'', JArr [])])]"
  let ?p = "assign_prop (deepMerge (JObj ?t) (JObj ?e)) ''updatedAt''
              (JStr (iso_stamp example_readings))"
  note rule = deepMerge_assigns_merges_replaces
    [of ?t ?s "JStr ''b0''" "JStr ''b1''" memory_only None example_readings "JStr ''u1''" ?p]
  have pt: "plain_keys ?t" and ps: "plain_keys ?s" by (simp_all add: plain_keys_def)
  have k1: "''equipment'' \<in> set (Object_keys (JObj ?s))" by simp
  have k2: "''goals'' \<in> set (Object_keys (JObj ?s))" by simp
  have k3: "''toString'' \<in> set (Object_keys (JObj ?s))" by simp
  have k4: "''id'' \<notin> set (Object_keys (JObj ?s))" by simp
  have b0: "get (get (JObj ?t) ''equipment'') ''boards'' = JArr [JStr ''b0'']" by simp
  have rd: "returned (getUserProfile memory_only None example_readings (JStr ''u1'')) = JObj ?t"
    by (simp add: stored_read stored_profile_def)
  have up: "returned (updateUserProfile memory_only None example_readings (JStr ''u1'') (JObj ?e))
      = Inr ?p"
    by (simp only: update_no_store rd)
  from rule pt ps have keys: "\<forall>key \<in> set (Object_keys (JObj ?s)).
         get (deepMerge (JObj ?t) (JObj ?s)) key =
           (if isObject (get (JObj ?s) key) then
              (if has_key (JObj ?t) key then deepMerge (get (JObj ?t) key) (get (JObj ?s) key)
               else if key \<in> set Object_prototype_keys then JObj []
               else get (JObj ?s) key)
            else get (JObj ?s) key)"
    and others: "\<forall>key. key \<notin> set (Object_keys (JObj ?s)) \<longrightarrow>
            get (deepMerge (JObj ?t) (JObj ?s)) key = get (JObj ?t) key"
    by blast+
  from keys k1 have c1: "get (deepMerge (JObj ?t) (JObj ?s)) ''equipment''
      = deepMerge (JObj [(''boards'', JArr [JStr ''b0'']), (''suits'', JArr [])])
          (JObj [(''boards'', JArr [JStr ''b1''])])"
    by (auto dest!: bspec [where x = "''equipment''"])
  from keys k2 have c2: "get (deepMerge (JObj ?t) (JObj ?s)) ''goals'' = JObj [(''current'', JArr [])]"
    by (auto dest!: bspec [where x = "''goals''"] simp: Object_prototype_keys_def)
  from keys k3 have c3: "get (deepMerge (JObj ?t) (JObj ?s)) ''toString'' = JObj []"
    by (auto dest!: bspec [where x = "''toString''"] simp: Object_prototype_keys_def)
  from others k4 have c4: "get (deepMerge (JObj ?t) (JObj ?s)) ''id'' = JStr ''u1''"
    by (auto dest!: spec [where x = "''id''"])
  from rule b0 have c5: "get (get (deepMerge (JObj ?t) (JObj ?e)) ''equipment'') ''boards''
      = JArr [JStr ''b1'']"
    by blast
  from rule b0 rd up have c6: "get (get ?p ''equipment'') ''boards'' = JArr [JStr ''b1'']"
    by (metis (no_types, lifting))
  show ?thesis
    unfolding stored_profile_def using pt ps k1 b0 rd up c1 c2 c3 c4 c5 c6
    by (intro conjI exI [of _ ?p]) simp_all
qed

text \<open>
  C10, as stated, fails: merging an object over an array leaves an object with the
  elements of the array under their indices, not the empty object.
\<close>

theorem deepMerge_object_over_array_counterexample:
  "''a'' \<in> set (Object_keys (JObj [(''a'', JObj [(''x'', num 2)])]))
   \<and> isObject (get (JObj [(''a'', JObj [(''x'', num 2)])]) ''a'')
   \<and> has_key (JObj [(''a'', JArr [num 1])]) ''a''
   \<and> \<not> isObject (get (JObj [(''a'', JArr [num 1])]) ''a'')
   \<and> get (deepMerge (JObj [(''a'', JArr [num 1])]) (JObj [(''a'', JObj [(''x'', num 2)])])) ''a''
       = JObj [(''0'', num 1)]
   \<and> get (deepMerge (JObj [(''a'', JArr [num 1])]) (JObj [(''a'', JObj [(''x'', num 2)])])) ''a''
       \<noteq> JObj []"
  by (simp add: get_deepMerge merge_value_def deepMerge_def [symmetric]
      deepMerge_non_object_target Object_assign_def decimal.simps digit_def)

text \<open>
  C10, amended. When a key of the update holds an object and the target's value under
  that key is not an object, the merged value is a new object with the own enumerable
  properties of the target's old value and nothing of the update's object: the empty
  object exactly when the old value has no such property (\<open>undefined\<close>, \<open>null\<close>, a
  boolean, a number, the empty string, the empty array), and the elements or
  characters under their indices for a non-empty array or string.
\<close>

theorem deepMerge_object_over_non_object:
  assumes "key \<in> set (Object_keys (JObj s))"
    and "isObject (get (JObj s) key)"
    and "has_key (JObj t) key"
    and "\<not> isObject (get (JObj t) key)"
  shows "get (deepMerge (JObj t) (JObj s)) key = JObj (Object_assign [] (get (JObj t) key))
         \<and> (get (deepMerge (JObj t) (JObj s)) key = JObj [] \<longleftrightarrow> own_props (get (JObj t) key) = [])"
proof -
  have "get (deepMerge (JObj t) (JObj s)) key = deepMerge (get (JObj t) key) (get (JObj s) key)"
    using assms(1,2) by (simp only: get_deepMerge merge_value_own [OF assms(3)] if_True)
  also have "\<dots> = JObj (Object_assign [] (get (JObj t) key))"
    using assms(4) by (rule deepMerge_non_object_target)
  finally have eq: "get (deepMerge (JObj t) (JObj s)) key = JObj (Object_assign [] (get (JObj t) key))" .
  then show ?thesis by (simp add: Object_assign_empty_iff)
qed

theorem deepMerge_object_over_non_object_witness:
  "''level'' \<in> set (Object_keys (JObj [(''level'', JObj [(''overall'', num 4)])]))
   \<and> isObject (get (JObj [(''level'', JObj [(''overall'', num 4)])]) ''level'')
   \<and> has_key (JObj [(''level'', num 3)]) ''level''
   \<and> \<not> isObject (get (JObj [(''level'', num 3)]) ''level'')
   \<and> get (deepMerge (JObj [(''level'', num 3)]) (JObj [(''level'', JObj [(''overall'', num 4)])]))
        ''level'' = JObj []"
proof -
  have "get (deepMerge (JObj [(''level'', num 3)]) (JObj [(''level'', JObj [(''overall'', num 4)])]))
        ''level'' = JObj (Object_assign [] (get (JObj [(''level'', num 3)]) ''level''))"
    using deepMerge_object_over_non_object
      [of "''level''" "[(''level'', JObj [(''overall'', num 4)])]" "[(''level'', num 3)]"]
    by simp
  then show ?thesis by (simp add: Object_assign_def)
qed

section \<open>The scoring engine: wave fit\<close>

text \<open>
  The doubles of the numbers that the scoring engine and the examples meet, each by
  its binade.
\<close>

lemma double_value_1: "double (1) = 1"
  using double_eval [of 52 "1" 4503599627370496] by (simp add: rne_eval)

lemma double_value_2: "double (1 / 2) = 1 / 2"
  using double_eval [of 53 "1 / 2" 4503599627370496] by (simp add: rne_eval)

lemma double_value_3: "double (3 / 2) = 3 / 2"
  using double_eval [of 52 "3 / 2" 6755399441055744] by (simp add: rne_eval)

lemma double_value_4: "double (5 / 2) = 5 / 2"
  using double_eval [of 51 "5 / 2" 5629499534213120] by (simp add: rne_eval)

lemma double_value_5: "double (5) = 5"
  using double_eval [of 50 "5" 5629499534213120] by (simp add: rne_eval)

lemma double_value_6: "double (15) = 15"
  using double_eval [of 49 "15" 8444249301319680] by (simp add: rne_eval)

lemma double_value_7: "double (50) = 50"
  using double_eval [of 47 "50" 7036874417766400] by (simp add: rne_eval)

lemma double_value_8: "double (1024) = 1024"
  using double_eval [of 42 "1024" 4503599627370496] by (simp add: rne_eval)

lemma double_value_9: "double (1 / 5) = 3602879701896397 / 18014398509481984"
  using double_eval [of 55 "1 / 5" 7205759403792794] by (simp add: rne_eval)

lemma double_value_10: "double (3 / 10) = 5404319552844595 / 18014398509481984"
  using double_eval [of 54 "3 / 10" 5404319552844595] by (simp add: rne_eval)

lemma double_value_11: "double (3 / 5) = 5404319552844595 / 9007199254740992"
  using double_eval [of 53 "3 / 5" 5404319552844595] by (simp add: rne_eval)

lemma double_value_12: "double (9 / 10) = 8106479329266893 / 9007199254740992"
  using double_eval [of 53 "9 / 10" 8106479329266893] by (simp add: rne_eval)

lemma double_value_13: "double (4 / 5) = 3602879701896397 / 4503599627370496"
  using double_eval [of 53 "4 / 5" 7205759403792794] by (simp add: rne_eval)

lemma double_value_14: "double (7 / 10) = 3152519739159347 / 4503599627370496"
  using double_eval [of 53 "7 / 10" 6305039478318694] by (simp add: rne_eval)

lemma double_value_15: "double (3602879701896397 / 18014398509481984) = 3602879701896397 / 18014398509481984"
  using double_eval [of 55 "3602879701896397 / 18014398509481984" 7205759403792794] by (simp add: rne_eval)

lemma double_value_16: "double (14411518807585587 / 18014398509481984) = 3602879701896397 / 4503599627370496"
  using double_eval [of 53 "14411518807585587 / 18014398509481984" 7205759403792794] by (simp add: rne_tie_up)

lemma double_value_17: "double (18014398509481985 / 18014398509481984) = 1"
  using double_eval [of 52 "18014398509481985 / 18014398509481984" 4503599627370496] by (simp add: rne_eval)

lemma double_value_18: "double (27021597764222975 / 18014398509481984) = 3 / 2"
  using double_eval [of 52 "27021597764222975 / 18014398509481984" 6755399441055744] by (simp add: rne_eval)

lemma double_value_19: "double (6 / 5) = 5404319552844595 / 4503599627370496"
  using double_eval [of 52 "6 / 5" 5404319552844595] by (simp add: rne_eval)

lemma double_value_20: "double (13 / 10) = 5854679515581645 / 4503599627370496"
  using double_eval [of 52 "13 / 10" 5854679515581645] by (simp add: rne_eval)

lemma double_value_21: "double (7656119366529843 / 4503599627370496) = 7656119366529843 / 4503599627370496"
  using double_eval [of 52 "7656119366529843 / 4503599627370496" 7656119366529843] by (simp add: rne_eval)

lemma double_value_22: "double (2 / 3) = 6004799503160661 / 9007199254740992"
  using double_eval [of 53 "2 / 3" 6004799503160661] by (simp add: rne_eval)

lemma double_value_23: "double (3002399751580331 / 9007199254740992) = 3002399751580331 / 9007199254740992"
  using double_eval [of 54 "3002399751580331 / 9007199254740992" 6004799503160662] by (simp add: rne_eval)

lemma double_value_24: "double (15011998757901655 / 9007199254740992) = 1876499844737707 / 1125899906842624"
  using double_eval [of 52 "15011998757901655 / 9007199254740992" 7505999378950828] by (simp add: rne_tie_up)

lemma double_value_25: "double (19471113219505603967277331424215 / 324518553658426726783156020576256) = 1080863910568919 / 18014398509481984"
  using double_eval [of 57 "19471113219505603967277331424215 / 324518553658426726783156020576256" 8646911284551352] by (simp add: rne_eval)

lemma double_value_26: "double (11889503016258109 / 18014398509481984) = 2972375754064527 / 4503599627370496"
  using double_eval [of 53 "11889503016258109 / 18014398509481984" 5944751508129054] by (simp add: rne_tie_down)

lemma double_value_27: "double (2972375754064527 / 4503599627370496) = 2972375754064527 / 4503599627370496"
  using double_eval [of 53 "2972375754064527 / 4503599627370496" 5944751508129054] by (simp add: rne_eval)

lemma double_value_28: "double (5577662641004209681837468019589 / 5070602400912917605986812821504) = 2476979795053773 / 2251799813685248"
  using double_eval [of 52 "5577662641004209681837468019589 / 5070602400912917605986812821504" 4953959590107546] by (simp add: rne_eval)

lemma double_value_29: "double (2476979795053773 / 2251799813685248) = 2476979795053773 / 2251799813685248"
  using double_eval [of 52 "2476979795053773 / 2251799813685248" 4953959590107546] by (simp add: rne_eval)

lemma double_value_30: "double (12384898975268865 / 1125899906842624) = 11"
  using double_eval [of 49 "12384898975268865 / 1125899906842624" 6192449487634432] by (simp add: rne_tie_down)

lemma double_value_31: "double (11 / 10) = 2476979795053773 / 2251799813685248"
  using double_eval [of 52 "11 / 10" 4953959590107546] by (simp add: rne_eval)

lemma double_value_32: "double (225179981368525 / 2251799813685248) = 225179981368525 / 2251799813685248"
  using double_eval [of 56 "225179981368525 / 2251799813685248" 7205759403792800] by (simp add: rne_eval)

lemma double_value_33: "double (450359962737050 / 7656119366529843) = 4238682002231059 / 72057594037927936"
  using double_eval [of 57 "450359962737050 / 7656119366529843" 8477364004462118] by (simp add: rne_eval)

lemma double_value_34: "double (67818912035696877 / 72057594037927936) = 4238682002231055 / 4503599627370496"
  using double_eval [of 53 "67818912035696877 / 72057594037927936" 8477364004462110] by (simp add: rne_eval)

lemma double_value_35: "double (4238682002231055 / 9007199254740992) = 4238682002231055 / 9007199254740992"
  using double_eval [of 54 "4238682002231055 / 9007199254740992" 8477364004462110] by (simp add: rne_eval)

lemma double_value_36: "double (8742281629601551 / 9007199254740992) = 8742281629601551 / 9007199254740992"
  using double_eval [of 53 "8742281629601551 / 9007199254740992" 8742281629601551] by (simp add: rne_eval)

lemma double_value_37: "double (43711408148007755 / 9007199254740992) = 5463926018500969 / 1125899906842624"
  using double_eval [of 50 "43711408148007755 / 9007199254740992" 5463926018500969] by (simp add: rne_eval)

lemma double_value_38: "double (16404890120600616369101404840739 / 10141204801825835211973625643008) = 3642617345667313 / 2251799813685248"
  using double_eval [of 52 "16404890120600616369101404840739 / 10141204801825835211973625643008" 7285234691334626] by (simp add: rne_eval)

lemma double_value_39: "double (10827227479596405280992876705951 / 10141204801825835211973625643008) = 4808254896280853 / 4503599627370496"
  using double_eval [of 52 "10827227479596405280992876705951 / 10141204801825835211973625643008" 4808254896280853] by (simp add: rne_eval)

lemma double_value_40: "double (4808254896280853 / 4503599627370496) = 4808254896280853 / 4503599627370496"
  using double_eval [of 52 "4808254896280853 / 4503599627370496" 4808254896280853] by (simp add: rne_eval)

lemma double_value_41: "double (24041274481404265 / 2251799813685248) = 3005159310175533 / 281474976710656"
  using double_eval [of 49 "24041274481404265 / 2251799813685248" 6010318620351066] by (simp add: rne_eval)

lemma double_value_42: "double (9007199254740993 / 18014398509481984) = 1 / 2"
  using double_eval [of 53 "9007199254740993 / 18014398509481984" 4503599627370496] by (simp add: rne_tie_down)

lemma double_value_43: "double (2972375754064527 / 9007199254740992) = 2972375754064527 / 9007199254740992"
  using double_eval [of 54 "2972375754064527 / 9007199254740992" 5944751508129054] by (simp add: rne_eval)

lemma double_value_44: "double (14861878770322635 / 4503599627370496) = 3715469692580659 / 1125899906842624"
  using double_eval [of 51 "14861878770322635 / 4503599627370496" 7430939385161318] by (simp add: rne_tie_up)

lemma max_double_ge: "1024 \<le> max_double"
  by (simp add: max_double_def)

lemma fl64_fin: "- max_double \<le> double x \<Longrightarrow> double x \<le> max_double \<Longrightarrow> fl64 x = Fin (double x)"
  by (simp add: fl64_def)

lemma fl64_is_fin: "fl64 x = Fin y \<Longrightarrow> y = double x \<and> - max_double \<le> y \<and> y \<le> max_double"
  by (auto simp: fl64_def split: if_splits)

lemma fl64_small:
  assumes "\<bar>x\<bar> \<le> 1024"
  shows "fl64 x = Fin (double x)"
proof -
  have "double x \<le> double 1024" using assms by (intro double_mono) simp
  moreover have "double (- 1024) \<le> double x" using assms by (intro double_mono) simp
  ultimately show ?thesis
    using max_double_ge by (intro fl64_fin) (simp_all add: double_value_8 double_minus)
qed

lemma fl64_nonneg:
  assumes "0 \<le> x"
  shows "fl64 x = PInf \<or> fl64 x = Fin (double x)"
  using double_nonneg [OF assms] max_double_ge by (simp add: fl64_def)

lemma double_unit: "0 \<le> x \<Longrightarrow> x \<le> 1 \<Longrightarrow> 0 \<le> double x \<and> double x \<le> 1"
  using double_mono [of 0 x] double_mono [of x 1] by (simp add: double_zero double_value_1)

lemma fadd_fin: "\<bar>a + b\<bar> \<le> 1024 \<Longrightarrow> fadd (Fin a) (Fin b) = Fin (double (a + b))"
  by (simp add: fadd_def fl64_small)

lemma fsub_fin: "\<bar>a - b\<bar> \<le> 1024 \<Longrightarrow> fsub (Fin a) (Fin b) = Fin (double (a - b))"
  by (simp add: fsub_def jsub_def fl64_small)

lemma fmul_fin: "\<bar>a * b\<bar> \<le> 1024 \<Longrightarrow> fmul (Fin a) (Fin b) = Fin (double (a * b))"
  by (simp add: fmul_def fl64_small)

lemma fdiv_fin: "b \<noteq> 0 \<Longrightarrow> \<bar>a / b\<bar> \<le> 1024 \<Longrightarrow> fdiv (Fin a) (Fin b) = Fin (double (a / b))"
  by (simp add: fdiv_def fl64_small)

lemma unit_product:
  assumes "0 \<le> (a::real)" "a \<le> 1" "0 \<le> b" "b \<le> 1"
  shows "\<bar>a * b\<bar> \<le> 1024"
proof -
  have "a * b \<le> 1 * 1" using assms by (intro mult_mono) simp_all
  moreover have "0 \<le> a * b" using assms by simp
  ultimately show ?thesis by simp
qed

text \<open>The wave step inside the range, and its dependence on the distance.\<close>

lemma wave_fit_anti:
  assumes "0 < rg" "d1 \<le> d2"
  shows "wave_fit rg d2 \<le> wave_fit rg d1"
proof -
  define q where "q d = double (d / rg)" for d
  define wf where "wf d = double (1 - q d)" for d
  define a where "a d = double (1 / 2 * wf d)" for d
  define b where "b d = double (1 / 2 + a d)" for d
  have "d1 / rg \<le> d2 / rg" using assms by (simp add: divide_right_mono)
  then have "q d1 \<le> q d2" unfolding q_def by (rule double_mono)
  then have "wf d2 \<le> wf d1" unfolding wf_def by (intro double_mono) simp
  then have "a d2 \<le> a d1" unfolding a_def by (intro double_mono) simp
  then have "b d2 \<le> b d1" unfolding b_def by (intro double_mono) simp
  then have "double (5 * b d2) \<le> double (5 * b d1)" by (intro double_mono) simp
  then show ?thesis by (simp add: wave_fit_def b_def a_def wf_def q_def)
qed

lemma wave_fit_zero: "wave_fit rg 0 = 5"
  by (simp add: wave_fit_def double_zero double_value_1 double_value_2 double_value_5)

lemma wave_fit_full: "rg \<noteq> 0 \<Longrightarrow> wave_fit rg rg = 5 / 2"
  by (simp add: wave_fit_def double_zero double_value_1 double_value_2 double_value_4)

lemma wave_fit_range:
  assumes "0 < rg" "0 \<le> d" "d \<le> rg"
  shows "5 / 2 \<le> wave_fit rg d \<and> wave_fit rg d \<le> 5"
  using wave_fit_anti [OF assms(1,2)] wave_fit_anti [OF assms(1,3)] assms(1)
  by (simp add: wave_fit_zero wave_fit_full)

lemma wave_step_inside:
  assumes f: "wave_min u = Fin mn" "wave_max u = Fin mx" "wave_optimal u = Fin opt"
    and rg: "fsub (Fin mx) (Fin mn) = Fin rg" "0 < rg"
    and o: "mn \<le> opt" "opt \<le> mx"
    and h: "mn \<le> h" "h \<le> mx"
  shows "wave_step u (c\<lparr>waveHeight := Fin h\<rparr>) (Fin 5) = Fin (wave_fit rg (double \<bar>h - opt\<bar>))"
proof -
  have "fl64 (mx - mn) = Fin rg" using rg(1) by (simp add: fsub_def jsub_def)
  then have rgv: "rg = double (mx - mn)" "rg \<le> max_double"
    using fl64_is_fin [of "mx - mn" rg] by simp_all
  define d where "d = double \<bar>h - opt\<bar>"
  have "\<bar>h - opt\<bar> \<le> mx - mn" using o h by linarith
  then have dle: "d \<le> rg" unfolding d_def rgv(1) by (rule double_mono)
  have d0: "0 \<le> d" unfolding d_def by (intro double_nonneg) simp
  have dabs: "\<bar>double (h - opt)\<bar> = d" by (simp add: d_def double_abs)
  have "- max_double \<le> double (h - opt)" "double (h - opt) \<le> max_double"
    using dabs dle rgv(2) by linarith+
  then have s1: "fsub (Fin h) (Fin opt) = Fin (double (h - opt))"
    by (simp add: fsub_def jsub_def fl64_fin)
  define q where "q = double (d / rg)"
  have qr: "0 \<le> d / rg" "d / rg \<le> 1" using d0 dle rg(2) by simp_all
  have q01: "0 \<le> q" "q \<le> 1" unfolding q_def using double_unit [OF qr] by simp_all
  have "\<bar>d / rg\<bar> \<le> 1024" using qr by linarith
  then have s2: "fdiv (Fin d) (Fin rg) = Fin q"
    unfolding q_def using rg(2) by (intro fdiv_fin) simp_all
  define wf where "wf = double (1 - q)"
  have wf01: "0 \<le> wf" "wf \<le> 1"
    unfolding wf_def using double_unit [of "1 - q"] q01 by simp_all
  have s3: "fsub (Fin 1) (Fin q) = Fin wf"
    unfolding wf_def using q01 by (intro fsub_fin) simp
  define a where "a = double (1 / 2 * wf)"
  have a01: "0 \<le> a" "a \<le> 1"
    unfolding a_def using double_unit [of "1 / 2 * wf"] wf01 by simp_all
  have s4: "fmul (Fin (1 / 2)) (Fin wf) = Fin a"
    unfolding a_def using wf01 by (intro fmul_fin) simp
  define b where "b = double (1 / 2 + a)"
  have "double 0 \<le> b" "b \<le> double (3 / 2)"
    unfolding b_def using a01 by (intro double_mono; simp)+
  then have b02: "0 \<le> b" "b \<le> 3 / 2" by (simp_all add: double_zero double_value_3)
  have s5: "fadd (Fin (1 / 2)) (Fin a) = Fin b"
    unfolding b_def using a01 by (intro fadd_fin) simp
  have s6: "fmul (Fin 5) (Fin b) = Fin (double (5 * b))"
    using b02 by (intro fmul_fin) simp
  have "wave_step u (c\<lparr>waveHeight := Fin h\<rparr>) (Fin 5) = Fin (double (5 * b))"
    using f h by (simp add: wave_step_def Let_def jge_def rg(1) s1 dabs s2 s3 s4 s5 s6)
  then show ?thesis by (simp add: wave_fit_def b_def a_def wf_def q_def d_def)
qed

lemma wave_step_outside:
  assumes "wave_min u = Fin mn" "wave_max u = Fin mx" "h < mn \<or> mx < h"
  shows "wave_step u (c\<lparr>waveHeight := Fin h\<rparr>) (Fin 5) = Fin (3 / 2)"
proof -
  have "fmul (Fin 5) (Fin (double (3 / 10))) = Fin (3 / 2)"
    by (simp add: fmul_def double_value_10 fl64_small double_value_18)
  then show ?thesis using assms by (auto simp: wave_step_def Let_def jge_def)
qed

text \<open>The wind, level and crowd factors are numbers between 0 and 1.\<close>

lemma wind_step_fin:
  assumes "onshore u = Fin tol" "windSpeed c = Fin ws" "0 < tol" "0 \<le> ws"
  shows "\<exists>W. 0 \<le> W \<and> W \<le> 1
           \<and> (\<forall>w s. \<bar>s\<bar> \<le> 5 \<longrightarrow> wind_step u (c\<lparr>waveHeight := w\<rparr>) (Fin s) = Fin (double (s * W)))"
proof -
  define v where "v = double (1 / 5)"
  have v: "0 \<le> v" "v \<le> 1" unfolding v_def using double_unit [of "1 / 5"] by simp_all
  have r: "0 \<le> ws / tol" using assms by simp
  have "\<exists>W. v \<le> W \<and> W \<le> 1
          \<and> Math_max (Fin v) (fsub (Fin 1) (fdiv (Fin ws) (Fin tol))) = Fin W"
  proof -
    consider "fl64 (ws / tol) = PInf" | "fl64 (ws / tol) = Fin (double (ws / tol))"
      using fl64_nonneg [OF r] by blast
    then show ?thesis
    proof cases
      case 1
      then have "Math_max (Fin v) (fsub (Fin 1) (fdiv (Fin ws) (Fin tol))) = Fin v"
        using assms(3) by (simp add: fdiv_def fsub_def jsub_def Math_max_def)
      with v show ?thesis by blast
    next
      case 2
      define y where "y = double (1 - double (ws / tol))"
      have "y \<le> double 1"
        unfolding y_def using double_nonneg [OF r] by (intro double_mono) simp
      then have y1: "y \<le> 1" by (simp add: double_value_1)
      then have "fl64 (1 - double (ws / tol)) = (if y < - max_double then NInf else Fin y)"
        using max_double_ge by (simp add: fl64_def y_def)
      then have "Math_max (Fin v) (fsub (Fin 1) (fdiv (Fin ws) (Fin tol))) = Fin (max v y)"
        using 2 assms(3) v(1) max_double_ge
        by (auto simp: fdiv_def fsub_def jsub_def Math_max_def max_def)
      moreover have "v \<le> max v y" "max v y \<le> 1" using v y1 by simp_all
      ultimately show ?thesis by blast
    qed
  qed
  then obtain W where W: "v \<le> W" "W \<le> 1"
    "Math_max (Fin v) (fsub (Fin 1) (fdiv (Fin ws) (Fin tol))) = Fin W"
    by blast
  have "wind_step u (c\<lparr>waveHeight := w\<rparr>) (Fin s) = Fin (double (s * W))" if "\<bar>s\<bar> \<le> 5" for w s
  proof -
    have "\<bar>s * W\<bar> \<le> 5 * 1"
      unfolding abs_mult using that v W by (intro mult_mono) simp_all
    then have "fmul (Fin s) (Fin W) = Fin (double (s * W))" by (intro fmul_fin) simp
    then show ?thesis using assms(1,2) W(3) by (simp add: wind_step_def Let_def v_def)
  qed
  with v W show ?thesis by (intro exI [of _ W]) simp
qed

lemma unit_factor:
  assumes "0 \<le> x" "0 < k"
  shows "\<exists>l. 0 \<le> l \<and> l \<le> 1 \<and> Math_min (Fin 1) (fdiv (Fin x) (Fin k)) = Fin l"
proof -
  have r: "0 \<le> x / k" using assms by simp
  consider "fl64 (x / k) = PInf" | "fl64 (x / k) = Fin (double (x / k))"
    using fl64_nonneg [OF r] by blast
  then show ?thesis
  proof cases
    case 1
    then have "Math_min (Fin 1) (fdiv (Fin x) (Fin k)) = Fin 1"
      using assms(2) by (simp add: fdiv_def Math_min_def)
    then show ?thesis by (intro exI [of _ 1]) simp
  next
    case 2
    then have "Math_min (Fin 1) (fdiv (Fin x) (Fin k)) = Fin (min 1 (double (x / k)))"
      using assms(2) by (simp add: fdiv_def Math_min_def min_def)
    moreover have "0 \<le> min 1 (double (x / k))" "min 1 (double (x / k)) \<le> 1"
      using double_nonneg [OF r] by simp_all
    ultimately show ?thesis by blast
  qed
qed

lemma level_step_fin:
  assumes "overall u = Fin lv" "sessionsCount u = Fin n" "0 \<le> lv" "0 \<le> n"
  shows "\<exists>L. 0 \<le> L \<and> L \<le> 1
           \<and> (\<forall>s. \<bar>s\<bar> \<le> 5 \<longrightarrow> level_step u (Fin s) = Fin (double (s * L)))"
proof -
  obtain l where l: "0 \<le> l" "l \<le> 1" "Math_min (Fin 1) (fdiv (Fin lv) (Fin 10)) = Fin l"
    using unit_factor [OF assms(3), of 10] by auto
  obtain e where e: "0 \<le> e" "e \<le> 1" "Math_min (Fin 1) (fdiv (Fin n) (Fin 100)) = Fin e"
    using unit_factor [OF assms(4), of 100] by auto
  define v2 where "v2 = double (1 / 5)"
  define v6 where "v6 = double (3 / 5)"
  define v8 where "v8 = double (4 / 5)"
  have v2: "0 \<le> v2" "v2 \<le> 1" unfolding v2_def using double_unit [of "1 / 5"] by simp_all
  have v6: "0 \<le> v6" "v6 \<le> 1" unfolding v6_def using double_unit [of "3 / 5"] by simp_all
  have v8: "0 \<le> v8" "v8 \<le> 1" unfolding v8_def using double_unit [of "4 / 5"] by simp_all
  have i2: "double v2 = v2" by (simp add: v2_def double_value_9 double_value_15)
  have i8: "double (v6 + v2) = v8"
    by (simp add: v2_def v6_def v8_def double_value_9 double_value_11 double_value_13 double_value_16)
  have i1: "double (v8 + v2) = 1"
    by (simp add: v2_def v8_def double_value_9 double_value_13 double_value_17)
  define p1 where "p1 = double (v2 * l)"
  define p2 where "p2 = double (v2 * e)"
  have "double 0 \<le> p1" "p1 \<le> double v2"
    unfolding p1_def using v2 l by (intro double_mono; simp add: mult_left_le)+
  then have p1: "0 \<le> p1" "p1 \<le> v2" by (simp_all add: double_zero i2)
  have "double 0 \<le> p2" "p2 \<le> double v2"
    unfolding p2_def using v2 e by (intro double_mono; simp add: mult_left_le)+
  then have p2: "0 \<le> p2" "p2 \<le> v2" by (simp_all add: double_zero i2)
  define x1 where "x1 = double (v6 + p1)"
  have "double 0 \<le> x1" "x1 \<le> double (v6 + v2)"
    unfolding x1_def using v6 p1 by (intro double_mono; simp)+
  then have x1: "0 \<le> x1" "x1 \<le> v8" by (simp_all add: double_zero i8)
  define L where "L = double (x1 + p2)"
  have "double 0 \<le> L" "L \<le> double (v8 + v2)"
    unfolding L_def using x1 p2 by (intro double_mono; simp)+
  then have L: "0 \<le> L" "L \<le> 1" by (simp_all add: double_zero i1)
  have m1: "fmul (Fin v2) (Fin l) = Fin p1"
    unfolding p1_def using v2 l by (intro fmul_fin unit_product) simp_all
  have m2: "fmul (Fin v2) (Fin e) = Fin p2"
    unfolding p2_def using v2 e by (intro fmul_fin unit_product) simp_all
  have a1: "fadd (Fin v6) (Fin p1) = Fin x1"
    unfolding x1_def using v6 p1 v2 by (intro fadd_fin) simp
  have a2: "fadd (Fin x1) (Fin p2) = Fin L"
    unfolding L_def using x1 v8 p2 v2 by (intro fadd_fin) simp
  have "level_step u (Fin s) = Fin (double (s * L))" if "\<bar>s\<bar> \<le> 5" for s
  proof -
    have "\<bar>s * L\<bar> \<le> 5 * 1"
      unfolding abs_mult using that L by (intro mult_mono) simp_all
    then have "fmul (Fin s) (Fin L) = Fin (double (s * L))" by (intro fmul_fin) simp
    then show ?thesis
      using assms(1,2) l(3) e(3) m1 m2 a1 a2
      by (simp add: level_step_def Let_def v2_def v6_def)
  qed
  with L show ?thesis by (intro exI [of _ L]) simp
qed

lemma crowd_factor_known:
  assumes "t \<in> {''low'', ''medium'', ''high''}" "cr \<notin> set Object_prototype_keys"
  shows "\<exists>f. 0 \<le> f \<and> f \<le> 1 \<and> crowd_factor t cr = Inr (Fin f)"
proof -
  have n: "double (9 / 10) \<noteq> 0" "double (4 / 5) \<noteq> 0" "double (7 / 10) \<noteq> 0"
    by (simp_all add: double_value_12 double_value_13 double_value_14)
  have b: "0 \<le> double (9 / 10) \<and> double (9 / 10) \<le> 1"
    "0 \<le> double (4 / 5) \<and> double (4 / 5) \<le> 1" "0 \<le> double (7 / 10) \<and> double (7 / 10) \<le> 1"
    by (intro double_unit; simp)+
  consider "t = ''low''" | "t = ''medium''" | "t = ''high''" using assms(1) by blast
  then show ?thesis
  proof cases
    case 1
    define f where "f = (if cr = ''low'' then 1 else if cr = ''medium''
        then double (9 / 10) else if cr = ''high'' then double (4 / 5) else 1)"
    have "crowd_factor t cr = Inr (Fin f)"
      using assms(2) n unfolding 1 f_def by (simp add: crowd_factor_def crowdFactors_def)
    moreover have "0 \<le> f \<and> f \<le> 1" using b by (simp add: f_def)
    ultimately show ?thesis by blast
  next
    case 2
    define f where "f = (if cr = ''low'' then double (9 / 10) else if cr = ''medium''
        then 1 else if cr = ''high'' then double (7 / 10) else 1)"
    have "crowd_factor t cr = Inr (Fin f)"
      using assms(2) n unfolding 2 f_def by (simp add: crowd_factor_def crowdFactors_def)
    moreover have "0 \<le> f \<and> f \<le> 1" using b by (simp add: f_def)
    ultimately show ?thesis by blast
  next
    case 3
    define f where "f = (if cr = ''low'' then double (4 / 5) else if cr = ''medium''
        then double (9 / 10) else if cr = ''high'' then 1 else 1)"
    have "crowd_factor t cr = Inr (Fin f)"
      using assms(2) n unfolding 3 f_def by (simp add: crowd_factor_def crowdFactors_def)
    moreover have "0 \<le> f \<and> f \<le> 1" using b by (simp add: f_def)
    ultimately show ?thesis by blast
  qed
qed

lemma crowd_step_fin:
  assumes "known_crowd u c"
  shows "\<exists>C. (\<forall>f. C = Some f \<longrightarrow> 0 \<le> f \<and> f \<le> 1)
           \<and> (\<forall>w s. \<bar>s\<bar> \<le> 5 \<longrightarrow>
                 crowd_step u (c\<lparr>waveHeight := w\<rparr>) (Fin s)
                   = Inr (Fin (case C of None \<Rightarrow> s | Some f \<Rightarrow> double (s * f))))"
proof (cases "crowd c")
  case None
  then have "\<forall>w s. \<bar>s\<bar> \<le> 5 \<longrightarrow> crowd_step u (c\<lparr>waveHeight := w\<rparr>) (Fin s)
      = Inr (Fin (case None of None \<Rightarrow> s | Some f \<Rightarrow> double (s * f)))"
    by (simp add: crowd_step_def)
  then show ?thesis by (intro exI [of _ None]) simp
next
  case (Some cr)
  show ?thesis
  proof (cases "cr = []")
    case True
    with Some have "\<forall>w s. \<bar>s\<bar> \<le> 5 \<longrightarrow> crowd_step u (c\<lparr>waveHeight := w\<rparr>) (Fin s)
        = Inr (Fin (case None of None \<Rightarrow> s | Some f \<Rightarrow> double (s * f)))"
      by (simp add: crowd_step_def)
    then show ?thesis by (intro exI [of _ None]) simp
  next
    case False
    with assms Some have "crowdTolerance u \<in> {''low'', ''medium'', ''high''}"
      "cr \<notin> set Object_prototype_keys"
      by (simp_all add: known_crowd_def)
    then obtain f where f: "0 \<le> f" "f \<le> 1" "crowd_factor (crowdTolerance u) cr = Inr (Fin f)"
      using crowd_factor_known by blast
    have "crowd_step u (c\<lparr>waveHeight := w\<rparr>) (Fin s) = Inr (Fin (double (s * f)))"
      if "\<bar>s\<bar> \<le> 5" for w s
    proof -
      have "\<bar>s * f\<bar> \<le> 5 * 1"
        unfolding abs_mult using that f by (intro mult_mono) simp_all
      then have "fmul (Fin s) (Fin f) = Fin (double (s * f))" by (intro fmul_fin) simp
      then show ?thesis using Some False f(3) by (simp add: crowd_step_def)
    qed
    then have "\<forall>w s. \<bar>s\<bar> \<le> 5 \<longrightarrow> crowd_step u (c\<lparr>waveHeight := w\<rparr>) (Fin s)
        = Inr (Fin (case Some f of None \<Rightarrow> s | Some f \<Rightarrow> double (s * f)))"
      by simp
    with f show ?thesis by (intro exI [of _ "Some f"]) simp
  qed
qed

lemma double_within: "0 \<le> x \<Longrightarrow> x \<le> 5 \<Longrightarrow> 0 \<le> double x \<and> double x \<le> 5"
  using double_mono [of 0 x] double_mono [of x 5] by (simp add: double_zero double_value_5)

lemma round1_fin:
  assumes "0 \<le> s" "s \<le> 5"
  shows "round1 (Fin s) = Fin (double (of_int \<lfloor>double (s * 10) + 1 / 2\<rfloor> / 10))"
proof -
  have "double 0 \<le> double (s * 10)" "double (s * 10) \<le> double 50"
    using assms by (intro double_mono; simp)+
  then have t: "0 \<le> double (s * 10)" "double (s * 10) \<le> 50"
    by (simp_all add: double_zero double_value_7)
  have m: "fmul (Fin s) (Fin 10) = Fin (double (s * 10))"
    using assms by (intro fmul_fin) simp
  have "0 \<le> \<lfloor>double (s * 10) + 1 / 2\<rfloor>" "\<lfloor>double (s * 10) + 1 / 2\<rfloor> \<le> 50"
    using t by (simp_all add: le_floor_iff floor_le_iff)
  then have "\<bar>real_of_int \<lfloor>double (s * 10) + 1 / 2\<rfloor> / 10\<bar> \<le> 1024" by simp
  then have d: "fdiv (Fin (of_int \<lfloor>double (s * 10) + 1 / 2\<rfloor>)) (Fin 10)
      = Fin (double (of_int \<lfloor>double (s * 10) + 1 / 2\<rfloor> / 10))"
    by (intro fdiv_fin) simp_all
  show ?thesis by (simp add: round1_def m d)
qed

text \<open>The rest of the computation keeps the order of the scores after the wave step.\<close>

lemma finish_mono:
  assumes "0 \<le> W" "0 \<le> L" "\<forall>f. C = Some f \<longrightarrow> 0 \<le> f \<and> f \<le> 1" "s \<le> s'"
  shows "finish W L C s \<le> finish W L C s'"
proof -
  define s4 where "s4 x = (case C of None \<Rightarrow> double (double (x * W) * L)
                           | Some f \<Rightarrow> double (double (double (x * W) * L) * f))" for x
  have "double (s * W) \<le> double (s' * W)"
    using assms(1,4) by (intro double_mono) (simp add: mult_right_mono)
  then have 3: "double (double (s * W) * L) \<le> double (double (s' * W) * L)"
    using assms(2) by (intro double_mono) (simp add: mult_right_mono)
  have "s4 s \<le> s4 s'"
  proof (cases C)
    case None
    with 3 show ?thesis by (simp add: s4_def)
  next
    case (Some f)
    with assms(3) have "0 \<le> f" by simp
    with 3 have "double (double (double (s * W) * L) * f) \<le> double (double (double (s' * W) * L) * f)"
      by (intro double_mono) (simp add: mult_right_mono)
    with Some show ?thesis by (simp add: s4_def)
  qed
  then have "double (s4 s * 10) \<le> double (s4 s' * 10)" by (intro double_mono) simp
  then have "\<lfloor>double (s4 s * 10) + 1 / 2\<rfloor> \<le> \<lfloor>double (s4 s' * 10) + 1 / 2\<rfloor>"
    by (intro floor_mono) simp
  then have "double (of_int \<lfloor>double (s4 s * 10) + 1 / 2\<rfloor> / 10)
      \<le> double (of_int \<lfloor>double (s4 s' * 10) + 1 / 2\<rfloor> / 10)"
    by (intro double_mono) (simp add: divide_right_mono)
  then show ?thesis by (simp add: finish_def s4_def Let_def split: option.splits)
qed

lemma finish_le:
  assumes "0 \<le> W" "W \<le> 1" "0 \<le> L" "L \<le> 1" "\<forall>f. C = Some f \<longrightarrow> 0 \<le> f \<and> f \<le> 1"
    and "0 \<le> s" "s \<le> 3 / 2"
  shows "finish W L C s \<le> 3 / 2"
proof -
  have b: "0 \<le> double (x * y) \<and> double (x * y) \<le> 3 / 2"
    if "0 \<le> x" "x \<le> 3 / 2" "0 \<le> y" "y \<le> 1" for x y
  proof -
    have "x * y \<le> 3 / 2 * 1" using that by (intro mult_mono) simp_all
    then have "double (x * y) \<le> double (3 / 2)" by (intro double_mono) simp
    moreover have "0 \<le> double (x * y)" using that by (intro double_nonneg) simp
    ultimately show ?thesis by (simp add: double_value_3)
  qed
  define s2 where "s2 = double (s * W)"
  define s3 where "s3 = double (s2 * L)"
  define s4 where "s4 = (case C of None \<Rightarrow> s3 | Some f \<Rightarrow> double (s3 * f))"
  have s2: "0 \<le> s2 \<and> s2 \<le> 3 / 2" unfolding s2_def using assms by (intro b) simp_all
  have s3: "0 \<le> s3 \<and> s3 \<le> 3 / 2" unfolding s3_def using assms s2 by (intro b) simp_all
  have s4: "0 \<le> s4 \<and> s4 \<le> 3 / 2"
  proof (cases C)
    case None
    with s3 show ?thesis by (simp add: s4_def)
  next
    case (Some f)
    with assms(5) have "0 \<le> f" "f \<le> 1" by simp_all
    with s3 have "0 \<le> double (s3 * f) \<and> double (s3 * f) \<le> 3 / 2" by (intro b) simp_all
    with Some show ?thesis by (simp add: s4_def)
  qed
  have "double (s4 * 10) \<le> double 15" using s4 by (intro double_mono) simp
  then have "double (s4 * 10) \<le> 15" by (simp add: double_value_6)
  then have "\<lfloor>double (s4 * 10) + 1 / 2\<rfloor> \<le> 15" by (simp add: floor_le_iff)
  then have "real_of_int \<lfloor>double (s4 * 10) + 1 / 2\<rfloor> / 10 \<le> 3 / 2" by simp
  then have "double (of_int \<lfloor>double (s4 * 10) + 1 / 2\<rfloor> / 10) \<le> double (3 / 2)"
    by (rule double_mono)
  then show ?thesis
    unfolding finish_def Let_def s4_def s3_def s2_def by (simp add: double_value_3)
qed

lemma tail_of_score:
  assumes "onshore u = Fin tol" "windSpeed c = Fin ws" "0 < tol" "0 \<le> ws"
    and "overall u = Fin lv" "sessionsCount u = Fin n" "0 \<le> lv" "0 \<le> n"
    and "known_crowd u c"
  shows "\<exists>W L C. 0 \<le> W \<and> W \<le> 1 \<and> 0 \<le> L \<and> L \<le> 1
           \<and> (\<forall>f. C = Some f \<longrightarrow> 0 \<le> f \<and> f \<le> 1)
           \<and> (\<forall>w s. 0 \<le> s \<and> s \<le> 5 \<and> wave_step u (c\<lparr>waveHeight := w\<rparr>) (Fin 5) = Fin s \<longrightarrow>
                 calculateAdvancedSpotScore u (c\<lparr>waveHeight := w\<rparr>) = Inr (Fin (finish W L C s)))"
proof -
  obtain W where W: "0 \<le> W" "W \<le> 1"
    and wind: "\<And>w s. \<bar>s\<bar> \<le> 5 \<Longrightarrow> wind_step u (c\<lparr>waveHeight := w\<rparr>) (Fin s) = Fin (double (s * W))"
    using wind_step_fin [OF assms(1-4)] by blast
  obtain L where L: "0 \<le> L" "L \<le> 1"
    and level: "\<And>s. \<bar>s\<bar> \<le> 5 \<Longrightarrow> level_step u (Fin s) = Fin (double (s * L))"
    using level_step_fin [OF assms(5-8)] by blast
  obtain C where C: "\<forall>f. C = Some f \<longrightarrow> 0 \<le> f \<and> f \<le> 1"
    and crowd: "\<And>w s. \<bar>s\<bar> \<le> 5 \<Longrightarrow> crowd_step u (c\<lparr>waveHeight := w\<rparr>) (Fin s)
                  = Inr (Fin (case C of None \<Rightarrow> s | Some f \<Rightarrow> double (s * f)))"
    using crowd_step_fin [OF assms(9)] by blast
  have within: "0 \<le> double (x * y) \<and> double (x * y) \<le> 5"
    if "0 \<le> x" "x \<le> 5" "0 \<le> y" "y \<le> 1" for x y
  proof -
    have "x * y \<le> 5 * 1" using that by (intro mult_mono) simp_all
    moreover have "0 \<le> x * y" using that by simp
    ultimately show ?thesis using double_within [of "x * y"] by simp
  qed
  have "calculateAdvancedSpotScore u (c\<lparr>waveHeight := w\<rparr>) = Inr (Fin (finish W L C s))"
    if s: "0 \<le> s" "s \<le> 5" and w: "wave_step u (c\<lparr>waveHeight := w\<rparr>) (Fin 5) = Fin s" for w s
  proof -
    define s2 where "s2 = double (s * W)"
    define s3 where "s3 = double (s2 * L)"
    define s4 where "s4 = (case C of None \<Rightarrow> s3 | Some f \<Rightarrow> double (s3 * f))"
    have s2: "0 \<le> s2 \<and> s2 \<le> 5" unfolding s2_def using s W by (intro within) simp_all
    have s3: "0 \<le> s3 \<and> s3 \<le> 5" unfolding s3_def using s2 L by (intro within) simp_all
    have s4: "0 \<le> s4 \<and> s4 \<le> 5"
    proof (cases C)
      case None
      with s3 show ?thesis by (simp add: s4_def)
    next
      case (Some f)
      with C have "0 \<le> f" "f \<le> 1" by simp_all
      with s3 have "0 \<le> double (s3 * f) \<and> double (s3 * f) \<le> 5" by (intro within) simp_all
      with Some show ?thesis by (simp add: s4_def)
    qed
    have 1: "wind_step u (c\<lparr>waveHeight := w\<rparr>) (Fin s) = Fin s2"
      unfolding s2_def using s by (intro wind) simp
    have 2: "level_step u (Fin s2) = Fin s3"
      unfolding s3_def using s2 by (intro level) simp
    have 3: "crowd_step u (c\<lparr>waveHeight := w\<rparr>) (Fin s3) = Inr (Fin s4)"
      unfolding s4_def using s3 by (intro crowd) simp
    have 4: "round1 (Fin s4) = Fin (double (of_int \<lfloor>double (s4 * 10) + 1 / 2\<rfloor> / 10))"
      using s4 by (intro round1_fin) simp_all
    have "calculateAdvancedSpotScore u (c\<lparr>waveHeight := w\<rparr>)
        = Inr (Fin (double (of_int \<lfloor>double (s4 * 10) + 1 / 2\<rfloor> / 10)))"
      by (simp add: calculateAdvancedSpotScore_def score_before_rounding_def w 1 2 3 4)
    then show ?thesis
      unfolding finish_def Let_def s4_def s3_def s2_def .
  qed
  with W L C show ?thesis by blast
qed

text \<open>
  C6, as stated, fails: the returned score is rounded to one decimal, so it does not
  decrease strictly. For the default profile and the conditions of the recommendations,
  wave heights 1.2 (the optimum) and 1.3 both score 1.1.
\<close>

theorem score_not_strictly_decreasing_counterexample:
  "wave_min default_surfer = lit 0.8 \<and> wave_max default_surfer = Fin 2.5
   \<and> wave_optimal default_surfer = lit 1.2
   \<and> double 0.8 \<le> double 1.2 \<and> double 1.2 \<le> 2.5 \<and> double 0.8 \<le> double 1.3 \<and> double 1.3 \<le> 2.5
   \<and> \<bar>double 1.2 - double 1.2\<bar> < \<bar>double 1.3 - double 1.2\<bar>
   \<and> calculateAdvancedSpotScore default_surfer (grande_plage\<lparr>waveHeight := lit 1.2\<rparr>) = Inr (lit 1.1)
   \<and> calculateAdvancedSpotScore default_surfer (grande_plage\<lparr>waveHeight := lit 1.3\<rparr>) = Inr (lit 1.1)"
  by (simp add: calculateAdvancedSpotScore_def score_before_rounding_def crowd_step_def
      crowd_factor_def crowdFactors_def level_step_def wind_step_def wave_step_def round1_def
      default_surfer_def grande_plage_def jsub_def jge_def Math_max_def Math_min_def
      fadd_def fsub_def fmul_def fdiv_def fl64_def max_double_def double_zero
      double_value_1 double_value_2 double_value_3 double_value_4 double_value_5 double_value_6
      double_value_7 double_value_8 double_value_9 double_value_10 double_value_11
      double_value_12 double_value_13 double_value_14 double_value_15 double_value_16
      double_value_17 double_value_18 double_value_19 double_value_20 double_value_21
      double_value_22 double_value_23 double_value_24 double_value_25 double_value_26
      double_value_27 double_value_28 double_value_29 double_value_30 double_value_31
      double_value_32 double_value_33 double_value_34 double_value_35 double_value_36
      double_value_37 double_value_38 double_value_39 double_value_40 double_value_41
      double_value_42 double_value_43 double_value_44)

text \<open>
  C6, amended. Take a profile with finite numbers whose computed range
  \<open>max - min\<close> is a positive finite number and whose optimum lies in the range, a
  positive onshore tolerance, a wind speed, level and session count that are not
  negative, and a crowd factor of the table (no crowd given, or a tolerance of the
  table and a crowd that names no property inherited from \<open>Object.prototype\<close>). With
  wind, level, experience and crowd fixed: every wave height has a finite score; the
  score at the optimum is the greatest; within the range the returned score does not
  increase as the distance from the optimum grows; outside the range the score after
  the wave step is 1.5, the product of 5 and the double of 0.3, and the returned score
  is at most 1.5. All of this holds of the doubles the program computes.
\<close>

theorem score_wave_fit_monotone:
  assumes "wave_min u = Fin mn" "wave_max u = Fin mx" "wave_optimal u = Fin opt"
    and "fsub (Fin mx) (Fin mn) = Fin rg" "0 < rg" "mn \<le> opt" "opt \<le> mx"
    and "onshore u = Fin tol" "windSpeed c = Fin ws" "0 < tol" "0 \<le> ws"
    and "overall u = Fin lv" "sessionsCount u = Fin n" "0 \<le> lv" "0 \<le> n"
    and "known_crowd u c"
  shows "\<exists>score.
    (\<forall>h. calculateAdvancedSpotScore u (c\<lparr>waveHeight := Fin h\<rparr>) = Inr (Fin (score h)))
    \<and> (\<forall>h. score h \<le> score opt)
    \<and> (\<forall>h1 h2. mn \<le> h1 \<and> h1 \<le> mx \<and> mn \<le> h2 \<and> h2 \<le> mx \<and> \<bar>h1 - opt\<bar> \<le> \<bar>h2 - opt\<bar>
           \<longrightarrow> score h2 \<le> score h1)
    \<and> (\<forall>h. h < mn \<or> mx < h \<longrightarrow>
           wave_step u (c\<lparr>waveHeight := Fin h\<rparr>) (Fin 5) = Fin 1.5 \<and> score h \<le> 1.5)"
proof -
  obtain W L C where W: "0 \<le> W" "W \<le> 1" and L: "0 \<le> L" "L \<le> 1"
    and C: "\<forall>f. C = Some f \<longrightarrow> 0 \<le> f \<and> f \<le> 1"
    and tail: "\<And>w s. 0 \<le> s \<and> s \<le> 5 \<and> wave_step u (c\<lparr>waveHeight := w\<rparr>) (Fin 5) = Fin s \<Longrightarrow>
                 calculateAdvancedSpotScore u (c\<lparr>waveHeight := w\<rparr>) = Inr (Fin (finish W L C s))"
    using tail_of_score [OF assms(8-16)] by blast
  define after_wave where
    "after_wave h = (if mn \<le> h \<and> h \<le> mx then wave_fit rg (double \<bar>h - opt\<bar>) else 3 / 2)" for h
  define score where "score h = finish W L C (after_wave h)" for h
  have inside: "wave_step u (c\<lparr>waveHeight := Fin h\<rparr>) (Fin 5) = Fin (after_wave h)
      \<and> 5 / 2 \<le> after_wave h \<and> after_wave h \<le> 5"
    if h: "mn \<le> h" "h \<le> mx" for h
  proof -
    have "fl64 (mx - mn) = Fin rg" using assms(4) by (simp add: fsub_def jsub_def)
    then have rgv: "rg = double (mx - mn)" using fl64_is_fin [of "mx - mn" rg] by simp
    have "\<bar>h - opt\<bar> \<le> mx - mn" using assms(6,7) h by linarith
    then have "double \<bar>h - opt\<bar> \<le> rg" unfolding rgv by (rule double_mono)
    moreover have "0 \<le> double \<bar>h - opt\<bar>" by (intro double_nonneg) simp
    ultimately have "5 / 2 \<le> wave_fit rg (double \<bar>h - opt\<bar>) \<and> wave_fit rg (double \<bar>h - opt\<bar>) \<le> 5"
      using assms(5) by (intro wave_fit_range)
    then show ?thesis
      using wave_step_inside [OF assms(1-7) h, of c] h by (simp add: after_wave_def)
  qed
  have outside: "wave_step u (c\<lparr>waveHeight := Fin h\<rparr>) (Fin 5) = Fin (after_wave h)
      \<and> after_wave h = 3 / 2"
    if h: "h < mn \<or> mx < h" for h
    using wave_step_outside [OF assms(1,2) h, of c] h by (auto simp: after_wave_def)
  have bounds: "wave_step u (c\<lparr>waveHeight := Fin h\<rparr>) (Fin 5) = Fin (after_wave h)
      \<and> 0 \<le> after_wave h \<and> after_wave h \<le> 5" for h
  proof (cases "mn \<le> h \<and> h \<le> mx")
    case True
    then show ?thesis using inside [of h] by simp
  next
    case False
    then have "h < mn \<or> mx < h" by linarith
    then show ?thesis using outside [of h] by simp
  qed
  have mono: "score a \<le> score b" if "after_wave a \<le> after_wave b" for a b
    unfolding score_def using W(1) L(1) C that by (rule finish_mono)
  have 1: "\<forall>h. calculateAdvancedSpotScore u (c\<lparr>waveHeight := Fin h\<rparr>) = Inr (Fin (score h))"
    using bounds tail by (simp add: score_def)
  have opt: "after_wave opt = 5"
    using assms(6,7) by (simp add: after_wave_def double_zero wave_fit_zero)
  have 2: "\<forall>h. score h \<le> score opt"
    using bounds by (intro allI mono) (simp add: opt)
  have 3: "\<forall>h1 h2. mn \<le> h1 \<and> h1 \<le> mx \<and> mn \<le> h2 \<and> h2 \<le> mx \<and> \<bar>h1 - opt\<bar> \<le> \<bar>h2 - opt\<bar>
           \<longrightarrow> score h2 \<le> score h1"
  proof (intro allI impI)
    fix h1 h2
    assume a: "mn \<le> h1 \<and> h1 \<le> mx \<and> mn \<le> h2 \<and> h2 \<le> mx \<and> \<bar>h1 - opt\<bar> \<le> \<bar>h2 - opt\<bar>"
    then have "double \<bar>h1 - opt\<bar> \<le> double \<bar>h2 - opt\<bar>" by (intro double_mono) simp
    then have "wave_fit rg (double \<bar>h2 - opt\<bar>) \<le> wave_fit rg (double \<bar>h1 - opt\<bar>)"
      using assms(5) by (intro wave_fit_anti)
    then show "score h2 \<le> score h1"
      using a by (intro mono) (simp add: after_wave_def)
  qed
  have 4: "\<forall>h. h < mn \<or> mx < h \<longrightarrow>
           wave_step u (c\<lparr>waveHeight := Fin h\<rparr>) (Fin 5) = Fin 1.5 \<and> score h \<le> 1.5"
  proof (intro allI impI)
    fix h assume h: "h < mn \<or> mx < h"
    have o: "wave_step u (c\<lparr>waveHeight := Fin h\<rparr>) (Fin 5) = Fin (after_wave h)"
      "after_wave h = 3 / 2"
      using outside [OF h] by simp_all
    have "finish W L C (3 / 2) \<le> 3 / 2"
      using W L C by (intro finish_le) simp_all
    then have "score h \<le> 3 / 2" unfolding score_def o(2) .
    then show "wave_step u (c\<lparr>waveHeight := Fin h\<rparr>) (Fin 5) = Fin 1.5 \<and> score h \<le> 1.5"
      unfolding o(1) o(2) by simp
  qed
  from 1 2 3 4 show ?thesis by blast
qed

theorem score_wave_fit_monotone_witness:
  "wave_min default_surfer = lit 0.8 \<and> wave_max default_surfer = Fin 2.5
   \<and> wave_optimal default_surfer = lit 1.2
   \<and> fsub (Fin 2.5) (lit 0.8) = Fin (7656119366529843 / 4503599627370496) \<and> (0::real) < 7656119366529843 / 4503599627370496
   \<and> double 0.8 \<le> double 1.2 \<and> double 1.2 \<le> 2.5
   \<and> onshore default_surfer = Fin 15 \<and> windSpeed grande_plage = Fin 10 \<and> (0::real) < 15
   \<and> (0::real) \<le> 10 \<and> overall default_surfer = Fin 3 \<and> sessionsCount default_surfer = Fin 0
   \<and> (0::real) \<le> 3 \<and> (0::real) \<le> 0
   \<and> known_crowd default_surfer grande_plage
   \<and> (\<exists>score.
        (\<forall>h. calculateAdvancedSpotScore default_surfer (grande_plage\<lparr>waveHeight := Fin h\<rparr>)
                = Inr (Fin (score h)))
        \<and> (\<forall>h. score h \<le> score (double 1.2))
        \<and> score (double 1.3) \<le> score (double 1.2) \<and> score 3 \<le> 1.5)"
proof -
  have h: "wave_min default_surfer = Fin (double 0.8)" "wave_max default_surfer = Fin 2.5"
    "wave_optimal default_surfer = Fin (double 1.2)"
    "fsub (Fin 2.5) (Fin (double 0.8)) = Fin (7656119366529843 / 4503599627370496)" "(0::real) < 7656119366529843 / 4503599627370496"
    "double 0.8 \<le> double 1.2" "double 1.2 \<le> 2.5"
    "onshore default_surfer = Fin 15" "windSpeed grande_plage = Fin 10" "(0::real) < 15"
    "(0::real) \<le> 10" "overall default_surfer = Fin 3" "sessionsCount default_surfer = Fin 0"
    "(0::real) \<le> 3" "(0::real) \<le> 0"
    "known_crowd default_surfer grande_plage"
    by (simp_all add: default_surfer_def grande_plage_def known_crowd_def Object_prototype_keys_def
        fsub_def jsub_def fl64_def max_double_def double_value_1 double_value_2 double_value_3 double_value_4 double_value_5 double_value_6
      double_value_7 double_value_8 double_value_9 double_value_10 double_value_11
      double_value_12 double_value_13 double_value_14 double_value_15 double_value_16
      double_value_17 double_value_18 double_value_19 double_value_20 double_value_21
      double_value_22 double_value_23 double_value_24 double_value_25 double_value_26
      double_value_27 double_value_28 double_value_29 double_value_30 double_value_31
      double_value_32 double_value_33 double_value_34 double_value_35 double_value_36
      double_value_37 double_value_38 double_value_39 double_value_40 double_value_41
      double_value_42 double_value_43 double_value_44)
  obtain score where
    a: "\<forall>h. calculateAdvancedSpotScore default_surfer (grande_plage\<lparr>waveHeight := Fin h\<rparr>)
                = Inr (Fin (score h))"
    and b: "\<forall>h. score h \<le> score (double 1.2)"
    and c: "\<forall>h1 h2. double 0.8 \<le> h1 \<and> h1 \<le> 2.5 \<and> double 0.8 \<le> h2 \<and> h2 \<le> 2.5
           \<and> \<bar>h1 - double 1.2\<bar> \<le> \<bar>h2 - double 1.2\<bar>
           \<longrightarrow> score h2 \<le> score h1"
    and e: "\<forall>h. h < double 0.8 \<or> 2.5 < h \<longrightarrow>
           wave_step default_surfer (grande_plage\<lparr>waveHeight := Fin h\<rparr>) (Fin 5) = Fin 1.5
           \<and> score h \<le> 1.5"
    using score_wave_fit_monotone [OF h] by blast
  have "double 0.8 \<le> double 1.2 \<and> double 1.2 \<le> 2.5 \<and> double 0.8 \<le> double 1.3
      \<and> double 1.3 \<le> 2.5 \<and> \<bar>double 1.2 - double 1.2\<bar> \<le> \<bar>double 1.3 - double 1.2\<bar>"
    by (simp add: double_value_1 double_value_2 double_value_3 double_value_4 double_value_5 double_value_6
      double_value_7 double_value_8 double_value_9 double_value_10 double_value_11
      double_value_12 double_value_13 double_value_14 double_value_15 double_value_16
      double_value_17 double_value_18 double_value_19 double_value_20 double_value_21
      double_value_22 double_value_23 double_value_24 double_value_25 double_value_26
      double_value_27 double_value_28 double_value_29 double_value_30 double_value_31
      double_value_32 double_value_33 double_value_34 double_value_35 double_value_36
      double_value_37 double_value_38 double_value_39 double_value_40 double_value_41
      double_value_42 double_value_43 double_value_44)
  with c have c': "score (double 1.3) \<le> score (double 1.2)" by blast
  from e have e': "score 3 \<le> 1.5" by (rule allE [of _ 3]) simp
  from a b c' e' have "\<exists>score.
        (\<forall>h. calculateAdvancedSpotScore default_surfer (grande_plage\<lparr>waveHeight := Fin h\<rparr>)
                = Inr (Fin (score h)))
        \<and> (\<forall>h. score h \<le> score (double 1.2))
        \<and> score (double 1.3) \<le> score (double 1.2) \<and> score 3 \<le> 1.5"
    by blast
  with h show ?thesis by simp
qed

lemma fmul_not_finite: "\<not> finite_num a \<Longrightarrow> \<not> finite_num (fmul a b)"
  by (cases a; cases b) (simp_all add: fmul_def inf_of_sign_def)

lemma fl64_zero: "fl64 0 = Fin 0"
  by (simp add: fl64_def double_zero max_double_def)

lemma zero_range_quotient:
  "fdiv (jabs (fsub (Fin m) opt)) (Fin 0) = PInf \<or> fdiv (jabs (fsub (Fin m) opt)) (Fin 0) = NaN"
  by (cases opt) (auto simp: fsub_def fdiv_def jsub_def fl64_def inf_of_sign_def)

lemma zero_range_wave_step:
  assumes "wave_min u = Fin m" "wave_max u = Fin m" "waveHeight c = Fin m"
  shows "wave_step u c (Fin 5) = NInf \<or> wave_step u c (Fin 5) = NaN"
proof -
  have r: "fsub (Fin m) (Fin m) = Fin 0" by (simp add: fsub_def jsub_def fl64_zero)
  have p: "fmul (Fin 5) (fadd (Fin (1 / 2)) (fmul (Fin (1 / 2)) (fsub (Fin 1) PInf))) = NInf"
    by (simp add: fadd_def fmul_def fsub_def jsub_def inf_of_sign_def)
  have n: "fmul (Fin 5) (fadd (Fin (1 / 2)) (fmul (Fin (1 / 2)) (fsub (Fin 1) NaN))) = NaN"
    by (simp add: fadd_def fmul_def fsub_def jsub_def)
  show ?thesis
    using assms zero_range_quotient [of m "wave_optimal u"]
    by (auto simp: wave_step_def Let_def jge_def r p n)
qed

lemma round1_not_finite: "\<not> finite_num a \<Longrightarrow> \<not> finite_num (round1 a)"
  by (cases a) (simp_all add: round1_def fmul_def fdiv_def inf_of_sign_def)

text \<open>
  C7. The code has no guard for a range of width zero: with \<open>min = max\<close> and the wave
  height in the range, the wave factor divides by zero and the function never returns
  a finite number; when the optimum is that same height the wave step is \<open>NaN\<close>.
  This is what the code does where the claim asks for a neutral factor.
\<close>

theorem zero_width_range_is_not_guarded:
  assumes "wave_min u = Fin m" "wave_max u = Fin m" "waveHeight c = Fin m"
  shows "\<not> finite_num (wave_step u c (Fin 5))
         \<and> (\<forall>x. calculateAdvancedSpotScore u c \<noteq> Inr (Fin x))
         \<and> (wave_optimal u = Fin m \<longrightarrow> wave_step u c (Fin 5) = NaN)"
proof (intro conjI allI impI)
  show nf: "\<not> finite_num (wave_step u c (Fin 5))"
    using zero_range_wave_step [OF assms] by auto
  show "calculateAdvancedSpotScore u c \<noteq> Inr (Fin x)" for x
  proof
    assume eq: "calculateAdvancedSpotScore u c = Inr (Fin x)"
    have l: "\<not> finite_num (level_step u (wind_step u c (wave_step u c (Fin 5))))"
      using nf by (simp add: level_step_def wind_step_def Let_def fmul_not_finite)
    from eq obtain s where s: "score_before_rounding u c = Inr s" and r: "round1 s = Fin x"
      by (auto simp: calculateAdvancedSpotScore_def split: sum.splits)
    from s l have "\<not> finite_num s"
      by (auto simp: score_before_rounding_def crowd_step_def fmul_not_finite
          split: option.splits if_splits sum.splits)
    then have "\<not> finite_num (round1 s)" by (rule round1_not_finite)
    with r show False by simp
  qed
  assume "wave_optimal u = Fin m"
  then show "wave_step u c (Fin 5) = NaN"
    using assms
    by (simp add: wave_step_def Let_def jge_def fsub_def fdiv_def fadd_def fmul_def jsub_def
        fl64_zero inf_of_sign_def)
qed

theorem zero_width_range_is_not_guarded_witness:
  "wave_min flat_surfer = lit 1.2 \<and> wave_max flat_surfer = lit 1.2
   \<and> waveHeight grande_plage = lit 1.2 \<and> wave_optimal flat_surfer = lit 1.2
   \<and> wave_step flat_surfer grande_plage (Fin 5) = NaN
   \<and> \<not> finite_num (wave_step flat_surfer grande_plage (Fin 5))
   \<and> calculateAdvancedSpotScore flat_surfer grande_plage = Inr NaN"
proof -
  have h: "wave_min flat_surfer = Fin (double 1.2)" "wave_max flat_surfer = Fin (double 1.2)"
    "waveHeight grande_plage = Fin (double 1.2)"
    by (simp_all add: flat_surfer_def grande_plage_def)
  have o: "wave_optimal flat_surfer = Fin (double 1.2)" by (simp add: flat_surfer_def)
  have w: "wave_step flat_surfer grande_plage (Fin 5) = NaN"
    using zero_width_range_is_not_guarded [OF h] o by blast
  have cr: "crowd grande_plage = Some ''medium''" "crowdTolerance flat_surfer = ''medium''"
    by (simp_all add: flat_surfer_def default_surfer_def grande_plage_def)
  have "calculateAdvancedSpotScore flat_surfer grande_plage = Inr NaN"
    by (simp add: calculateAdvancedSpotScore_def score_before_rounding_def w cr crowd_step_def
        crowd_factor_def crowdFactors_def level_step_def wind_step_def round1_def Let_def
        fmul_def fdiv_def)
  with h o w show ?thesis by simp
qed


section \<open>Reading a profile\<close>

lemma complete_built: "complete_profile (buildCompleteProfile r userId userData)"
  by (simp add: complete_profile_def buildCompleteProfile_def profile_sections_def)

lemma complete_default: "complete_profile (getDefaultProfile r userId)"
  by (simp add: getDefaultProfile_def complete_built)


lemma read_miss:
  assumes "\<not> fresh_entry st r userId"
  shows "getUserProfile st db r userId = after_cache_miss st db r userId"
  using assms by (auto simp: fresh_entry_def getUserProfile_def split: option.splits)

lemma miss_calls:
  "calls (after_cache_miss st db r userId)
     = (case db of None \<Rightarrow> [] | Some c \<Rightarrow> [Select_user_profile userId, Select_extended_profile userId])"
  by (auto simp: after_cache_miss_def split: option.splits sum.splits)

lemma miss_found:
  assumes "read_store c userId = Inr (Some p)"
  shows "after_cache_miss st (Some c) r userId
     = \<lparr>returned = p,
        final = st\<lparr>profilesCache := (profilesCache st)(userId \<mapsto> \<lparr>data = p, timestamp = now_refresh r\<rparr>)\<rparr>,
        calls = [Select_user_profile userId, Select_extended_profile userId]\<rparr>"
  using assms by (simp add: after_cache_miss_def)

lemma miss_final:
  "final (after_cache_miss st db r userId) = st
   \<or> (\<exists>c p. db = Some c \<and> read_store c userId = Inr (Some p)
         \<and> final (after_cache_miss st db r userId)
             = st\<lparr>profilesCache := (profilesCache st)(userId \<mapsto> \<lparr>data = p, timestamp = now_refresh r\<rparr>)\<rparr>)"
  by (auto simp: after_cache_miss_def split: option.splits sum.splits)

lemma memory_or_default_complete:
  assumes "tiers_complete st db userId"
  shows "complete_profile (memory_or_default st r userId)"
  using assms by (auto simp: tiers_complete_def memory_or_default_def complete_default split: option.splits if_splits)

lemma miss_complete:
  assumes "tiers_complete st db userId"
  shows "complete_profile (returned (after_cache_miss st db r userId))"
proof (cases db)
  case None
  then show ?thesis using memory_or_default_complete [OF assms] by (simp add: after_cache_miss_def)
next
  case (Some c)
  show ?thesis
  proof (cases "read_store c userId")
    case (Inl e)
    then show ?thesis using Some memory_or_default_complete [OF assms] by (simp add: after_cache_miss_def)
  next
    case (Inr found)
    show ?thesis
    proof (cases found)
      case None
      then show ?thesis using Some Inr memory_or_default_complete [OF assms]
        by (simp add: after_cache_miss_def)
    next
      case (Some p)
      then show ?thesis using \<open>db = Some c\<close> Inr assms
        by (simp add: after_cache_miss_def tiers_complete_def)
    qed
  qed
qed

text \<open>
  The tiers hold complete profiles as long as the store does: the service starts with
  an empty cache and an empty memory table, \<open>createUserProfile\<close> writes the complete
  profile it builds, a merge keeps the sections of its target, and a read writes to
  the cache only what the store yields.
\<close>

lemma complete_merged:
  assumes "complete_profile p"
  shows "complete_profile (assign_prop (deepMerge p updates) key v)"
proof -
  obtain t where t: "p = JObj t" using assms by (cases p) (simp_all add: complete_profile_def)
  have keep: "k \<in> fst ` set t \<Longrightarrow> has_key (deepMerge (JObj t) updates) k" for k
  proof (cases "isObject updates")
    case True
    then obtain s where "updates = JObj s" by (cases updates) simp_all
    then show "k \<in> fst ` set t \<Longrightarrow> has_key (deepMerge (JObj t) updates) k"
      by (simp add: has_key_deepMerge)
  next
    case False
    then have "deepMerge (JObj t) updates = JObj (Object_assign [] (JObj t))"
      unfolding deepMerge_def by (subst deepMerge_from.simps) (simp add: Let_def)
    moreover have "has_key (JObj (Object_assign [] (JObj t))) k \<longleftrightarrow> has_key (JObj t) k"
      unfolding has_key_map_of map_of_copy ..
    ultimately show "k \<in> fst ` set t \<Longrightarrow> has_key (deepMerge (JObj t) updates) k"
      by simp
  qed
  obtain m where m: "deepMerge (JObj t) updates = JObj m"
    using deepMerge_is_object [of "JObj t" updates] by (cases "deepMerge (JObj t) updates") simp_all
  have step: "has_key (JObj m) k \<Longrightarrow> has_key (JObj (set_prop m key v)) k" for k
    unfolding has_key_map_of map_of_set_prop by simp
  have "has_key (JObj (set_prop m key v)) k" if "k \<in> fst ` set t" for k
    using keep [OF that] step unfolding m by blast
  then show ?thesis
    using assms unfolding t complete_profile_def m by (simp add: list_all_iff)
qed

lemma holds_complete_empty: "holds_complete empty_state"
  by (simp add: holds_complete_def empty_state_def)

lemma holds_complete_tiers:
  assumes "holds_complete st" "store_complete db userId"
  shows "tiers_complete st db userId"
  using assms
  by (auto simp: holds_complete_def store_complete_def tiers_complete_def
      split: option.splits sum.splits)

lemma holds_complete_read:
  assumes "holds_complete st" "store_complete db userId"
  shows "holds_complete (final (getUserProfile st db r userId))"
  using assms miss_final [of st db r userId]
  by (auto simp: holds_complete_def store_complete_def getUserProfile_def
      split: option.splits if_splits)

lemma holds_complete_create:
  assumes "holds_complete st"
  shows "holds_complete (final (createUserProfile st db r userData))"
  using assms
  by (auto simp: holds_complete_def createUserProfile_def Let_def complete_built
      split: sum.splits)

lemma holds_complete_update:
  assumes "holds_complete st" "store_complete db userId"
  shows "holds_complete (final (updateUserProfile st db r userId updates))"
proof -
  have rd: "holds_complete (final (getUserProfile st db r userId))"
    using assms by (rule holds_complete_read)
  have "complete_profile (returned (getUserProfile st db r userId))"
    using holds_complete_tiers [OF assms] \<open>holds_complete st\<close>
    by (cases "fresh_entry st r userId")
       (auto simp: read_miss miss_complete getUserProfile_def fresh_entry_def holds_complete_def
          split: option.splits)
  then have "complete_profile (assign_prop (deepMerge (returned (getUserProfile st db r userId))
      updates) ''updatedAt'' (JStr (iso_stamp r)))"
    by (rule complete_merged)
  with rd show ?thesis
    by (auto simp: holds_complete_def updateUserProfile_def Let_def split: sum.splits)
qed

text \<open>
  C1, as stated, fails: the value read is not always a complete profile. A record of
  the store whose \<open>extended_data\<close> is the text \<open>null\<close> is parsed, written to the cache
  and returned as it is.
\<close>

theorem getUserProfile_null_record_counterexample:
  "read_store (store_holding JNull) (JStr ''u1'') = Inr (Some JNull)
   \<and> returned (getUserProfile empty_state (Some (store_holding JNull)) example_readings
         (JStr ''u1'')) = JNull
   \<and> \<not> complete_profile (returned (getUserProfile empty_state (Some (store_holding JNull))
         example_readings (JStr ''u1'')))
   \<and> profilesCache (final (getUserProfile empty_state (Some (store_holding JNull))
         example_readings (JStr ''u1''))) (JStr ''u1'')
       = Some \<lparr>data = JNull, timestamp = 1000050\<rparr>"
  by (simp add: getUserProfile_def after_cache_miss_def read_store_def store_holding_def
      empty_state_def complete_profile_def example_readings_def)

text \<open>
  C1, amended. \<open>getUserProfile\<close> always returns a value, the one held by the first
  tier that answers, and it consults the tiers in order. With a cache entry younger
  than the timeout it returns the cached value, leaves the state as it is and makes no
  store call, so its result is the same for every store. It calls the store only when
  the cache has no fresh entry (and a store is configured), and then it makes both
  selects. When the store yields a profile, that profile is returned and written to
  the cache with the time of the write. When there is no store, or the store yields no
  profile or throws, the profile of the memory table, or else the default profile, is
  returned and the cache is not written. The state changes in no other case, and the
  memory table never changes. The value returned is a complete profile when the tiers
  hold complete profiles for the user; they do as long as the records of the store
  are complete (lemmas \<open>holds_complete_empty\<close> to \<open>holds_complete_update\<close>).
\<close>

theorem getUserProfile_tier_order:
  "(fresh_entry st r userId \<longrightarrow>
      (\<exists>cached. profilesCache st userId = Some cached
          \<and> returned (getUserProfile st db r userId) = data cached)
      \<and> final (getUserProfile st db r userId) = st
      \<and> calls (getUserProfile st db r userId) = []
      \<and> getUserProfile st db' r userId = getUserProfile st db r userId)
   \<and> (calls (getUserProfile st db r userId) \<noteq> [] \<longrightarrow> \<not> fresh_entry st r userId \<and> db \<noteq> None)
   \<and> (\<not> fresh_entry st r userId \<and> db \<noteq> None \<longrightarrow>
        calls (getUserProfile st db r userId)
          = [Select_user_profile userId, Select_extended_profile userId])
   \<and> (\<not> fresh_entry st r userId \<and> db = Some c \<and> read_store c userId = Inr (Some p) \<longrightarrow>
        returned (getUserProfile st db r userId) = p
        \<and> final (getUserProfile st db r userId)
            = st\<lparr>profilesCache := (profilesCache st)(userId \<mapsto> \<lparr>data = p, timestamp = now_refresh r\<rparr>)\<rparr>)
   \<and> (final (getUserProfile st db r userId) \<noteq> st \<longrightarrow>
        \<not> fresh_entry st r userId
        \<and> (\<exists>c' p'. db = Some c' \<and> read_store c' userId = Inr (Some p')
              \<and> returned (getUserProfile st db r userId) = p'))
   \<and> (\<not> fresh_entry st r userId
        \<and> (db = None \<or> (\<exists>c'. db = Some c' \<and> (\<forall>p'. read_store c' userId \<noteq> Inr (Some p')))) \<longrightarrow>
        returned (getUserProfile st db r userId) = memory_or_default st r userId
        \<and> final (getUserProfile st db r userId) = st)
   \<and> users (final (getUserProfile st db r userId)) = users st
   \<and> (tiers_complete st db userId \<longrightarrow> complete_profile (returned (getUserProfile st db r userId)))"
proof (cases "fresh_entry st r userId")
  case True
  obtain cached where c: "profilesCache st userId = Some cached"
    and h: "\<And>d. getUserProfile st d r userId = \<lparr>returned = data cached, final = st, calls = []\<rparr>"
    using True by (auto simp: fresh_entry_def getUserProfile_def split: option.splits)
  have "tiers_complete st db userId \<longrightarrow> complete_profile (data cached)"
    using c by (simp add: tiers_complete_def)
  with True c show ?thesis by (simp add: h)
next
  case False
  note m = read_miss [OF False]
  have 1: "calls (getUserProfile st db r userId) \<noteq> [] \<longrightarrow> db \<noteq> None"
    by (auto simp: m miss_calls split: option.splits)
  have 2: "db \<noteq> None \<longrightarrow> calls (getUserProfile st db r userId)
          = [Select_user_profile userId, Select_extended_profile userId]"
    by (auto simp: m miss_calls split: option.splits)
  have 3: "db = Some c \<and> read_store c userId = Inr (Some p) \<longrightarrow>
        returned (getUserProfile st db r userId) = p
        \<and> final (getUserProfile st db r userId)
            = st\<lparr>profilesCache := (profilesCache st)(userId \<mapsto> \<lparr>data = p, timestamp = now_refresh r\<rparr>)\<rparr>"
    by (auto simp: m miss_found)
  have 4: "final (getUserProfile st db r userId) \<noteq> st \<longrightarrow>
        (\<exists>c' p'. db = Some c' \<and> read_store c' userId = Inr (Some p')
              \<and> returned (getUserProfile st db r userId) = p')"
    using miss_final [of st db r userId] by (auto simp: m miss_found)
  have 5: "users (final (getUserProfile st db r userId)) = users st"
    using miss_final [of st db r userId] by (auto simp: m)
  have 6: "tiers_complete st db userId \<longrightarrow> complete_profile (returned (getUserProfile st db r userId))"
    by (simp add: m miss_complete)
  have 7: "db = None \<or> (\<exists>c'. db = Some c' \<and> (\<forall>p'. read_store c' userId \<noteq> Inr (Some p'))) \<longrightarrow>
        returned (getUserProfile st db r userId) = memory_or_default st r userId
        \<and> final (getUserProfile st db r userId) = st"
    by (auto simp: m after_cache_miss_def split: sum.splits option.splits)
  from False 1 2 3 4 5 6 7 show ?thesis by simp
qed

lemma read_store_holding: "read_store (store_holding p) u = Inr (Some p)"
  by (simp add: read_store_def store_holding_def)

theorem getUserProfile_tier_order_witness:
  "fresh_entry (cached_state 999000) example_readings (JStr ''u1'')
   \<and> returned (getUserProfile (cached_state 999000) (Some (store_holding jean_profile))
         example_readings (JStr ''u1'')) = getDefaultProfile example_readings (JStr ''u1'')
   \<and> calls (getUserProfile (cached_state 999000) (Some (store_holding jean_profile))
         example_readings (JStr ''u1'')) = []
   \<and> getUserProfile (cached_state 999000) (Some failing_store) example_readings (JStr ''u1'')
       = getUserProfile (cached_state 999000) (Some (store_holding jean_profile))
           example_readings (JStr ''u1'')
   \<and> tiers_complete (cached_state 999000) (Some (store_holding jean_profile)) (JStr ''u1'')
   \<and> complete_profile (returned (getUserProfile (cached_state 999000)
         (Some (store_holding jean_profile)) example_readings (JStr ''u1'')))
   \<and> \<not> fresh_entry (cached_state 0) example_readings (JStr ''u1'')
   \<and> read_store (store_holding jean_profile) (JStr ''u1'') = Inr (Some jean_profile)
   \<and> returned (getUserProfile (cached_state 0) (Some (store_holding jean_profile))
         example_readings (JStr ''u1'')) = jean_profile
   \<and> calls (getUserProfile (cached_state 0) (Some (store_holding jean_profile))
         example_readings (JStr ''u1''))
       = [Select_user_profile (JStr ''u1''), Select_extended_profile (JStr ''u1'')]
   \<and> profilesCache (final (getUserProfile (cached_state 0) (Some (store_holding jean_profile))
         example_readings (JStr ''u1''))) (JStr ''u1'')
       = Some \<lparr>data = jean_profile, timestamp = 1000050\<rparr>"
proof -
  let ?u = "JStr ''u1''"
  let ?db = "Some (store_holding jean_profile)"
  note hit = getUserProfile_tier_order
    [of "cached_state 999000" example_readings ?u ?db "Some failing_store"
        "store_holding jean_profile" jean_profile]
  note miss = getUserProfile_tier_order
    [of "cached_state 0" example_readings ?u ?db "Some failing_store"
        "store_holding jean_profile" jean_profile]
  have f: "fresh_entry (cached_state 999000) example_readings ?u"
    by (simp add: fresh_entry_def cached_state_def example_readings_def cacheTimeout_def)
  have nf: "\<not> fresh_entry (cached_state 0) example_readings ?u"
    by (simp add: fresh_entry_def cached_state_def example_readings_def cacheTimeout_def)
  have rs: "read_store (store_holding jean_profile) ?u = Inr (Some jean_profile)"
    by (rule read_store_holding)
  have cp: "complete_profile jean_profile"
    by (simp add: jean_profile_def complete_built)
  have tc: "tiers_complete (cached_state 999000) ?db ?u"
    by (simp add: tiers_complete_def cached_state_def rs cp complete_default)
  have c: "profilesCache (cached_state 999000) ?u
      = Some \<lparr>data = getDefaultProfile example_readings ?u, timestamp = 999000\<rparr>"
    by (simp add: cached_state_def)
  from hit f c have a1: "returned (getUserProfile (cached_state 999000) ?db example_readings ?u)
      = getDefaultProfile example_readings ?u"
    by auto
  from hit f have a2: "calls (getUserProfile (cached_state 999000) ?db example_readings ?u) = []"
    and a3: "getUserProfile (cached_state 999000) (Some failing_store) example_readings ?u
       = getUserProfile (cached_state 999000) ?db example_readings ?u"
    by blast+
  from hit tc have a4: "complete_profile (returned (getUserProfile (cached_state 999000) ?db
      example_readings ?u))"
    by blast
  from miss nf rs have b1: "returned (getUserProfile (cached_state 0) ?db example_readings ?u)
      = jean_profile"
    and b2: "final (getUserProfile (cached_state 0) ?db example_readings ?u)
      = (cached_state 0)\<lparr>profilesCache := (profilesCache (cached_state 0))
          (?u \<mapsto> \<lparr>data = jean_profile, timestamp = now_refresh example_readings\<rparr>)\<rparr>"
    by blast+
  from miss nf have b3: "calls (getUserProfile (cached_state 0) ?db example_readings ?u)
      = [Select_user_profile ?u, Select_extended_profile ?u]"
    by blast
  have nr: "now_refresh example_readings = 1000050" by (simp add: example_readings_def)
  have b4: "profilesCache (final (getUserProfile (cached_state 0) ?db example_readings ?u)) ?u
      = Some \<lparr>data = jean_profile, timestamp = 1000050\<rparr>"
    using b2 by (simp add: nr)
  from f nf rs tc a1 a2 a3 a4 b1 b3 b4 show ?thesis by simp
qed

text \<open>
  C5. When the cache, the store and the memory table have nothing for the user,
  \<open>getUserProfile\<close> returns the default profile and writes it nowhere: the state is
  unchanged and the only store calls are the two selects. The next read builds a
  default profile again, a different one as soon as the clock has moved. This is what
  the code does where the claim asks for the default profile to be persisted.
\<close>

theorem getUserProfile_default_not_persisted:
  assumes "profilesCache st userId = None" "users st userId = None"
    and "db = None \<or> (\<exists>c. db = Some c \<and> read_store c userId = Inr None)"
  shows "returned (getUserProfile st db r userId) = getDefaultProfile r userId
         \<and> final (getUserProfile st db r userId) = st
         \<and> set (calls (getUserProfile st db r userId))
             \<subseteq> {Select_user_profile userId, Select_extended_profile userId}
         \<and> returned (getUserProfile (final (getUserProfile st db r userId)) db r' userId)
             = getDefaultProfile r' userId
         \<and> (getDefaultProfile r' userId = getDefaultProfile r userId
              \<longleftrightarrow> iso_created r' = iso_created r \<and> iso_updated r' = iso_updated r)"
proof -
  have a: "getUserProfile st db q userId
      = \<lparr>returned = getDefaultProfile q userId, final = st,
         calls = (case db of None \<Rightarrow> []
                  | Some c \<Rightarrow> [Select_user_profile userId, Select_extended_profile userId])\<rparr>" for q
    using assms
    by (auto simp: getUserProfile_def after_cache_miss_def memory_or_default_def)
  have b: "getDefaultProfile r' userId = getDefaultProfile r userId
      \<longleftrightarrow> iso_created r' = iso_created r \<and> iso_updated r' = iso_updated r"
    by (simp add: getDefaultProfile_def buildCompleteProfile_def)
  have c: "set (calls (getUserProfile st db r userId))
      \<subseteq> {Select_user_profile userId, Select_extended_profile userId}"
    by (auto simp: a split: option.splits)
  have d: "returned (getUserProfile (final (getUserProfile st db r userId)) db r' userId)
      = getDefaultProfile r' userId"
    by (simp add: a)
  from b c d show ?thesis by (simp add: a)
qed

theorem getUserProfile_default_not_persisted_witness:
  "profilesCache empty_state (JStr ''u2'') = None \<and> users empty_state (JStr ''u2'') = None
   \<and> read_store empty_store (JStr ''u2'') = Inr None
   \<and> returned (getUserProfile empty_state (Some empty_store) example_readings (JStr ''u2''))
       = getDefaultProfile example_readings (JStr ''u2'')
   \<and> final (getUserProfile empty_state (Some empty_store) example_readings (JStr ''u2''))
       = empty_state
   \<and> returned (getUserProfile
         (final (getUserProfile empty_state (Some empty_store) example_readings (JStr ''u2'')))
         (Some empty_store) later_readings (JStr ''u2''))
       = getDefaultProfile later_readings (JStr ''u2'')
   \<and> getDefaultProfile later_readings (JStr ''u2'') \<noteq> getDefaultProfile example_readings (JStr ''u2'')"
proof -
  have h: "profilesCache empty_state (JStr ''u2'') = None" "users empty_state (JStr ''u2'') = None"
    by (simp_all add: empty_state_def)
  have s: "read_store empty_store (JStr ''u2'') = Inr None"
    by (simp add: read_store_def empty_store_def)
  then have d: "Some empty_store = None
      \<or> (\<exists>c. Some empty_store = Some c \<and> read_store c (JStr ''u2'') = Inr None)"
    by simp
  have t: "iso_created later_readings \<noteq> iso_created example_readings"
    by (simp add: later_readings_def example_readings_def)
  note inst = getUserProfile_default_not_persisted
    [OF h d, of example_readings later_readings]
  from inst have r1: "returned (getUserProfile empty_state (Some empty_store) example_readings
        (JStr ''u2'')) = getDefaultProfile example_readings (JStr ''u2'')"
    and r2: "final (getUserProfile empty_state (Some empty_store) example_readings (JStr ''u2''))
        = empty_state"
    and r3: "returned (getUserProfile
         (final (getUserProfile empty_state (Some empty_store) example_readings (JStr ''u2'')))
         (Some empty_store) later_readings (JStr ''u2''))
       = getDefaultProfile later_readings (JStr ''u2'')"
    by blast+
  from inst t have r4: "getDefaultProfile later_readings (JStr ''u2'')
      \<noteq> getDefaultProfile example_readings (JStr ''u2'')"
    by blast
  show ?thesis by (intro conjI h s r1 r2 r3 r4)
qed

section \<open>Creating a profile\<close>

text \<open>
  The level is converted before it is compared: the text \<open>2\<close> is a beginner's level,
  a text that is no number compares false with every bound, an empty array is 0.
\<close>

lemma double_two: "double 2 = 2"
  using double_eval [of 51 2 "2 ^ 52"] by (simp add: rne_eval)

lemma convertLevelToCategory_converts:
  "convertLevelToCategory (JStr ''2'') = Inr ''beginner''
   \<and> convertLevelToCategory (JStr ''abc'') = Inr ''expert''
   \<and> convertLevelToCategory (JArr []) = Inr ''beginner''"
  by (simp add: convertLevelToCategory_def
      string_to_number_def trim_def white_space_def non_decimal_literal_def
      decimal_literal_def is_digit_def digit_value_def digits_def Let_def fl64_def double_two
      max_double_def)

text \<open>
  C3. For every user data that is not \<open>null\<close> or \<open>undefined\<close> and for every store,
  whatever it answers or throws, \<open>createUserProfile\<close> returns the profile it built,
  a complete profile, and has written that profile to the memory table and to the
  cache under the user's id. The value returned and the state left are the same for
  every store.
\<close>

theorem createUserProfile_survives_store_failure:
  assumes "userData \<noteq> JUndefined" "userData \<noteq> JNull"
  shows "returned (createUserProfile st db r userData)
           = Inr (buildCompleteProfile r (or_else (get userData ''id'') (JStr (fresh_id r))) userData)
         \<and> users (final (createUserProfile st db r userData))
           = (users st)(or_else (get userData ''id'') (JStr (fresh_id r))
                \<mapsto> buildCompleteProfile r (or_else (get userData ''id'') (JStr (fresh_id r))) userData)
         \<and> profilesCache (final (createUserProfile st db r userData))
           = (profilesCache st)(or_else (get userData ''id'') (JStr (fresh_id r))
                \<mapsto> \<lparr>data = buildCompleteProfile r
                              (or_else (get userData ''id'') (JStr (fresh_id r))) userData,
                     timestamp = now_store r\<rparr>)
         \<and> sessions (final (createUserProfile st db r userData)) = sessions st
         \<and> complete_profile
              (buildCompleteProfile r (or_else (get userData ''id'') (JStr (fresh_id r))) userData)
         \<and> returned (createUserProfile st db' r userData) = returned (createUserProfile st db r userData)
         \<and> final (createUserProfile st db' r userData) = final (createUserProfile st db r userData)"
proof -
  have "read_prop userData ''id'' = Inr (get userData ''id'')"
    using assms by (cases userData) simp_all
  then show ?thesis
    by (simp add: createUserProfile_def Let_def complete_built split: sum.splits)
qed

theorem createUserProfile_survives_store_failure_witness:
  "jean \<noteq> JUndefined \<and> jean \<noteq> JNull
   \<and> returned (createUserProfile empty_state (Some failing_store) example_readings jean)
       = Inr (buildCompleteProfile example_readings (JStr ''lw3k9x0abc'') jean)
   \<and> users (final (createUserProfile empty_state (Some failing_store) example_readings jean))
        (JStr ''lw3k9x0abc'')
       = Some (buildCompleteProfile example_readings (JStr ''lw3k9x0abc'') jean)
   \<and> profilesCache (final (createUserProfile empty_state (Some failing_store) example_readings jean))
        (JStr ''lw3k9x0abc'')
       = Some \<lparr>data = buildCompleteProfile example_readings (JStr ''lw3k9x0abc'') jean,
               timestamp = 1000100\<rparr>
   \<and> returned (createUserProfile empty_state (Some (store_holding JNull)) example_readings jean)
       = returned (createUserProfile empty_state (Some failing_store) example_readings jean)"
proof -
  have n: "jean \<noteq> JUndefined" "jean \<noteq> JNull" by (simp_all add: jean_def)
  have i: "or_else (get jean ''id'') (JStr (fresh_id example_readings)) = JStr ''lw3k9x0abc''"
    by (simp add: jean_def or_else_def example_readings_def)
  have t: "now_store example_readings = 1000100" by (simp add: example_readings_def)
  note inst = createUserProfile_survives_store_failure
    [OF n, of empty_state "Some failing_store" example_readings "Some (store_holding JNull)"]
  from inst n show ?thesis unfolding i t by simp
qed

section \<open>Updating a profile\<close>

























section \<open>The statistics\<close>

lemma default_redrawn: "getDefaultProfile (redrawn r x y z) u = getDefaultProfile r u"
  by (simp add: getDefaultProfile_def buildCompleteProfile_def redrawn_def)

lemma read_redrawn: "getUserProfile st db (redrawn r x y z) u = getUserProfile st db r u"
proof -
  have m: "memory_or_default st (redrawn r x y z) u = memory_or_default st r u"
    by (simp add: memory_or_default_def default_redrawn split: option.splits)
  have a: "after_cache_miss st db (redrawn r x y z) u = after_cache_miss st db r u"
    unfolding after_cache_miss_def m by (simp add: redrawn_def split: option.splits sum.splits)
  show ?thesis
    unfolding getUserProfile_def a by (simp add: redrawn_def split: option.splits)
qed

lemma sessions_fallback:
  "fst (getUserSessions st db u l off)
     = \<lparr>page_sessions = memory_sessions st u l off,
        page_total = length (memory_sessions st u l off),
        page_limit = l, page_offset = off\<rparr>"
  by (auto simp: getUserSessions_def getUserSessions_try_def Let_def
      split: option.splits outcome.splits sum.splits)

lemma stats_try_redrawn:
  "stats_try db (redrawn r x y z) u user page
     = (case fst (stats_try db r u user page) of
          Inl e \<Rightarrow> stats_try db r u user page
        | Inr s \<Rightarrow> (Inr (s\<lparr>totalPredictions := random_int x 50 20\<rparr>), snd (stats_try db r u user page)))"
  by (simp add: stats_try_def redrawn_def Let_def split: sum.splits)

lemma stats_try_fields:
  assumes "fst (stats_try db r u user page) = Inr s"
  shows "totalSessions s = page_total page
         \<and> avgRating s = calculateAverageRating (page_sessions page)
         \<and> currentStreak s = int (calculateStreak (page_sessions page))
         \<and> totalPredictions s = random_int (random_try r) 50 20"
  using assms by (auto simp: stats_try_def Let_def split: sum.splits)

lemma random_int_range:
  assumes "0 \<le> x" "x < 1" "0 < k"
  shows "b \<le> random_int x k b \<and> random_int x k b < b + k"
proof -
  have "0 \<le> x * of_int k" using assms by simp
  then have lo: "0 \<le> \<lfloor>x * of_int k\<rfloor>" by simp
  have "x * of_int k < of_int k" using assms by simp
  then have hi: "\<lfloor>x * of_int k\<rfloor> < k" by (simp add: floor_less_iff)
  from lo hi show ?thesis by (simp add: random_int_def)
qed

lemma read_empty:
  "getUserProfile empty_state None r u
     = \<lparr>returned = getDefaultProfile r u, final = empty_state, calls = []\<rparr>"
  by (simp add: getUserProfile_def after_cache_miss_def memory_or_default_def empty_state_def)

lemma stats_try_default:
  "\<exists>s. fst (stats_try None r u (getDefaultProfile q u) page) = Inr s"
  by (simp add: stats_try_def counted_def getDefaultProfile_def buildCompleteProfile_def Let_def
      or_else_def)

lemma not_thrown_default: "\<not> stats_thrown empty_state None r u"
proof -
  obtain s where "fst (stats_try None r u (getDefaultProfile r u)
      (fst (getUserSessions empty_state None u 100 0))) = Inr s"
    using stats_try_default by blast
  then show ?thesis by (simp add: stats_thrown_def read_empty)
qed

lemma read_memory:
  "getUserProfile memory_only None r (JStr ''u1'')
     = \<lparr>returned = stored_profile, final = memory_only, calls = []\<rparr>"
  by (simp add: getUserProfile_def after_cache_miss_def memory_or_default_def memory_only_def
      stored_profile_def)

lemma thrown_stored: "stats_thrown memory_only None r (JStr ''u1'')"
  by (simp add: stats_thrown_def read_memory stats_try_def counted_def Let_def stored_profile_def)

text \<open>
  C8, as stated, fails: \<open>totalPredictions\<close> is \<open>Math.floor(Math.random() * 50) + 20\<close>.
  On the same state, store and clock, a draw of 0 gives 20 and a draw of 0.5 gives 45.
\<close>

theorem getUserStats_random_predictions_counterexample:
  "getUserProfile empty_state None (redrawn example_readings (1 / 2) 0 0) (JStr ''u2'')
     = getUserProfile empty_state None example_readings (JStr ''u2'')
   \<and> getUserSessions empty_state None (JStr ''u2'') 100 0
       = (\<lparr>page_sessions = [], page_total = 0, page_limit = 100, page_offset = 0\<rparr>, [])
   \<and> totalPredictions (returned (getUserStats empty_state None example_readings (JStr ''u2''))) = 20
   \<and> totalPredictions (returned (getUserStats empty_state None
         (redrawn example_readings (1 / 2) 0 0) (JStr ''u2''))) = 45"
proof -
  let ?u = "JStr ''u2''"
  let ?r' = "redrawn example_readings (1 / 2) 0 0"
  have a: "getUserProfile empty_state None ?r' ?u = getUserProfile empty_state None example_readings ?u"
    by (rule read_redrawn)
  have b: "getUserSessions empty_state None ?u 100 0
       = (\<lparr>page_sessions = [], page_total = 0, page_limit = 100, page_offset = 0\<rparr>, [])"
    by (simp add: getUserSessions_def getUserSessions_try_def memory_sessions_def empty_state_def)
  have c: "totalPredictions (returned (getUserStats empty_state None r ?u))
      = random_int (random_try r) 50 20" for r
  proof -
    obtain s where s: "fst (stats_try None r ?u (getDefaultProfile r ?u)
        (fst (getUserSessions empty_state None ?u 100 0))) = Inr s"
      using stats_try_default by blast
    then have "returned (getUserStats empty_state None r ?u) = s"
      by (simp add: getUserStats_def Let_def read_empty)
    with stats_try_fields [OF s] show ?thesis by simp
  qed
  have d: "random_int (random_try example_readings) 50 20 = 20"
    by (simp add: random_int_def example_readings_def)
  have e: "random_int (random_try ?r') 50 20 = 45"
    by (simp add: random_int_def redrawn_def)
  show ?thesis
    by (intro conjI a b) (simp_all only: c d e)
qed

text \<open>
  C8, amended. With the state, the store's answers and the clock fixed, two
  computations of \<open>getUserStats\<close> that differ in their random draws leave the same
  state, make the same store calls and agree on every field of the result other than
  \<open>totalPredictions\<close> and \<open>currentStreak\<close>. When the \<open>try\<close> block completes,
  \<open>currentStreak\<close> agrees too (it is the streak of the user's sessions) and
  \<open>totalPredictions\<close> follows the draw; when it throws, both follow the draws of the
  \<open>catch\<close> block. \<open>totalPredictions\<close> lies between 20 and 69.
\<close>

theorem getUserStats_varies_only_in_random_fields:
  "final (getUserStats st db (redrawn r x y z) u) = final (getUserStats st db r u)
   \<and> calls (getUserStats st db (redrawn r x y z) u) = calls (getUserStats st db r u)
   \<and> (returned (getUserStats st db (redrawn r x y z) u))\<lparr>totalPredictions := 0, currentStreak := 0\<rparr>
       = (returned (getUserStats st db r u))\<lparr>totalPredictions := 0, currentStreak := 0\<rparr>
   \<and> stats_thrown st db (redrawn r x y z) u = stats_thrown st db r u
   \<and> (\<not> stats_thrown st db r u \<longrightarrow>
        currentStreak (returned (getUserStats st db (redrawn r x y z) u))
          = currentStreak (returned (getUserStats st db r u))
        \<and> currentStreak (returned (getUserStats st db r u))
          = int (calculateStreak (memory_sessions (final (getUserProfile st db r u)) u 100 0))
        \<and> totalPredictions (returned (getUserStats st db r u)) = random_int (random_try r) 50 20)
   \<and> (stats_thrown st db r u \<longrightarrow>
        totalPredictions (returned (getUserStats st db r u))
          = random_int (random_catch_predictions r) 50 20
        \<and> currentStreak (returned (getUserStats st db r u))
          = random_int (random_catch_streak r) 10 1)
   \<and> (0 \<le> random_try r \<and> random_try r < 1
        \<and> 0 \<le> random_catch_predictions r \<and> random_catch_predictions r < 1 \<longrightarrow>
        20 \<le> totalPredictions (returned (getUserStats st db r u))
        \<and> totalPredictions (returned (getUserStats st db r u)) \<le> 69)"
proof -
  let ?rd = "getUserProfile st db r u"
  let ?page = "fst (getUserSessions (final ?rd) db u 100 0)"
  let ?t = "stats_try db r u (returned ?rd) ?page"
  let ?t' = "stats_try db (redrawn r x y z) u (returned ?rd) ?page"
  show ?thesis
  proof (cases "fst ?t")
    case (Inl e)
    then have t': "?t' = ?t" by (simp add: stats_try_redrawn)
    have th: "stats_thrown st db r u" "stats_thrown st db (redrawn r x y z) u"
      using Inl t' by (simp_all add: stats_thrown_def read_redrawn)
    have g: "getUserStats st db r u
        = \<lparr>returned =
              \<lparr>totalSessions = 0, avgRating = Fin 0, favoriteSpots = num 0, totalBoards = num 0,
               totalPredictions = random_int (random_catch_predictions r) 50 20,
               currentStreak = random_int (random_catch_streak r) 10 1,
               level = JUndefined, experience = JUndefined\<rparr>,
           final = final ?rd,
           calls = calls ?rd @ snd (getUserSessions (final ?rd) db u 100 0) @ snd ?t\<rparr>"
      using Inl by (simp add: getUserStats_def Let_def)
    have g': "getUserStats st db (redrawn r x y z) u
        = \<lparr>returned =
              \<lparr>totalSessions = 0, avgRating = Fin 0, favoriteSpots = num 0, totalBoards = num 0,
               totalPredictions = random_int y 50 20,
               currentStreak = random_int z 10 1,
               level = JUndefined, experience = JUndefined\<rparr>,
           final = final ?rd,
           calls = calls ?rd @ snd (getUserSessions (final ?rd) db u 100 0) @ snd ?t\<rparr>"
      using Inl t' by (simp add: getUserStats_def Let_def read_redrawn) (simp add: redrawn_def)
    have rng: "0 \<le> random_catch_predictions r \<and> random_catch_predictions r < 1 \<longrightarrow>
        20 \<le> random_int (random_catch_predictions r) 50 20
        \<and> random_int (random_catch_predictions r) 50 20 \<le> 69"
      using random_int_range [of "random_catch_predictions r" 50 20] by auto
    from th rng show ?thesis unfolding g g' by simp
  next
    case (Inr s)
    then have t': "?t' = (Inr (s\<lparr>totalPredictions := random_int x 50 20\<rparr>), snd ?t)"
      by (simp add: stats_try_redrawn)
    have th: "\<not> stats_thrown st db r u" "\<not> stats_thrown st db (redrawn r x y z) u"
      using Inr t' by (simp_all add: stats_thrown_def read_redrawn)
    have g: "getUserStats st db r u
        = \<lparr>returned = s, final = final ?rd,
           calls = calls ?rd @ snd (getUserSessions (final ?rd) db u 100 0) @ snd ?t\<rparr>"
      using Inr by (simp add: getUserStats_def Let_def)
    have g': "getUserStats st db (redrawn r x y z) u
        = \<lparr>returned = s\<lparr>totalPredictions := random_int x 50 20\<rparr>, final = final ?rd,
           calls = calls ?rd @ snd (getUserSessions (final ?rd) db u 100 0) @ snd ?t\<rparr>"
      using t' by (simp add: getUserStats_def Let_def read_redrawn)
    note f = stats_try_fields [OF Inr]
    have rng: "0 \<le> random_try r \<and> random_try r < 1 \<longrightarrow>
        20 \<le> random_int (random_try r) 50 20 \<and> random_int (random_try r) 50 20 \<le> 69"
      using random_int_range [of "random_try r" 50 20] by auto
    from th rng f show ?thesis unfolding g g' by (simp add: sessions_fallback)
  qed
qed

theorem getUserStats_varies_only_in_random_fields_witness:
  "\<not> stats_thrown empty_state None example_readings (JStr ''u2'')
   \<and> 0 \<le> random_try example_readings \<and> random_try example_readings < 1
   \<and> 0 \<le> random_catch_predictions example_readings
   \<and> random_catch_predictions example_readings < 1
   \<and> currentStreak (returned (getUserStats empty_state None
         (redrawn example_readings (1 / 2) (1 / 2) (1 / 2)) (JStr ''u2'')))
       = currentStreak (returned (getUserStats empty_state None example_readings (JStr ''u2'')))
   \<and> totalPredictions (returned (getUserStats empty_state None example_readings (JStr ''u2''))) = 20
   \<and> 20 \<le> totalPredictions (returned (getUserStats empty_state None example_readings (JStr ''u2'')))
   \<and> totalPredictions (returned (getUserStats empty_state None example_readings (JStr ''u2''))) \<le> 69
   \<and> stats_thrown memory_only None example_readings (JStr ''u1'')
   \<and> totalPredictions (returned (getUserStats memory_only None example_readings (JStr ''u1''))) = 20
   \<and> currentStreak (returned (getUserStats memory_only None example_readings (JStr ''u1''))) = 1"
proof -
  note ok = getUserStats_varies_only_in_random_fields
    [of empty_state None example_readings "1 / 2" "1 / 2" "1 / 2" "JStr ''u2''"]
  note thrown = getUserStats_varies_only_in_random_fields
    [of memory_only None example_readings "1 / 2" "1 / 2" "1 / 2" "JStr ''u1''"]
  have n: "\<not> stats_thrown empty_state None example_readings (JStr ''u2'')"
    by (rule not_thrown_default)
  have t: "stats_thrown memory_only None example_readings (JStr ''u1'')"
    by (rule thrown_stored)
  have r: "0 \<le> random_try example_readings" "random_try example_readings < 1"
    "0 \<le> random_catch_predictions example_readings" "random_catch_predictions example_readings < 1"
    by (simp_all add: example_readings_def)
  have v: "random_int (random_try example_readings) 50 20 = 20"
    "random_int (random_catch_predictions example_readings) 50 20 = 20"
    "random_int (random_catch_streak example_readings) 10 1 = 1"
    by (simp_all add: random_int_def example_readings_def)
  from ok n have a1: "currentStreak (returned (getUserStats empty_state None
         (redrawn example_readings (1 / 2) (1 / 2) (1 / 2)) (JStr ''u2'')))
       = currentStreak (returned (getUserStats empty_state None example_readings (JStr ''u2'')))"
    and a2: "totalPredictions (returned (getUserStats empty_state None example_readings (JStr ''u2'')))
       = random_int (random_try example_readings) 50 20"
    by blast+
  from ok r have a3: "20 \<le> totalPredictions (returned (getUserStats empty_state None
        example_readings (JStr ''u2'')))"
    and a4: "totalPredictions (returned (getUserStats empty_state None example_readings
        (JStr ''u2''))) \<le> 69"
    by blast+
  from thrown t have b1: "totalPredictions (returned (getUserStats memory_only None
        example_readings (JStr ''u1''))) = random_int (random_catch_predictions example_readings) 50 20"
    and b2: "currentStreak (returned (getUserStats memory_only None example_readings (JStr ''u1'')))
       = random_int (random_catch_streak example_readings) 10 1"
    by blast+
  show ?thesis
    using n t r a1 a2 a3 a4 b1 b2 unfolding v by (intro conjI)
qed

end
